theory Spec2Isabelle
  imports Complex_Main "HOL-Library.Monad_Syntax"
begin

section \<open>Values\<close>

text \<open>
  JavaScript values as they occur in schemas, mock payloads and workflow variables.
  Numbers are modelled by reals (the payloads hold decimal literals only). An object is
  the list of its own enumerable properties in \<open>Object.entries\<close> order, with distinct
  keys; an array is the list of its elements. Such values are plain data: objects and
  arrays have the standard prototypes, \<open>Object.prototype\<close> and \<open>Array.prototype\<close>.
  A property read on plain data can also yield what the value inherits: \<open>JPrototype p\<close>
  is the built-in prototype object \<open>p\<close> itself, and \<open>JFunction n\<close> is the built-in
  function stored under the qualified name \<open>n\<close>.
\<close>

datatype prototype = ObjectPrototype | ArrayPrototype

datatype jsval =
    JUndefined
  | JNull
  | JBool bool
  | JNum real
  | JStr string
  | JArr "jsval list"
  | JObj "(string \<times> jsval) list"
  | JPrototype prototype
  | JFunction string

text \<open>\<open>if (v)\<close> on a value: JavaScript truthiness.\<close>

fun truthy :: "jsval \<Rightarrow> bool" where
  "truthy JUndefined = False"
| "truthy JNull = False"
| "truthy (JBool b) = b"
| "truthy (JNum n) = (n \<noteq> 0)"
| "truthy (JStr s) = (s \<noteq> [])"
| "truthy (JArr xs) = True"
| "truthy (JObj kvs) = True"
| "truthy (JPrototype p) = True"
| "truthy (JFunction n) = True"

text \<open>
  \<open>typeof v === 'object'\<close> holds of objects, arrays, the prototype objects and \<open>null\<close>;
  a function has the type \<open>'function'\<close>.
\<close>

fun typeofObject :: "jsval \<Rightarrow> bool" where
  "typeofObject JNull = True"
| "typeofObject (JArr xs) = True"
| "typeofObject (JObj kvs) = True"
| "typeofObject (JPrototype p) = True"
| "typeofObject _ = False"

section \<open>Thrown values\<close>

text \<open>
  What a \<open>throw\<close> carries: an instance of \<open>Error\<close> (or of a subclass) with its name
  and message, or any other value. A computation that may throw returns \<open>exn + 'a\<close>,
  with \<open>Inl\<close> for the thrown value; a rejected promise is modelled the same way.
\<close>

datatype exn = ErrorObject string string | ThrownValue jsval

definition TypeError :: "string \<Rightarrow> exn" where
  "TypeError msg = ErrorObject ''TypeError'' msg"

section \<open>Property reads\<close>

text \<open>
  What the engine supplies to a property read \<open>v[k]\<close>: the names of the methods that
  \<open>Object.prototype\<close> and \<open>Array.prototype\<close> hold (the latter differ between editions of
  the language), and the outcome of a read on a primitive or a function, which the
  code modelled here never performs without a guard. Every statement below that
  mentions a realm holds for each realm.
\<close>

record realm =
  objectPrototypeMethods :: "string list"
  arrayPrototypeMethods :: "string list"
  otherMember :: "jsval \<Rightarrow> string \<Rightarrow> jsval"

text \<open>
  An array index is a canonical decimal numeral: digits only, no leading zero except
  for \<open>0\<close> itself.
\<close>

definition isDigit :: "char \<Rightarrow> bool" where
  "isDigit c = (48 \<le> (of_char c :: nat) \<and> (of_char c :: nat) \<le> 57)"

definition arrayIndex :: "string \<Rightarrow> nat option" where
  "arrayIndex k =
     (if k \<noteq> [] \<and> list_all isDigit k \<and> (length k = 1 \<or> hd k \<noteq> CHR ''0'')
      then Some (foldl (\<lambda>n c. 10 * n + ((of_char c :: nat) - 48)) 0 k)
      else None)"

text \<open>
  The own properties of plain data: the keys of an object; the indices in range and
  \<open>length\<close> of an array.
\<close>

fun segmentOf :: "jsval \<Rightarrow> string \<Rightarrow> jsval option" where
  "segmentOf (JObj kvs) k = map_of kvs k"
| "segmentOf (JArr xs) k =
     (if k = ''length'' then Some (JNum (real (length xs)))
      else (case arrayIndex k of
              None \<Rightarrow> None
            | Some i \<Rightarrow> (if i < length xs then Some (xs ! i) else None)))"
| "segmentOf _ k = None"

text \<open>The methods an object finds on \<open>Object.prototype\<close>, an array on \<open>Array.prototype\<close> first.\<close>

definition objectMethod :: "realm \<Rightarrow> string \<Rightarrow> jsval option" where
  "objectMethod realm k =
     (if k \<in> set (objectPrototypeMethods realm)
      then Some (JFunction (''Object.prototype.'' @ k)) else None)"

definition arrayMethod :: "realm \<Rightarrow> string \<Rightarrow> jsval option" where
  "arrayMethod realm k =
     (if k \<in> set (arrayPrototypeMethods realm)
      then Some (JFunction (''Array.prototype.'' @ k)) else objectMethod realm k)"

text \<open>
  The own properties of a value that has some: plain data as above; the prototype
  objects hold their methods, and \<open>Array.prototype\<close> is an empty array.
\<close>

fun ownMember :: "realm \<Rightarrow> jsval \<Rightarrow> string \<Rightarrow> jsval option" where
  "ownMember realm (JPrototype ObjectPrototype) k = objectMethod realm k"
| "ownMember realm (JPrototype ArrayPrototype) k =
     (if k = ''length'' then Some (JNum 0)
      else if k \<in> set (arrayPrototypeMethods realm)
      then Some (JFunction (''Array.prototype.'' @ k)) else None)"
| "ownMember realm v k = segmentOf v k"

text \<open>
  What a value inherits: the accessor \<open>__proto__\<close> yields the prototype (\<open>null\<close> for
  \<open>Object.prototype\<close>, which has none), any other name is looked up along the chain of
  prototypes.
\<close>

fun inheritedMember :: "realm \<Rightarrow> jsval \<Rightarrow> string \<Rightarrow> jsval option" where
  "inheritedMember realm (JObj kvs) k =
     (if k = ''__proto__'' then Some (JPrototype ObjectPrototype) else objectMethod realm k)"
| "inheritedMember realm (JArr xs) k =
     (if k = ''__proto__'' then Some (JPrototype ArrayPrototype) else arrayMethod realm k)"
| "inheritedMember realm (JPrototype ObjectPrototype) k =
     (if k = ''__proto__'' then Some JNull else None)"
| "inheritedMember realm (JPrototype ArrayPrototype) k =
     (if k = ''__proto__'' then Some (JPrototype ObjectPrototype) else objectMethod realm k)"
| "inheritedMember realm v k = None"

text \<open>
  The read \<open>v[k]\<close> on an object, an array or a prototype object: an own property
  first, an inherited member next, \<open>undefined\<close> otherwise.
\<close>

definition memberOf :: "realm \<Rightarrow> jsval \<Rightarrow> string \<Rightarrow> jsval" where
  "memberOf realm v k =
     (case ownMember realm v k of
        Some x \<Rightarrow> x
      | None \<Rightarrow> (case inheritedMember realm v k of Some m \<Rightarrow> m | None \<Rightarrow> JUndefined))"

text \<open>
  The read \<open>v[k]\<close> on any value. Reading a property of \<open>undefined\<close> or \<open>null\<close> throws a
  \<open>TypeError\<close>.
\<close>

fun getMember :: "realm \<Rightarrow> jsval \<Rightarrow> string \<Rightarrow> exn + jsval" where
  "getMember realm JUndefined k = Inl (TypeError ''Cannot read properties of undefined'')"
| "getMember realm JNull k = Inl (TypeError ''Cannot read properties of null'')"
| "getMember realm (JObj kvs) k = Inr (memberOf realm (JObj kvs) k)"
| "getMember realm (JArr xs) k = Inr (memberOf realm (JArr xs) k)"
| "getMember realm (JPrototype p) k = Inr (memberOf realm (JPrototype p) k)"
| "getMember realm v k = Inr (otherMember realm v k)"

section \<open>Schema descriptions\<close>

text \<open>
  A Zod schema is an object with a \<open>_def\<close> (dispatched on \<open>typeName\<close>) and an optional
  \<open>description\<close>. \<open>ZodOther n\<close> is a definition whose \<open>typeName\<close> is none of the names
  the traversals test for.

  The \<open>defaultValue\<close> of a \<open>ZodDefault\<close> is a thunk, and the traversals call it each
  time they meet it. What it returns may depend on the surroundings of the call (the
  clock, a counter it advances): \<open>'w\<close> is the state of these surroundings, and the
  thunk maps the state before the call to its value and the state after the call. The
  thunk that \<open>.default(v)\<close> builds from a value is \<open>\<lambda>w. (v, w)\<close>. Every traversal
  below takes the state at its start and returns the state at its end.
\<close>

datatype 'w zdef =
    ZodString
  | ZodNumber
  | ZodBoolean
  | ZodNull
  | ZodUndefined
  | ZodLiteral jsval
  | ZodEnum "string list"
  | ZodNativeEnum "(string \<times> jsval) list"
  | ZodArray "'w zschema"
  | ZodObject "(string \<times> 'w zschema) list"
  | ZodUnion "'w zschema list"
  | ZodDiscriminatedUnion "(string \<times> 'w zschema) list"
  | ZodOptional "'w zschema"
  | ZodNullable "'w zschema"
  | ZodDefault "'w zschema" "'w \<Rightarrow> jsval \<times> 'w"
  | ZodRecord "'w zschema"
  | ZodTuple "'w zschema list"
  | ZodPromise "'w zschema"
  | ZodEffects "'w zschema"
  | ZodUnknown
  | ZodAny
  | ZodOther string
and 'w zschema = ZodSchema (sdef: "'w zdef") (description: "string option")

section \<open>Mock synthesis\<close>

subsection \<open>The command-line playground (playground/src/utils/mock-generator.ts)\<close>

text \<open>
  \<open>generateShape\<close> is the loop over \<open>Object.entries(shape)\<close> of the \<open>ZodObject\<close> case and
  \<open>generateItems\<close> the \<open>items.map\<close> of the \<open>ZodTuple\<close> case; both visit their elements in
  order.
\<close>

fun generateFromDef :: "'w zdef \<Rightarrow> 'w \<Rightarrow> jsval \<times> 'w"
  and generateMockFromSchema :: "'w zschema \<Rightarrow> 'w \<Rightarrow> jsval \<times> 'w"
  and generateShape :: "(string \<times> 'w zschema) list \<Rightarrow> 'w \<Rightarrow> (string \<times> jsval) list \<times> 'w"
  and generateItems :: "'w zschema list \<Rightarrow> 'w \<Rightarrow> jsval list \<times> 'w" where
  "generateMockFromSchema (ZodSchema d desc) w = generateFromDef d w"
| "generateFromDef ZodString w = (JStr ''mock_string'', w)"
| "generateFromDef ZodNumber w = (JNum 42, w)"
| "generateFromDef ZodBoolean w = (JBool True, w)"
| "generateFromDef ZodNull w = (JNull, w)"
| "generateFromDef ZodUndefined w = (JUndefined, w)"
| "generateFromDef (ZodLiteral v) w = (v, w)"
| "generateFromDef (ZodEnum vals) w =
     ((case vals of [] \<Rightarrow> JUndefined | v # _ \<Rightarrow> JStr v), w)"
| "generateFromDef (ZodNativeEnum enumObj) w =
     ((case map snd enumObj of [] \<Rightarrow> JUndefined | v # _ \<Rightarrow> v), w)"
| "generateFromDef (ZodArray item) w =
     (case generateMockFromSchema item w of
        (first, w1) \<Rightarrow>
          (case generateMockFromSchema item w1 of
             (second, w2) \<Rightarrow> (JArr [first, second], w2)))"
| "generateFromDef (ZodObject shape) w =
     (case generateShape shape w of (result, w1) \<Rightarrow> (JObj result, w1))"
| "generateFromDef (ZodUnion opts) w =
     (case opts of [] \<Rightarrow> (JNull, w) | firstOpt # _ \<Rightarrow> generateMockFromSchema firstOpt w)"
| "generateFromDef (ZodDiscriminatedUnion discOptions) w =
     (case discOptions of [] \<Rightarrow> (JNull, w)
      | firstOption # _ \<Rightarrow> generateMockFromSchema (snd firstOption) w)"
| "generateFromDef (ZodOptional innerType) w = generateMockFromSchema innerType w"
| "generateFromDef (ZodNullable innerType) w = generateMockFromSchema innerType w"
| "generateFromDef (ZodDefault innerType defaultValue) w = defaultValue w"
| "generateFromDef (ZodRecord valueType) w =
     (case generateMockFromSchema valueType w of
        (first, w1) \<Rightarrow>
          (case generateMockFromSchema valueType w1 of
             (second, w2) \<Rightarrow> (JObj [(''key1'', first), (''key2'', second)], w2)))"
| "generateFromDef (ZodTuple items) w =
     (case generateItems items w of (vs, w1) \<Rightarrow> (JArr vs, w1))"
| "generateFromDef (ZodPromise promiseType) w = generateMockFromSchema promiseType w"
| "generateFromDef (ZodEffects effectsSchema) w = generateMockFromSchema effectsSchema w"
| "generateFromDef ZodUnknown w = (JObj [(''mock'', JStr ''data'')], w)"
| "generateFromDef ZodAny w = (JObj [(''mock'', JStr ''data'')], w)"
| "generateFromDef (ZodOther n) w = (JNull, w)"
| "generateShape [] w = ([], w)"
| "generateShape (entry # rest) w =
     (case generateMockFromSchema (snd entry) w of
        (v, w1) \<Rightarrow>
          (case generateShape rest w1 of (vs, w2) \<Rightarrow> ((fst entry, v) # vs, w2)))"
| "generateItems [] w = ([], w)"
| "generateItems (item # rest) w =
     (case generateMockFromSchema item w of
        (v, w1) \<Rightarrow> (case generateItems rest w1 of (vs, w2) \<Rightarrow> (v # vs, w2)))"

subsection \<open>The web playground (playground-web/src/lib/utils.ts)\<close>

fun generateFromDef_web :: "'w zdef \<Rightarrow> 'w \<Rightarrow> jsval \<times> 'w"
  and generateMockFromSchema_web :: "'w zschema \<Rightarrow> 'w \<Rightarrow> jsval \<times> 'w"
  and generateShape_web ::
    "(string \<times> 'w zschema) list \<Rightarrow> 'w \<Rightarrow> (string \<times> jsval) list \<times> 'w" where
  "generateMockFromSchema_web (ZodSchema d desc) w = generateFromDef_web d w"
| "generateFromDef_web ZodString w = (JStr ''mock_string'', w)"
| "generateFromDef_web ZodNumber w = (JNum 42, w)"
| "generateFromDef_web ZodBoolean w = (JBool True, w)"
| "generateFromDef_web ZodNull w = (JNull, w)"
| "generateFromDef_web ZodUndefined w = (JUndefined, w)"
| "generateFromDef_web (ZodLiteral v) w = (v, w)"
| "generateFromDef_web (ZodEnum vals) w =
     ((case vals of [] \<Rightarrow> JUndefined | v # _ \<Rightarrow> JStr v), w)"
| "generateFromDef_web (ZodArray item) w =
     (case generateMockFromSchema_web item w of (first, w1) \<Rightarrow> (JArr [first], w1))"
| "generateFromDef_web (ZodObject shape) w =
     (case generateShape_web shape w of (result, w1) \<Rightarrow> (JObj result, w1))"
| "generateFromDef_web (ZodOptional innerType) w = generateMockFromSchema_web innerType w"
| "generateFromDef_web (ZodNullable innerType) w = generateMockFromSchema_web innerType w"
| "generateFromDef_web (ZodDefault innerType defaultValue) w = defaultValue w"
| "generateFromDef_web (ZodNativeEnum enumObj) w = (JNull, w)"
| "generateFromDef_web (ZodUnion opts) w = (JNull, w)"
| "generateFromDef_web (ZodDiscriminatedUnion discOptions) w = (JNull, w)"
| "generateFromDef_web (ZodRecord valueType) w = (JNull, w)"
| "generateFromDef_web (ZodTuple items) w = (JNull, w)"
| "generateFromDef_web (ZodPromise promiseType) w = (JNull, w)"
| "generateFromDef_web (ZodEffects effectsSchema) w = (JNull, w)"
| "generateFromDef_web ZodUnknown w = (JNull, w)"
| "generateFromDef_web ZodAny w = (JNull, w)"
| "generateFromDef_web (ZodOther n) w = (JNull, w)"
| "generateShape_web [] w = ([], w)"
| "generateShape_web (entry # rest) w =
     (case generateMockFromSchema_web (snd entry) w of
        (v, w1) \<Rightarrow>
          (case generateShape_web rest w1 of (vs, w2) \<Rightarrow> ((fst entry, v) # vs, w2)))"

text \<open>
  A schema whose default thunks are all constant functions that leave the state as it
  is, as \<open>.default(v)\<close> builds them from a value.
\<close>

fun constantDefaults :: "'w zdef \<Rightarrow> bool"
  and constantDefaultsSchema :: "'w zschema \<Rightarrow> bool" where
  "constantDefaultsSchema (ZodSchema d desc) = constantDefaults d"
| "constantDefaults (ZodArray item) = constantDefaultsSchema item"
| "constantDefaults (ZodObject shape) = list_all (\<lambda>entry. constantDefaultsSchema (snd entry)) shape"
| "constantDefaults (ZodUnion opts) = list_all constantDefaultsSchema opts"
| "constantDefaults (ZodDiscriminatedUnion discOptions) =
     list_all (\<lambda>entry. constantDefaultsSchema (snd entry)) discOptions"
| "constantDefaults (ZodOptional innerType) = constantDefaultsSchema innerType"
| "constantDefaults (ZodNullable innerType) = constantDefaultsSchema innerType"
| "constantDefaults (ZodDefault innerType defaultValue) =
     ((\<exists>v. \<forall>w. defaultValue w = (v, w)) \<and> constantDefaultsSchema innerType)"
| "constantDefaults (ZodRecord valueType) = constantDefaultsSchema valueType"
| "constantDefaults (ZodTuple items) = list_all constantDefaultsSchema items"
| "constantDefaults (ZodPromise promiseType) = constantDefaultsSchema promiseType"
| "constantDefaults (ZodEffects effectsSchema) = constantDefaultsSchema effectsSchema"
| "constantDefaults _ = True"

section \<open>Named overrides\<close>

text \<open>
  The table \<open>customMocks\<close> is built inside \<open>generateMockOutput\<close> on every call. Two of its
  entries hold \<open>new Date().toISOString()\<close>; the two clock readings are the parameters
  \<open>nowReddit\<close> and \<open>nowTwitter\<close>.
\<close>

definition customMocks :: "string \<Rightarrow> string \<Rightarrow> (string \<times> jsval) list" where
  "customMocks nowReddit nowTwitter =
    [(''conditional'',
      JObj [(''conditionMet'', JBool True),
        (''selectedBranch'', JStr ''true'')]),
     (''end'',
      JObj [(''terminated'', JBool True),
        (''reason'', JStr ''Workflow completed successfully'')]),
     (''delay'',
      JObj [(''delayed'', JBool True),
        (''delayMs'', JNum 1000)]),
     (''map'',
      JObj [(''result'', JArr [JObj [(''transformed'', JStr ''item1'')],
          JObj [(''transformed'', JStr ''item2'')]])]),
     (''filter'',
      JObj [(''result'', JArr [JObj [(''passes'', JBool True)]]),
        (''originalCount'', JNum 3),
        (''filteredCount'', JNum 1)]),
     (''http_request'',
      JObj [(''status'', JNum 200),
        (''data'', JObj [(''message'', JStr ''Mock response'')]),
        (''headers'', JObj [(''content-type'', JStr ''application/json'')])]),
     (''search_contacts'',
      JObj [(''contacts'', JArr [JObj [(''id'', JStr ''mock_contact_1''),
            (''name'', JStr ''John Doe''),
            (''firstName'', JStr ''John''),
            (''lastName'', JStr ''Doe''),
            (''email'', JStr ''john.doe@example.com''),
            (''title'', JStr ''CTO''),
            (''company'', JStr ''Example Corp''),
            (''linkedinUrl'', JStr ''https://linkedin.com/in/johndoe''),
            (''location'', JStr ''San Francisco, CA'')],
          JObj [(''id'', JStr ''mock_contact_2''),
            (''name'', JStr ''Jane Smith''),
            (''firstName'', JStr ''Jane''),
            (''lastName'', JStr ''Smith''),
            (''email'', JStr ''jane.smith@example.com''),
            (''title'', JStr ''VP Engineering''),
            (''company'', JStr ''Tech Startup''),
            (''linkedinUrl'', JStr ''https://linkedin.com/in/janesmith''),
            (''location'', JStr ''New York, NY'')]]),
        (''totalFound'', JNum 2)]),
     (''reddit_monitor'',
      JObj [(''posts'', JArr [JObj [(''id'', JStr ''mock_post_1''),
            (''title'', JStr ''Mock Reddit Post''),
            (''author'', JStr ''mock_user''),
            (''subreddit'', JStr ''technology''),
            (''score'', JNum 150),
            (''url'', JStr ''https://reddit.com/r/technology/mock''),
            (''createdAt'', JStr nowReddit)]])]),
     (''twitter_monitor'',
      JObj [(''posts'', JArr [JObj [(''id'', JStr ''mock_tweet_1''),
            (''text'', JStr ''Mock tweet content''),
            (''author'', JStr ''mockuser''),
            (''likes'', JNum 50),
            (''retweets'', JNum 10),
            (''createdAt'', JStr nowTwitter)]])]),
     (''social_keyword_generator'',
      JObj [(''keywords'', JArr [JStr ''ai'',
          JStr ''machine learning'',
          JStr ''automation'',
          JStr ''workflow'']),
        (''hashtags'', JArr [JStr ''#AI'',
          JStr ''#ML'',
          JStr ''#Automation''])]),
     (''draft_emails'',
      JObj [(''drafts'', JArr [JObj [(''to'', JStr ''john.doe@example.com''),
            (''subject'', JStr ''Mock Email Subject''),
            (''body'', JStr ''This is a mock email body for testing purposes.'')]])])]"

text \<open>
  \<open>customMocks[nodeType]\<close> is a property read on the table, a plain object: a node type
  that is no key of the table but the name of an inherited member finds that member.
\<close>

definition generateMockOutput ::
  "realm \<Rightarrow> string \<Rightarrow> string \<Rightarrow> string \<Rightarrow> 'w zschema \<Rightarrow> 'w \<Rightarrow> jsval \<times> 'w" where
  "generateMockOutput realm nowReddit nowTwitter nodeType outputSchema w =
     (if truthy (memberOf realm (JObj (customMocks nowReddit nowTwitter)) nodeType)
      then (memberOf realm (JObj (customMocks nowReddit nowTwitter)) nodeType, w)
      else generateMockFromSchema outputSchema w)"

text \<open>
  The web playground's table \<open>MOCK_OUTPUTS\<close> is a module-level constant: its one clock
  reading happens when the module is loaded.
\<close>

definition MOCK_OUTPUTS :: "string \<Rightarrow> (string \<times> jsval) list" where
  "MOCK_OUTPUTS loadTime =
    [(''conditional'',
      JObj [(''conditionMet'', JBool True),
        (''selectedBranch'', JStr ''true'')]),
     (''end'',
      JObj [(''terminated'', JBool True),
        (''reason'', JStr ''Workflow completed'')]),
     (''delay'',
      JObj [(''waited'', JBool True),
        (''actualDurationMs'', JNum 1000)]),
     (''map'',
      JObj [(''results'', JArr [JStr ''value1'',
          JStr ''value2'',
          JStr ''value3'']),
        (''count'', JNum 3)]),
     (''filter'',
      JObj [(''results'', JArr [JObj [(''id'', JNum 1),
            (''status'', JStr ''active'')],
          JObj [(''id'', JNum 2),
            (''status'', JStr ''active'')]]),
        (''count'', JNum 2),
        (''filteredOut'', JNum 1)]),
     (''search_contacts'',
      JObj [(''contacts'', JArr [JObj [(''id'', JStr ''mock_1''),
            (''name'', JStr ''John Doe''),
            (''firstName'', JStr ''John''),
            (''lastName'', JStr ''Doe''),
            (''email'', JStr ''john.doe@example.com''),
            (''title'', JStr ''CTO''),
            (''company'', JStr ''Example Corp''),
            (''linkedinUrl'', JStr ''https://linkedin.com/in/johndoe''),
            (''location'', JStr ''San Francisco, CA'')]]),
        (''totalFound'', JNum 1)]),
     (''reddit_monitor'',
      JObj [(''posts'', JArr [JObj [(''id'', JStr ''mock_post''),
            (''title'', JStr ''Looking for SaaS recommendations''),
            (''author'', JStr ''tech_enthusiast''),
            (''subreddit'', JStr ''technology''),
            (''score'', JNum 156),
            (''url'', JStr ''https://reddit.com/r/technology/comments/abc123''),
            (''createdAt'', JStr loadTime)]])]),
     (''http_request'',
      JObj [(''statusCode'', JNum 200),
        (''headers'', JObj [(''content-type'', JStr ''application/json'')]),
        (''body'', JObj [(''success'', JBool True),
          (''data'', JObj [(''id'', JNum 1),
            (''message'', JStr ''Mock response'')])])]),
     (''social_ai_analyze'',
      JObj [(''analysis'', JArr [JObj [(''postId'', JStr ''post_1''),
            (''platform'', JStr ''twitter''),
            (''sentiment'', JStr ''positive''),
            (''sentimentScore'', JNum 0.85),
            (''relevanceScore'', JNum 0.92),
            (''urgencyScore'', JNum 0.45),
            (''topics'', JArr [JStr ''technology'',
              JStr ''startup'',
              JStr ''SaaS'']),
            (''intent'', JStr ''information_seeking''),
            (''summary'', JStr ''User expressing interest in new technology solutions for their startup.'')],
          JObj [(''postId'', JStr ''post_2''),
            (''platform'', JStr ''reddit''),
            (''sentiment'', JStr ''neutral''),
            (''sentimentScore'', JNum 0.52),
            (''relevanceScore'', JNum 0.78),
            (''urgencyScore'', JNum 0.3),
            (''topics'', JArr [JStr ''programming'',
              JStr ''tools'']),
            (''intent'', JStr ''recommendation_request''),
            (''summary'', JStr ''User asking for tool recommendations in a technical subreddit.'')]]),
        (''totalAnalyzed'', JNum 2),
        (''averageSentiment'', JNum 0.68),
        (''averageRelevance'', JNum 0.85)]),
     (''ai_generate'',
      JObj [(''generatedContent'', JStr ''This is AI-generated content based on your prompt. It demonstrates the capability of the AI generation node to create contextual responses.''),
        (''tokensUsed'', JNum 150),
        (''model'', JStr ''gpt-4'')]),
     (''ai_summarize'',
      JObj [(''summary'', JStr ''The provided content discusses key trends in technology and their impact on modern businesses.''),
        (''keyPoints'', JArr [JStr ''Technology adoption is accelerating'',
          JStr ''AI is transforming workflows'',
          JStr ''Cloud infrastructure is essential'']),
        (''wordCount'', JNum 45)])]"

definition getMockOutput ::
  "realm \<Rightarrow> string \<Rightarrow> string \<Rightarrow> 'w zschema \<Rightarrow> 'w \<Rightarrow> jsval \<times> 'w" where
  "getMockOutput realm loadTime nodeType outputSchema w =
     (if truthy (memberOf realm (JObj (MOCK_OUTPUTS loadTime)) nodeType)
      then (memberOf realm (JObj (MOCK_OUTPUTS loadTime)) nodeType, w)
      else generateMockFromSchema_web outputSchema w)"

section \<open>Field derivation\<close>

subsection \<open>The web form (playground-web/src/components/InputForm.tsx)\<close>

datatype field_type = FText | FNumber | FCheckbox | FSelect | FTextarea | FArray

record FieldConfig =
  field_name :: string
  field_label :: string
  field_type :: field_type
  field_required :: bool
  field_default :: jsval
  field_options :: "string list option"
  field_description :: "string option"

text \<open>
  The label is \<open>key.replace(/([A-Z])/g, ' $1').replace(/^./, s => s.toUpperCase())\<close>,
  here for keys of ASCII characters.
\<close>

definition isUpperAZ :: "char \<Rightarrow> bool" where
  "isUpperAZ c = (65 \<le> (of_char c :: nat) \<and> (of_char c :: nat) \<le> 90)"

definition toUpperCase :: "char \<Rightarrow> char" where
  "toUpperCase c =
     (if 97 \<le> (of_char c :: nat) \<and> (of_char c :: nat) \<le> 122
      then char_of ((of_char c :: nat) - 32) else c)"

fun spaceBeforeCapitals :: "string \<Rightarrow> string" where
  "spaceBeforeCapitals [] = []"
| "spaceBeforeCapitals (c # cs) =
     (if isUpperAZ c then CHR '' '' # c # spaceBeforeCapitals cs
      else c # spaceBeforeCapitals cs)"

definition labelOf :: "string \<Rightarrow> string" where
  "labelOf key =
     (case spaceBeforeCapitals key of [] \<Rightarrow> [] | c # cs \<Rightarrow> toUpperCase c # cs)"

text \<open>
  The block commented "Unwrap optional/default" of the loop body: the triple
  \<open>(isRequired, innerDef, defaultValue)\<close> it leaves behind, and the state after the
  call of the default thunk. One outermost \<open>ZodOptional\<close> or \<open>ZodDefault\<close> is removed;
  every other definition, \<open>ZodNullable\<close> included, stays as it is.
\<close>

definition unwrapOptionalDefault :: "'w zdef \<Rightarrow> 'w \<Rightarrow> (bool \<times> 'w zdef \<times> jsval) \<times> 'w" where
  "unwrapOptionalDefault fieldDef w =
     (case fieldDef of
        ZodOptional innerType \<Rightarrow> ((False, sdef innerType, JUndefined), w)
      | ZodDefault innerType defaultValue \<Rightarrow>
          (case defaultValue w of (v, w1) \<Rightarrow> ((False, sdef innerType, v), w1))
      | _ \<Rightarrow> ((True, fieldDef, JUndefined), w))"

text \<open>The block commented "Determine field type": \<open>(fieldType, options)\<close>.\<close>

definition determineFieldType :: "'w zdef \<Rightarrow> field_type \<times> string list option" where
  "determineFieldType innerDef =
     (case innerDef of
        ZodNumber \<Rightarrow> (FNumber, None)
      | ZodBoolean \<Rightarrow> (FCheckbox, None)
      | ZodEnum vals \<Rightarrow> (FSelect, Some vals)
      | ZodArray _ \<Rightarrow> (FArray, None)
      | ZodObject _ \<Rightarrow> (FTextarea, None)
      | ZodRecord _ \<Rightarrow> (FTextarea, None)
      | _ \<Rightarrow> (FText, None))"

text \<open>
  One iteration of the loop over \<open>Object.entries(shape)\<close>. The helper
  \<open>getExampleValue\<close> is a table of name heuristics that also reads the clock; the
  derivation takes it as a parameter, so every statement below holds for each of its
  possible behaviours.
\<close>

definition extractField ::
  "(string \<Rightarrow> field_type \<Rightarrow> string list option \<Rightarrow> 'w \<Rightarrow> jsval \<times> 'w)
     \<Rightarrow> string \<times> 'w zschema \<Rightarrow> 'w \<Rightarrow> FieldConfig \<times> 'w" where
  "extractField getExampleValue entry w =
     (let key = fst entry;
          fieldSchema = snd entry
      in (case unwrapOptionalDefault (sdef fieldSchema) w of
            ((isRequired, innerDef, defaultValue), w1) \<Rightarrow>
          (case determineFieldType innerDef of
            (fieldType, options) \<Rightarrow>
          (case (if defaultValue = JUndefined then getExampleValue key fieldType options w1
                 else (defaultValue, w1)) of
            (shownDefault, w2) \<Rightarrow>
              (\<lparr> field_name = key,
                 field_label = labelOf key,
                 field_type = fieldType,
                 field_required = isRequired,
                 field_default = shownDefault,
                 field_options = options,
                 field_description = description fieldSchema \<rparr>, w2)))))"

fun extractFields ::
  "(string \<Rightarrow> field_type \<Rightarrow> string list option \<Rightarrow> 'w \<Rightarrow> jsval \<times> 'w)
     \<Rightarrow> (string \<times> 'w zschema) list \<Rightarrow> 'w \<Rightarrow> FieldConfig list \<times> 'w" where
  "extractFields getExampleValue [] w = ([], w)"
| "extractFields getExampleValue (entry # rest) w =
     (case extractField getExampleValue entry w of
        (field, w1) \<Rightarrow>
          (case extractFields getExampleValue rest w1 of
             (others, w2) \<Rightarrow> (field # others, w2)))"

definition extractFieldsFromSchema ::
  "(string \<Rightarrow> field_type \<Rightarrow> string list option \<Rightarrow> 'w \<Rightarrow> jsval \<times> 'w)
     \<Rightarrow> 'w zschema \<Rightarrow> 'w \<Rightarrow> FieldConfig list \<times> 'w" where
  "extractFieldsFromSchema getExampleValue schema w =
     (case sdef schema of
        ZodObject shape \<Rightarrow> extractFields getExampleValue shape w
      | _ \<Rightarrow> ([], w))"

subsection \<open>The command-line prompts (generatePromptsFromSchema)\<close>

datatype prompt_type = PInput | PNumber | PConfirm | PList | PEditor

record Prompt =
  prompt_name :: string
  prompt_message :: string
  prompt_type :: prompt_type
  prompt_default :: jsval
  prompt_choices :: "(string \<times> jsval) list option"
  prompt_required :: bool

definition determinePromptType ::
  "'w zdef \<Rightarrow> prompt_type \<times> (string \<times> jsval) list option" where
  "determinePromptType innerDef =
     (case innerDef of
        ZodNumber \<Rightarrow> (PNumber, None)
      | ZodBoolean \<Rightarrow> (PConfirm, None)
      | ZodEnum vals \<Rightarrow> (PList, Some (map (\<lambda>v. (v, JStr v)) vals))
      | ZodArray _ \<Rightarrow> (PInput, None)
      | ZodObject _ \<Rightarrow> (PEditor, None)
      | _ \<Rightarrow> (PInput, None))"

definition isOptionalDef :: "'w zdef \<Rightarrow> bool" where
  "isOptionalDef fieldDef =
     (case fieldDef of ZodOptional _ \<Rightarrow> True | ZodDefault _ _ \<Rightarrow> True | _ \<Rightarrow> False)"

definition promptFor :: "string \<Rightarrow> string \<times> 'w zschema \<Rightarrow> 'w \<Rightarrow> Prompt \<times> 'w" where
  "promptFor prefix entry w =
     (let key = fst entry;
          fieldSchema = snd entry;
          fieldDef = sdef fieldSchema;
          fullKey = (if prefix \<noteq> [] then prefix @ ''.'' @ key else key);
          isOptional = isOptionalDef fieldDef
      in (case unwrapOptionalDefault fieldDef w of
            ((isRequired, innerDef, defaultValue), w1) \<Rightarrow>
          (case determinePromptType innerDef of
            (promptType, choices) \<Rightarrow>
              (let descr = (case description fieldSchema of
                              None \<Rightarrow> key
                            | Some d \<Rightarrow> (if d = [] then key else d))
               in (\<lparr> prompt_name = fullKey,
                      prompt_message = descr @ (if isOptional then '' (optional)'' else '' *''),
                      prompt_type = promptType,
                      prompt_default = defaultValue,
                      prompt_choices = choices,
                      prompt_required = (\<not> isOptional) \<rparr>, w1)))))"

fun promptsFor :: "string \<Rightarrow> (string \<times> 'w zschema) list \<Rightarrow> 'w \<Rightarrow> Prompt list \<times> 'w" where
  "promptsFor prefix [] w = ([], w)"
| "promptsFor prefix (entry # rest) w =
     (case promptFor prefix entry w of
        (prompt, w1) \<Rightarrow>
          (case promptsFor prefix rest w1 of (others, w2) \<Rightarrow> (prompt # others, w2)))"

definition generatePromptsFromSchema ::
  "'w zschema \<Rightarrow> string \<Rightarrow> 'w \<Rightarrow> Prompt list \<times> 'w" where
  "generatePromptsFromSchema schema prefix w =
     (case sdef schema of
        ZodObject shape \<Rightarrow> promptsFor prefix shape w
      | _ \<Rightarrow> ([], w))"

definition isZodObject :: "'w zdef \<Rightarrow> bool" where
  "isZodObject d = (case d of ZodObject _ \<Rightarrow> True | _ \<Rightarrow> False)"

definition isWrapper :: "'w zdef \<Rightarrow> bool" where
  "isWrapper d =
     (case d of ZodOptional _ \<Rightarrow> True | ZodNullable _ \<Rightarrow> True | ZodDefault _ _ \<Rightarrow> True
      | _ \<Rightarrow> False)"

section \<open>Execution context: resolveNestedPath\<close>

text \<open>\<open>path.split('.')\<close>: the result always has at least one segment.\<close>

fun split :: "char \<Rightarrow> string \<Rightarrow> string list" where
  "split sep [] = [[]]"
| "split sep (c # cs) =
     (if c = sep then [] # split sep cs
      else (case split sep cs of [] \<Rightarrow> [[c]] | p # ps \<Rightarrow> (c # p) # ps))"

text \<open>
  The loop \<open>for (const part of parts)\<close> with its running value \<open>current\<close>, and the
  resolver of both playgrounds (api/execute/route.ts and the run command).
\<close>

fun walkParts :: "realm \<Rightarrow> jsval \<Rightarrow> string list \<Rightarrow> exn + jsval" where
  "walkParts realm current [] = Inr current"
| "walkParts realm current (part # parts) =
     (if truthy current \<and> typeofObject current
      then (case getMember realm current part of
              Inl e \<Rightarrow> Inl e
            | Inr v \<Rightarrow> walkParts realm v parts)
      else Inr JUndefined)"

definition resolveNestedPath :: "realm \<Rightarrow> jsval \<Rightarrow> string \<Rightarrow> exn + jsval" where
  "resolveNestedPath realm variables path = walkParts realm variables (split CHR ''.'' path)"

text \<open>
  The specification's reading of the walk, for comparison: a value is indexable when
  it is an object or an array; a segment of an indexable value is present when it names
  an own property; the path resolves when every segment is present in an indexable
  value.
\<close>

fun indexable :: "jsval \<Rightarrow> bool" where
  "indexable (JArr xs) = True"
| "indexable (JObj kvs) = True"
| "indexable _ = False"

fun spec_resolve :: "jsval \<Rightarrow> string list \<Rightarrow> jsval option" where
  "spec_resolve v [] = Some v"
| "spec_resolve v (seg # segs) =
     (if indexable v
      then (case segmentOf v seg of None \<Rightarrow> None | Some w \<Rightarrow> spec_resolve w segs)
      else None)"

text \<open>
  A realm for the examples: the methods of \<open>Object.prototype\<close>, and those of
  \<open>Array.prototype\<close> that every edition since ES2015 has.
\<close>

definition exampleRealm :: realm where
  "exampleRealm =
     \<lparr> objectPrototypeMethods =
         [''constructor'', ''__defineGetter__'', ''__defineSetter__'', ''hasOwnProperty'',
          ''__lookupGetter__'', ''__lookupSetter__'', ''isPrototypeOf'',
          ''propertyIsEnumerable'', ''toString'', ''valueOf'', ''toLocaleString''],
       arrayPrototypeMethods =
         [''constructor'', ''concat'', ''copyWithin'', ''fill'', ''find'', ''findIndex'',
          ''lastIndexOf'', ''pop'', ''push'', ''reverse'', ''shift'', ''unshift'', ''slice'',
          ''sort'', ''splice'', ''includes'', ''indexOf'', ''join'', ''keys'', ''entries'',
          ''values'', ''forEach'', ''filter'', ''map'', ''every'', ''some'', ''reduce'',
          ''reduceRight'', ''toLocaleString'', ''toString''],
       otherMember = (\<lambda>v k. JUndefined) \<rparr>"

section \<open>Resilient fetch\<close>

text \<open>
  Modelled from the spec: \<open>fetchWithRetry\<close> and \<open>FetchRetryError\<close> live in
  \<open>utils/http.ts\<close>, which is re-exported by \<open>utils/index.ts\<close> but is not among the
  source files. The definition follows section 4.2 of the specification: one logical
  call performs up to \<open>maxRetries + 1\<close> physical attempts; a network-level failure, a
  timed-out attempt and a response with status at least 500 are retried after waiting
  \<open>backoffMs\<close>; any other response is handed to the caller at once, with \<open>ok\<close> telling
  whether the status is in the 2xx range; when the attempts are used up, the call fails
  with a typed error that carries the last observed status or message.
  The endpoint is the outcome of each physical attempt, by attempt number.
\<close>

datatype attempt = NetworkFailure string | TimedOut | Responded nat string

record FetchWithRetryOptions =
  maxRetries :: nat
  backoffMs :: nat
  timeoutMs :: nat

record ResponseHandle =
  handle_ok :: bool
  handle_status :: nat
  handle_text :: string

datatype FetchRetryError = FetchRetryError "nat option" string

record 'a fetch_run =
  outcome :: 'a
  attempts :: nat
  waitedMs :: nat

definition lastFailure :: "attempt \<Rightarrow> FetchRetryError" where
  "lastFailure a =
     (case a of
        NetworkFailure msg \<Rightarrow> FetchRetryError None msg
      | TimedOut \<Rightarrow> FetchRetryError None ''Request timed out''
      | Responded st txt \<Rightarrow> FetchRetryError (Some st) txt)"

definition retryable :: "attempt \<Rightarrow> bool" where
  "retryable a = (case a of Responded st txt \<Rightarrow> 500 \<le> st | _ \<Rightarrow> True)"

definition handleOf :: "attempt \<Rightarrow> ResponseHandle" where
  "handleOf a =
     (case a of
        Responded st txt \<Rightarrow> \<lparr> handle_ok = (200 \<le> st \<and> st < 300), handle_status = st, handle_text = txt \<rparr>
      | _ \<Rightarrow> \<lparr> handle_ok = False, handle_status = 0, handle_text = [] \<rparr>)"

fun attemptLoop ::
  "(nat \<Rightarrow> attempt) \<Rightarrow> nat \<Rightarrow> nat \<Rightarrow> nat \<Rightarrow> nat \<Rightarrow> (FetchRetryError + ResponseHandle) fetch_run" where
  "attemptLoop endpoint backoff 0 i waited =
     (if retryable (endpoint i)
      then \<lparr> outcome = Inl (lastFailure (endpoint i)), attempts = Suc i, waitedMs = waited \<rparr>
      else \<lparr> outcome = Inr (handleOf (endpoint i)), attempts = Suc i, waitedMs = waited \<rparr>)"
| "attemptLoop endpoint backoff (Suc retriesLeft) i waited =
     (if retryable (endpoint i)
      then attemptLoop endpoint backoff retriesLeft (Suc i) (waited + backoff)
      else \<lparr> outcome = Inr (handleOf (endpoint i)), attempts = Suc i, waitedMs = waited \<rparr>)"

definition fetchWithRetry ::
  "(nat \<Rightarrow> attempt) \<Rightarrow> FetchWithRetryOptions \<Rightarrow> (FetchRetryError + ResponseHandle) fetch_run" where
  "fetchWithRetry endpoint policy =
     attemptLoop endpoint (backoffMs policy) (maxRetries policy) 0 0"

section \<open>Node executors: shared parts\<close>

text \<open>
  The result of an executor: \<open>{success: true, output}\<close> or \<open>{success: false, error}\<close>.
  An executor is an \<open>async\<close> function; its promise either resolves to a result (\<open>Inr\<close>)
  or rejects with a thrown value (\<open>Inl\<close>).
\<close>

datatype 'o NodeExecutionResult = Success 'o | Failure string

text \<open>
  The \<open>catch (error)\<close> clause that closes every executor body:
  \<open>error instanceof Error ? error.message : fallback\<close>.
\<close>

definition catchToFailure ::
  "string \<Rightarrow> exn + 'o NodeExecutionResult \<Rightarrow> exn + 'o NodeExecutionResult" where
  "catchToFailure fallback body =
     (case body of
        Inr result \<Rightarrow> Inr result
      | Inl (ErrorObject n msg) \<Rightarrow> Inr (Failure msg)
      | Inl (ThrownValue v) \<Rightarrow> Inr (Failure fallback))"

text \<open>
  The execution context as the executors read it, and
  \<open>context.credentials?.<service>?.apiKey\<close>.
\<close>

record NodeExecutionContext =
  userId :: string
  workflowExecutionId :: string
  variables :: "(string \<times> jsval) list"
  credentials :: "(string \<times> (string \<times> string) list) list option"

definition credentialsApiKey :: "NodeExecutionContext \<Rightarrow> string \<Rightarrow> string option" where
  "credentialsApiKey context service =
     (case credentials context of
        None \<Rightarrow> None
      | Some creds \<Rightarrow>
          (case map_of creds service of None \<Rightarrow> None | Some c \<Rightarrow> map_of c ''apiKey''))"

text \<open>\<open>!s\<close> for an optional string: absent or empty.\<close>

definition missing :: "string option \<Rightarrow> bool" where
  "missing s = (case s of None \<Rightarrow> True | Some v \<Rightarrow> v = [])"

text \<open>
  What \<open>await fetchWithRetry(...)\<close> hands back to its caller: it rejects, or it yields a
  response with \<open>ok\<close>, \<open>status\<close> and the two body readers \<open>text()\<close> and \<open>json()\<close>, each of
  which may reject in turn. The payload of \<open>json()\<close> has the type of the interface the
  source casts it to.
\<close>

record 'a Response =
  ok :: bool
  status :: nat
  textBody :: "exn + string"
  jsonBody :: "exn + 'a"

text \<open>A number in a template literal: its decimal numeral.\<close>

fun decimal :: "nat \<Rightarrow> string" where
  "decimal n =
     (if n < 10 then [char_of (48 + n)]
      else decimal (n div 10) @ [char_of (48 + n mod 10)])"

declare decimal.simps [simp del]

text \<open>
  \<open>s.match(/\[[\s\S]*\]/)\<close> and \<open>s.match(/\{[\s\S]*\}/)\<close>: the text from the first
  opening bracket to the last closing bracket after it.
\<close>

definition matchBracketed :: "char \<Rightarrow> char \<Rightarrow> string \<Rightarrow> string option" where
  "matchBracketed opening closing s =
     (let r = dropWhile (\<lambda>c. c \<noteq> opening) s
      in if r = [] then None
         else if closing \<in> set (tl r)
              then Some (hd r # rev (dropWhile (\<lambda>c. c \<noteq> closing) (rev (tl r))))
              else None)"

text \<open>\<open>[...new Set(xs)]\<close>: duplicates removed, first occurrences kept in order.\<close>

definition uniqueInOrder :: "'a list \<Rightarrow> 'a list" where
  "uniqueInOrder xs = rev (remdups (rev xs))"

subsection \<open>generateText (the same function in the three AI node files)\<close>

record ContentBlock =
  block_type :: string
  block_text :: string

record AnthropicMessagesResponse =
  content :: "ContentBlock list"

definition generateText ::
  "exn + AnthropicMessagesResponse Response \<Rightarrow> exn + string" where
  "generateText fetched =
     (case fetched of
        Inl e \<Rightarrow> Inl e
      | Inr response \<Rightarrow>
          (if \<not> ok response
           then (case textBody response of
                   Inl e \<Rightarrow> Inl e
                 | Inr errorText \<Rightarrow>
                     Inl (ErrorObject ''Error''
                            (''Anthropic API error: '' @ decimal (status response)
                             @ '' - '' @ errorText)))
           else (case jsonBody response of
                   Inl e \<Rightarrow> Inl e
                 | Inr data \<Rightarrow>
                     Inr (case content data of [] \<Rightarrow> [] | c # _ \<Rightarrow> block_text c))))"

section \<open>The draft_emails executor (nodes/src/ai/draft-emails.ts)\<close>

record Contact =
  contact_id :: string
  contact_name :: string
  contact_email :: "string option"
  contact_title :: "string option"
  contact_company :: "string option"

record DraftEmailsInput =
  contacts :: "Contact list"
  productDescription :: string
  emailTemplate :: "string option"

record DraftEmailInfo =
  draft_id :: string
  toEmail :: string
  toName :: string
  toCompany :: string
  toTitle :: string
  subject :: string
  body :: string
  draft_status :: string

record DraftEmailsOutput =
  emails :: "DraftEmailInfo list"
  draftedCount :: nat

text \<open>
  What the executor's surroundings supply. The prompt helpers of
  \<open>prompts/draft-emails.ts\<close> are not among the source files; each is a parameter that
  returns its string or throws. \<open>anthropic k prompt\<close> is the outcome of the \<open>k\<close>-th
  call of \<open>fetchWithRetry\<close> made during the execution, and \<open>dateNow k\<close> is \<open>Date.now()\<close>
  read after \<open>k\<close> such calls.
\<close>

record anthropic_api =
  anthropic :: "nat \<Rightarrow> string \<Rightarrow> exn + AnthropicMessagesResponse Response"

record draft_env = anthropic_api +
  builtins :: realm
  buildEmailPrompt :: "Contact \<Rightarrow> string \<Rightarrow> jsval \<Rightarrow> string option \<Rightarrow> exn + string"
  buildSubjectPrompt :: "Contact \<Rightarrow> string \<Rightarrow> exn + string"
  cleanEmailBody :: "string \<Rightarrow> exn + string"
  cleanSubjectLine :: "string \<Rightarrow> exn + string"
  dateNow :: "nat \<Rightarrow> nat"

text \<open>
  The body of the inner \<open>try\<close> for one contact: the draft it pushes, or the thrown
  value, together with the number of calls of \<open>fetchWithRetry\<close> it made.
\<close>

definition draftOne ::
  "'e draft_env_scheme \<Rightarrow> DraftEmailsInput \<Rightarrow> jsval \<Rightarrow> Contact \<Rightarrow> string \<Rightarrow> nat
     \<Rightarrow> (exn + DraftEmailInfo) \<times> nat" where
  "draftOne env input senderName contact email k =
     (case buildEmailPrompt env contact (productDescription input) senderName
             (emailTemplate input) of
        Inl e \<Rightarrow> (Inl e, k)
      | Inr emailPrompt \<Rightarrow>
     (case generateText (anthropic env k emailPrompt) of
        Inl e \<Rightarrow> (Inl e, Suc k)
      | Inr rawBody \<Rightarrow>
     (case cleanEmailBody env rawBody of
        Inl e \<Rightarrow> (Inl e, Suc k)
      | Inr emailBody \<Rightarrow>
     (case buildSubjectPrompt env contact emailBody of
        Inl e \<Rightarrow> (Inl e, Suc k)
      | Inr subjectPrompt \<Rightarrow>
     (case generateText (anthropic env (Suc k) subjectPrompt) of
        Inl e \<Rightarrow> (Inl e, Suc (Suc k))
      | Inr rawSubject \<Rightarrow>
     (case cleanSubjectLine env rawSubject of
        Inl e \<Rightarrow> (Inl e, Suc (Suc k))
      | Inr emailSubject \<Rightarrow>
          (Inr \<lparr> draft_id = ''draft-'' @ contact_id contact @ ''-''
                             @ decimal (dateNow env (Suc (Suc k))),
                 toEmail = email,
                 toName = contact_name contact,
                 toCompany = (case contact_company contact of None \<Rightarrow> [] | Some c \<Rightarrow> c),
                 toTitle = (case contact_title contact of None \<Rightarrow> [] | Some t \<Rightarrow> t),
                 subject = emailSubject,
                 body = emailBody,
                 draft_status = ''draft'' \<rparr>,
           Suc (Suc k))))))))"

text \<open>
  The loop \<open>for (const contact of input.contacts)\<close>: a contact without an email is
  passed over; the inner \<open>catch\<close> drops the thrown value and goes on with the next
  contact.
\<close>

fun draftLoop ::
  "'e draft_env_scheme \<Rightarrow> DraftEmailsInput \<Rightarrow> jsval \<Rightarrow> Contact list \<Rightarrow> nat \<Rightarrow> DraftEmailInfo list
     \<Rightarrow> DraftEmailInfo list" where
  "draftLoop env input senderName [] k drafted = drafted"
| "draftLoop env input senderName (contact # rest) k drafted =
     (case contact_email contact of
        None \<Rightarrow> draftLoop env input senderName rest k drafted
      | Some email \<Rightarrow>
          (if email = [] then draftLoop env input senderName rest k drafted
           else (case draftOne env input senderName contact email k of
                   (Inl e, k') \<Rightarrow> draftLoop env input senderName rest k' drafted
                 | (Inr draft, k') \<Rightarrow>
                     draftLoop env input senderName rest k' (drafted @ [draft]))))"

definition draftEmailsBody ::
  "'e draft_env_scheme \<Rightarrow> DraftEmailsInput \<Rightarrow> NodeExecutionContext
     \<Rightarrow> exn + DraftEmailsOutput NodeExecutionResult" where
  "draftEmailsBody env input context =
     (if missing (credentialsApiKey context ''anthropic'')
      then Inr (Failure
        ''Anthropic API key not configured. Please provide context.credentials.anthropic.apiKey.'')
      else if \<not> truthy (memberOf (builtins env) (JObj (variables context)) ''senderName'')
      then Inr (Failure
        ''Please set senderName in context.variables before creating email campaigns.'')
      else (let drafted = draftLoop env input
                            (memberOf (builtins env) (JObj (variables context)) ''senderName'')
                            (contacts input) 0 []
            in Inr (Success \<lparr> emails = drafted, draftedCount = length drafted \<rparr>)))"

definition draftEmailsExecutor ::
  "'e draft_env_scheme \<Rightarrow> DraftEmailsInput \<Rightarrow> NodeExecutionContext
     \<Rightarrow> exn + DraftEmailsOutput NodeExecutionResult" where
  "draftEmailsExecutor env input context =
     catchToFailure ''Failed to draft emails'' (draftEmailsBody env input context)"

section \<open>The social_keyword_generator executor (nodes/src/ai/keyword-generator.ts)\<close>

text \<open>
  The value of \<open>JSON.parse(jsonMatch[0])\<close> under the type the source gives it. A part
  that the response leaves out is \<open>None\<close>: reading a property of a missing platform
  object, or spreading a missing keyword array, throws a \<open>TypeError\<close>.
\<close>

record ParsedTwitter =
  parsed_twitter_keywords :: "string list option"
  parsed_twitter_searchQuery :: "string option"

record ParsedReddit =
  parsed_reddit_keywords :: "string list option"

record ParsedLinkedIn =
  parsed_linkedin_keywords :: "string list option"
  parsed_linkedin_searchQueries :: "string list option"

record ParsedKeywords =
  parsed_twitter :: "ParsedTwitter option"
  parsed_reddit :: "ParsedReddit option"
  parsed_linkedin :: "ParsedLinkedIn option"

record SocialKeywordGeneratorInput =
  keyword_topic :: string
  userKeywords :: "string list option"

record SocialKeywordGeneratorOutput =
  out_topic :: string
  out_twitter_keywords :: "string list"
  out_twitter_searchQuery :: "string option"
  out_reddit_keywords :: "string list"
  out_linkedin_keywords :: "string list"
  out_linkedin_searchQueries :: "string list option"
  allKeywords :: "string list"

record keyword_env = anthropic_api +
  buildKeywordPrompt :: "string \<Rightarrow> string list option \<Rightarrow> exn + string"
  parseKeywords :: "string \<Rightarrow> exn + ParsedKeywords"

definition platformPart :: "'a option \<Rightarrow> exn + 'a" where
  "platformPart part =
     (case part of
        None \<Rightarrow> Inl (TypeError ''Cannot read properties of undefined'')
      | Some p \<Rightarrow> Inr p)"

definition spreadKeywords :: "string list option \<Rightarrow> exn + string list" where
  "spreadKeywords ks =
     (case ks of None \<Rightarrow> Inl (TypeError ''undefined is not iterable'') | Some xs \<Rightarrow> Inr xs)"

definition orEmpty :: "'a list option \<Rightarrow> 'a list" where
  "orEmpty xs = (case xs of None \<Rightarrow> [] | Some ys \<Rightarrow> ys)"

text \<open>The statements after the two parsing steps, from the merges to the result.\<close>

definition mergeKeywords ::
  "SocialKeywordGeneratorInput \<Rightarrow> ParsedKeywords
     \<Rightarrow> exn + SocialKeywordGeneratorOutput NodeExecutionResult" where
  "mergeKeywords input parsed =
     (case platformPart (parsed_twitter parsed) of Inl e \<Rightarrow> Inl e | Inr tw \<Rightarrow>
     (case spreadKeywords (parsed_twitter_keywords tw) of Inl e \<Rightarrow> Inl e | Inr twKeys \<Rightarrow>
     (case platformPart (parsed_reddit parsed) of Inl e \<Rightarrow> Inl e | Inr rd \<Rightarrow>
     (case spreadKeywords (parsed_reddit_keywords rd) of Inl e \<Rightarrow> Inl e | Inr rdKeys \<Rightarrow>
     (case platformPart (parsed_linkedin parsed) of Inl e \<Rightarrow> Inl e | Inr li \<Rightarrow>
     (case spreadKeywords (parsed_linkedin_keywords li) of Inl e \<Rightarrow> Inl e | Inr liKeys \<Rightarrow>
       (let mergedTwitterKeywords = uniqueInOrder (twKeys @ orEmpty (userKeywords input));
            mergedRedditKeywords = uniqueInOrder (rdKeys @ orEmpty (userKeywords input));
            mergedLinkedInKeywords = uniqueInOrder (liKeys @ orEmpty (userKeywords input))
        in Inr (Success
             \<lparr> out_topic = keyword_topic input,
               out_twitter_keywords = mergedTwitterKeywords,
               out_twitter_searchQuery = parsed_twitter_searchQuery tw,
               out_reddit_keywords = mergedRedditKeywords,
               out_linkedin_keywords = mergedLinkedInKeywords,
               out_linkedin_searchQueries = parsed_linkedin_searchQueries li,
               allKeywords = uniqueInOrder
                 (mergedTwitterKeywords @ mergedRedditKeywords @ mergedLinkedInKeywords)
             \<rparr>))))))))"

definition keywordGeneratorBody ::
  "'e keyword_env_scheme \<Rightarrow> SocialKeywordGeneratorInput \<Rightarrow> NodeExecutionContext
     \<Rightarrow> exn + SocialKeywordGeneratorOutput NodeExecutionResult" where
  "keywordGeneratorBody env input context =
     (if missing (credentialsApiKey context ''anthropic'')
      then Inr (Failure
        ''Anthropic API key not configured. Please provide context.credentials.anthropic.apiKey.'')
      else
     (case buildKeywordPrompt env (keyword_topic input) (userKeywords input) of
        Inl e \<Rightarrow> Inl e
      | Inr prompt \<Rightarrow>
     (case generateText (anthropic env 0 prompt) of
        Inl e \<Rightarrow> Inl e
      | Inr responseText \<Rightarrow>
     (case matchBracketed CHR ''{'' CHR ''}'' responseText of
        None \<Rightarrow> Inr (Failure ''Could not parse keyword response'')
      | Some jsonMatch \<Rightarrow>
     (case parseKeywords env jsonMatch of
        Inl e \<Rightarrow> Inr (Failure ''Failed to parse keyword JSON response'')
      | Inr parsed \<Rightarrow> mergeKeywords input parsed)))))"

definition socialKeywordGeneratorExecutor ::
  "'e keyword_env_scheme \<Rightarrow> SocialKeywordGeneratorInput \<Rightarrow> NodeExecutionContext
     \<Rightarrow> exn + SocialKeywordGeneratorOutput NodeExecutionResult" where
  "socialKeywordGeneratorExecutor env input context =
     catchToFailure ''Failed to generate keywords'' (keywordGeneratorBody env input context)"

section \<open>The social_ai_analyze executor (nodes/src/ai/analyze-posts.ts)\<close>

text \<open>
  A post carries its \<open>id\<close> and further fields, which the executor copies unchanged
  (\<open>...originalPost\<close>). The element type of the parsed response is the one of the cast in
  the source; \<open>aiSummary\<close> and \<open>matchedKeywords\<close> may be absent and are then defaulted.
\<close>

record SocialPost =
  post_id :: string
  post_fields :: "(string \<times> jsval) list"

record Analysis =
  analysis_id :: string
  analysis_relevanceScore :: real
  analysis_sentiment :: string
  analysis_isComplaint :: bool
  analysis_urgencyLevel :: string
  analysis_aiSummary :: "string option"
  analysis_matchedKeywords :: "string list option"

record AnalyzedPost =
  originalPost :: SocialPost
  relevanceScore :: real
  sentiment :: string
  isComplaint :: bool
  urgencyLevel :: string
  aiSummary :: string
  matchedKeywords :: "string list"

record SocialAiAnalyzeInput =
  twitterPosts :: "SocialPost list option"
  redditPosts :: "SocialPost list option"
  linkedinPosts :: "SocialPost list option"
  posts :: "SocialPost list option"
  topic :: string
  userIntent :: "string option"

record SocialAiAnalyzeOutput =
  analyzedPosts :: "AnalyzedPost list"
  highPriorityPosts :: "AnalyzedPost list"
  complaints :: "AnalyzedPost list"
  totalAnalyzed :: nat
  highPriorityCount :: nat
  complaintCount :: nat
  averageRelevance :: int

text \<open>
  The module \<open>prompts/analyze-posts.ts\<close> is not among the source files: its two
  constants and three helpers are parameters, the helpers returning their value or
  throwing. \<open>parseAnalyses\<close> is \<open>JSON.parse\<close> followed by the cast.
\<close>

record analyze_env = anthropic_api +
  buildAnalysisPrompt :: "string \<Rightarrow> string option \<Rightarrow> SocialPost list \<Rightarrow> exn + string"
  normalizeSentiment :: "string \<Rightarrow> exn + string"
  normalizeUrgency :: "string \<Rightarrow> exn + string"
  MIN_RELEVANCE_SCORE :: real
  ANALYSIS_BATCH_SIZE :: nat
  parseAnalyses :: "string \<Rightarrow> exn + Analysis list"

text \<open>
  The loop \<open>for (const analysis of analyzed)\<close> inside the inner \<open>try\<close>: when a helper
  throws, the posts pushed so far stay and the rest of the batch is dropped.
\<close>

fun mergeAnalyses ::
  "'e analyze_env_scheme \<Rightarrow> SocialPost list \<Rightarrow> Analysis list \<Rightarrow> AnalyzedPost list
     \<Rightarrow> AnalyzedPost list" where
  "mergeAnalyses env batch [] acc = acc"
| "mergeAnalyses env batch (analysis # rest) acc =
     (case find (\<lambda>p. post_id p = analysis_id analysis) batch of
        None \<Rightarrow> mergeAnalyses env batch rest acc
      | Some original \<Rightarrow>
          (if MIN_RELEVANCE_SCORE env \<le> analysis_relevanceScore analysis
           then (case normalizeSentiment env (analysis_sentiment analysis) of
                   Inl e \<Rightarrow> acc
                 | Inr sent \<Rightarrow>
                (case normalizeUrgency env (analysis_urgencyLevel analysis) of
                   Inl e \<Rightarrow> acc
                 | Inr urg \<Rightarrow>
                     mergeAnalyses env batch rest
                       (acc @ [\<lparr> originalPost = original,
                                  relevanceScore = analysis_relevanceScore analysis,
                                  sentiment = sent,
                                  isComplaint = analysis_isComplaint analysis,
                                  urgencyLevel = urg,
                                  aiSummary = (case analysis_aiSummary analysis of
                                                 None \<Rightarrow> [] | Some t \<Rightarrow> t),
                                  matchedKeywords =
                                    orEmpty (analysis_matchedKeywords analysis) \<rparr>])))
           else mergeAnalyses env batch rest acc))"

text \<open>
  What one batch adds once its response text is there: nothing when the text holds no
  bracketed array or when parsing throws.
\<close>

definition analyzeBatch ::
  "'e analyze_env_scheme \<Rightarrow> SocialPost list \<Rightarrow> string \<Rightarrow> AnalyzedPost list
     \<Rightarrow> AnalyzedPost list" where
  "analyzeBatch env batch responseText acc =
     (case matchBracketed CHR ''['' CHR '']'' responseText of
        None \<Rightarrow> acc
      | Some jsonMatch \<Rightarrow>
          (case parseAnalyses env jsonMatch of
             Inl e \<Rightarrow> acc
           | Inr analyzed \<Rightarrow> mergeAnalyses env batch analyzed acc))"

text \<open>
  The loop \<open>for (let i = 0; i < allPosts.length; i += ANALYSIS_BATCH_SIZE)\<close>. With a
  batch size of zero it would never end, so the loop is a partial function: \<open>None\<close> is
  the run that does not return.
\<close>

partial_function (option) analyzeLoop ::
  "'e analyze_env_scheme \<Rightarrow> SocialAiAnalyzeInput \<Rightarrow> SocialPost list \<Rightarrow> nat \<Rightarrow> nat
     \<Rightarrow> AnalyzedPost list \<Rightarrow> (exn + AnalyzedPost list) option" where
  "analyzeLoop env input allPosts i k acc =
     (if i < length allPosts
      then (let batch = take (ANALYSIS_BATCH_SIZE env) (drop i allPosts)
            in (case buildAnalysisPrompt env (topic input) (userIntent input) batch of
                  Inl e \<Rightarrow> Some (Inl e)
                | Inr prompt \<Rightarrow>
               (case generateText (anthropic env k prompt) of
                  Inl e \<Rightarrow> Some (Inl e)
                | Inr responseText \<Rightarrow>
                    analyzeLoop env input allPosts (i + ANALYSIS_BATCH_SIZE env) (Suc k)
                      (analyzeBatch env batch responseText acc))))
      else Some (Inr acc))"

text \<open>\<open>Math.round\<close> rounds to the nearest integer, halves upwards.\<close>

definition mathRound :: "real \<Rightarrow> int" where
  "mathRound x = \<lfloor>x + 1 / 2\<rfloor>"

text \<open>
  The statements after the loop. \<open>Array.prototype.sort\<close> is stable, so sorting with the
  comparator \<open>b.relevanceScore - a.relevanceScore\<close> is a stable sort on the negated score.
\<close>

definition summarize :: "AnalyzedPost list \<Rightarrow> SocialAiAnalyzeOutput" where
  "summarize allAnalyzedPosts =
     (let sorted_posts = sort_key (\<lambda>p. - relevanceScore p) allAnalyzedPosts;
          highPriority =
            filter (\<lambda>p. urgencyLevel p = ''high'' \<or> 80 \<le> relevanceScore p) sorted_posts;
          complaintPosts = filter isComplaint sorted_posts
      in \<lparr> analyzedPosts = sorted_posts,
           highPriorityPosts = highPriority,
           complaints = complaintPosts,
           totalAnalyzed = length sorted_posts,
           highPriorityCount = length highPriority,
           complaintCount = length complaintPosts,
           averageRelevance =
             (if 0 < length sorted_posts
              then mathRound (sum_list (map relevanceScore sorted_posts)
                              / real (length sorted_posts))
              else 0) \<rparr>)"

definition socialAiAnalyzeBody ::
  "'e analyze_env_scheme \<Rightarrow> SocialAiAnalyzeInput \<Rightarrow> NodeExecutionContext
     \<Rightarrow> (exn + SocialAiAnalyzeOutput NodeExecutionResult) option" where
  "socialAiAnalyzeBody env input context =
     (if missing (credentialsApiKey context ''anthropic'')
      then Some (Inr (Failure
        ''Anthropic API key not configured. Please provide context.credentials.anthropic.apiKey.''))
      else (let allPosts = orEmpty (twitterPosts input) @ orEmpty (redditPosts input)
                           @ orEmpty (linkedinPosts input) @ orEmpty (posts input)
            in if length allPosts = 0
               then Some (Inr (Success
                      \<lparr> analyzedPosts = [], highPriorityPosts = [], complaints = [],
                        totalAnalyzed = 0, highPriorityCount = 0, complaintCount = 0,
                        averageRelevance = 0 \<rparr>))
               else (case analyzeLoop env input allPosts 0 0 [] of
                       None \<Rightarrow> None
                     | Some (Inl e) \<Rightarrow> Some (Inl e)
                     | Some (Inr allAnalyzedPosts) \<Rightarrow>
                         Some (Inr (Success (summarize allAnalyzedPosts))))))"

definition socialAiAnalyzeExecutor ::
  "'e analyze_env_scheme \<Rightarrow> SocialAiAnalyzeInput \<Rightarrow> NodeExecutionContext
     \<Rightarrow> (exn + SocialAiAnalyzeOutput NodeExecutionResult) option" where
  "socialAiAnalyzeExecutor env input context =
     map_option (catchToFailure ''Failed to analyze posts'')
       (socialAiAnalyzeBody env input context)"

section \<open>The search_contacts executor (nodes/src/integrations/apollo/search-contacts.ts)\<close>

text \<open>A property typed \<open>T | null\<close> and optional: left out, \<open>null\<close>, or a value.\<close>

datatype 'a nullish = Absent | IsNull | Present 'a

text \<open>\<open>s || other\<close> for such a string: the string when it is there and not empty.\<close>

definition stringOr :: "string nullish \<Rightarrow> string \<Rightarrow> string" where
  "stringOr s other = (case s of Present v \<Rightarrow> (if v = [] then other else v) | _ \<Rightarrow> other)"

record ApolloOrganization =
  organization_id :: "string nullish"
  organization_name_of :: string
  organization_website_url :: "string nullish"
  organization_linkedin_url :: "string nullish"
  organization_industry :: "string nullish"
  organization_estimated_num_employees :: "real nullish"

record ApolloPerson =
  person_id :: string
  first_name :: string
  last_name :: "string nullish"
  last_name_obfuscated :: "string nullish"
  person_name :: "string nullish"
  email :: "string nullish"
  has_email :: "bool nullish"
  title :: string
  linkedin_url :: "string nullish"
  organization_name :: "string nullish"
  organization :: "ApolloOrganization nullish"
  city :: "string nullish"
  state :: "string nullish"
  country :: "string nullish"

record ApolloPagination =
  pagination_page :: real
  pagination_per_page :: real
  pagination_total_entries :: real
  pagination_total_pages :: real

record ApolloSearchResponse =
  people :: "ApolloPerson list nullish"
  total_entries :: "real nullish"
  pagination :: "ApolloPagination nullish"

record ApolloEnrichResponse =
  person :: "ApolloPerson nullish"

record SearchContactsInput =
  personTitles :: "string list option"
  personLocations :: "string list option"
  organizationLocations :: "string list option"
  employeeRanges :: "string list option"
  search_keywords :: "string option"
  limit :: real
  includeSimilarTitles :: "bool option"
  personSeniorities :: "string list option"
  technologies :: "string list option"
  industryTagIds :: "string list option"
  departments :: "string list option"

record FoundContact =
  found_id :: string
  found_name :: string
  found_firstName :: string
  found_lastName :: "string option"
  found_email :: string
  found_title :: string
  found_company :: string
  found_linkedinUrl :: "string nullish"
  found_location :: "string option"

record SearchContactsOutput =
  found_contacts :: "FoundContact list"
  totalFound :: nat

text \<open>
  The request body of the search: a property guarded by
  \<open>...(xs && xs.length > 0 && {...})\<close> is present only for a non-empty list.
\<close>

definition nonEmptyList :: "'a list option \<Rightarrow> 'a list option" where
  "nonEmptyList xs = (case xs of None \<Rightarrow> None | Some ys \<Rightarrow> (if ys = [] then None else Some ys))"

record ApolloSearchRequest =
  person_titles :: "string list option"
  person_locations :: "string list"
  include_similar_titles :: bool
  page :: nat
  per_page :: real
  q_keywords :: "string option"
  person_seniorities :: "string list option"
  organization_locations :: "string list option"
  organization_num_employees_ranges :: "string list option"
  currently_using_any_of_technology_uids :: "string list option"
  organization_industry_tag_ids :: "string list option"
  person_departments :: "string list option"

definition searchRequestBody :: "SearchContactsInput \<Rightarrow> ApolloSearchRequest" where
  "searchRequestBody input =
     (let params_limit = min (if limit input = 0 then 10 else limit input) 100
      in \<lparr> person_titles = nonEmptyList (personTitles input),
           person_locations =
             (case nonEmptyList (personLocations input) of
                None \<Rightarrow> [''United States''] | Some ls \<Rightarrow> ls),
           include_similar_titles =
             (case includeSimilarTitles input of None \<Rightarrow> True | Some b \<Rightarrow> b),
           page = 1,
           per_page = min (if params_limit = 0 then 100 else params_limit) 100,
           q_keywords =
             (case search_keywords input of None \<Rightarrow> None
              | Some q \<Rightarrow> (if q = [] then None else Some q)),
           person_seniorities = nonEmptyList (personSeniorities input),
           organization_locations = nonEmptyList (organizationLocations input),
           organization_num_employees_ranges = nonEmptyList (employeeRanges input),
           currently_using_any_of_technology_uids = nonEmptyList (technologies input),
           organization_industry_tag_ids = nonEmptyList (industryTagIds input),
           person_departments = nonEmptyList (departments input) \<rparr>)"

text \<open>
  The two calls of \<open>fetchWithRetry\<close>: the search with its request body, and the \<open>k\<close>-th
  enrichment call with the person's id.
\<close>

record apollo_api =
  apolloSearch :: "ApolloSearchRequest \<Rightarrow> exn + ApolloSearchResponse Response"
  apolloEnrich :: "nat \<Rightarrow> string \<Rightarrow> exn + ApolloEnrichResponse Response"

definition throwUnlessOk :: "string \<Rightarrow> 'a Response \<Rightarrow> exn + 'a" where
  "throwUnlessOk what response =
     (if \<not> ok response
      then (case textBody response of
              Inl e \<Rightarrow> Inl e
            | Inr errorText \<Rightarrow>
                Inl (ErrorObject ''Error''
                       (what @ decimal (status response) @ '' - '' @ errorText)))
      else jsonBody response)"

definition searchApolloContacts ::
  "apollo_api \<Rightarrow> SearchContactsInput \<Rightarrow> exn + ApolloPerson list" where
  "searchApolloContacts api input =
     (case apolloSearch api (searchRequestBody input) of
        Inl e \<Rightarrow> Inl e
      | Inr response \<Rightarrow>
     (case throwUnlessOk ''Apollo API error: '' response of
        Inl e \<Rightarrow> Inl e
      | Inr data \<Rightarrow>
          (let allPeople = (case people data of Present ps \<Rightarrow> ps | _ \<Rightarrow> [])
           in Inr (filter (\<lambda>p. has_email p = Present True) allPeople))))"

definition enrichApolloContact ::
  "apollo_api \<Rightarrow> nat \<Rightarrow> string \<Rightarrow> exn + ApolloPerson option" where
  "enrichApolloContact api k personId =
     (case apolloEnrich api k personId of
        Inl e \<Rightarrow> Inl e
      | Inr response \<Rightarrow>
     (case throwUnlessOk ''Apollo enrich error: '' response of
        Inl e \<Rightarrow> Inl e
      | Inr data \<Rightarrow> Inr (case person data of Present p \<Rightarrow> Some p | _ \<Rightarrow> None)))"

text \<open>\<open>String.prototype.trim\<close>, for the white space of ASCII.\<close>

definition isSpace :: "char \<Rightarrow> bool" where
  "isSpace c = ((of_char c :: nat) = 32 \<or> (9 \<le> (of_char c :: nat) \<and> (of_char c :: nat) \<le> 13))"

definition trim :: "string \<Rightarrow> string" where
  "trim s = rev (dropWhile isSpace (rev (dropWhile isSpace s)))"

fun joinWith :: "string \<Rightarrow> string list \<Rightarrow> string" where
  "joinWith sep [] = []"
| "joinWith sep [x] = x"
| "joinWith sep (x # y # ys) = x @ sep @ joinWith sep (y # ys)"

text \<open>The contact pushed for an enriched person whose email is \<open>enrichedEmail\<close>.\<close>

definition toContact :: "ApolloPerson \<Rightarrow> string \<Rightarrow> FoundContact" where
  "toContact enriched enrichedEmail =
     (let lastName = stringOr (last_name enriched) (stringOr (last_name_obfuscated enriched) []);
          spelled = trim (first_name enriched @ '' '' @ lastName);
          fullName = stringOr (person_name enriched)
                       (if spelled = [] then ''Unknown'' else spelled);
          company = stringOr (organization_name enriched)
                      (case organization enriched of
                         Present org \<Rightarrow>
                           (if organization_name_of org = [] then ''Unknown''
                            else organization_name_of org)
                       | _ \<Rightarrow> ''Unknown'');
          place = joinWith '', ''
                    (filter (\<lambda>s. s \<noteq> [])
                       (map (\<lambda>s. stringOr s []) [city enriched, state enriched, country enriched]))
      in \<lparr> found_id = person_id enriched,
           found_name = fullName,
           found_firstName = first_name enriched,
           found_lastName = (if lastName = [] then None else Some lastName),
           found_email = enrichedEmail,
           found_title = title enriched,
           found_company = company,
           found_linkedinUrl = linkedin_url enriched,
           found_location = (if place = [] then None else Some place) \<rparr>)"

text \<open>
  The loop \<open>for (const contact of results)\<close>: a result without an id is passed over; the
  inner \<open>catch\<close> drops a failed enrichment and goes on with the next result.
\<close>

fun enrichLoop ::
  "apollo_api \<Rightarrow> ApolloPerson list \<Rightarrow> nat \<Rightarrow> FoundContact list \<Rightarrow> FoundContact list" where
  "enrichLoop api [] k enrichedContacts = enrichedContacts"
| "enrichLoop api (contact # rest) k enrichedContacts =
     (if person_id contact = [] then enrichLoop api rest k enrichedContacts
      else (case enrichApolloContact api k (person_id contact) of
              Inl e \<Rightarrow> enrichLoop api rest (Suc k) enrichedContacts
            | Inr None \<Rightarrow> enrichLoop api rest (Suc k) enrichedContacts
            | Inr (Some enriched) \<Rightarrow>
                (case email enriched of
                   Present enrichedEmail \<Rightarrow>
                     (if enrichedEmail = []
                      then enrichLoop api rest (Suc k) enrichedContacts
                      else enrichLoop api rest (Suc k)
                             (enrichedContacts @ [toContact enriched enrichedEmail]))
                 | _ \<Rightarrow> enrichLoop api rest (Suc k) enrichedContacts)))"

definition searchContactsBody ::
  "apollo_api \<Rightarrow> SearchContactsInput \<Rightarrow> NodeExecutionContext
     \<Rightarrow> exn + SearchContactsOutput NodeExecutionResult" where
  "searchContactsBody api input context =
     (if missing (credentialsApiKey context ''apollo'')
      then Inr (Failure
        ''Apollo API key not configured. Please provide context.credentials.apollo.apiKey.'')
      else (case searchApolloContacts api input of
              Inl e \<Rightarrow> Inl e
            | Inr results \<Rightarrow>
                (if length results = 0
                 then Inr (Success \<lparr> found_contacts = [], totalFound = 0 \<rparr>)
                 else Inr (Success \<lparr> found_contacts = enrichLoop api results 0 [],
                                      totalFound = length results \<rparr>))))"

definition searchContactsExecutor ::
  "apollo_api \<Rightarrow> SearchContactsInput \<Rightarrow> NodeExecutionContext
     \<Rightarrow> exn + SearchContactsOutput NodeExecutionResult" where
  "searchContactsExecutor api input context =
     catchToFailure ''Failed to search contacts'' (searchContactsBody api input context)"

section \<open>Example runs\<close>

text \<open>
  A context that carries an API key for both services and a sender name, and a response
  of the Anthropic API whose first content block holds the given text.
\<close>

definition exampleContext :: NodeExecutionContext where
  "exampleContext =
     \<lparr> userId = ''playground'', workflowExecutionId = ''playground_1'',
       variables = [(''senderName'', JStr ''Ada'')],
       credentials = Some [(''anthropic'', [(''apiKey'', ''sk-test'')]),
                           (''apollo'', [(''apiKey'', ''ap-test'')])] \<rparr>"

definition textResponse :: "string \<Rightarrow> exn + AnthropicMessagesResponse Response" where
  "textResponse t =
     Inr \<lparr> ok = True, status = 200, textBody = Inr t,
           jsonBody = Inr \<lparr> content = [\<lparr> block_type = ''text'', block_text = t \<rparr>] \<rparr> \<rparr>"

text \<open>
  Two posts analysed in batches of one: the first response holds no JSON array, the
  second one analyses the second post with score 90.
\<close>

definition exampleAnalyzeEnv :: analyze_env where
  "exampleAnalyzeEnv =
     \<lparr> anthropic = (\<lambda>k prompt.
         if k = 0 then textResponse ''I cannot answer that.''
         else textResponse ''Here you go: [analysis of p2]''),
       buildAnalysisPrompt = (\<lambda>t u batch. Inr (''Analyze: '' @ t)),
       normalizeSentiment = (\<lambda>s. Inr s),
       normalizeUrgency = (\<lambda>s. Inr s),
       MIN_RELEVANCE_SCORE = 30,
       ANALYSIS_BATCH_SIZE = 1,
       parseAnalyses = (\<lambda>s.
         Inr [\<lparr> analysis_id = ''p2'', analysis_relevanceScore = 90,
                analysis_sentiment = ''negative'', analysis_isComplaint = True,
                analysis_urgencyLevel = ''low'', analysis_aiSummary = None,
                analysis_matchedKeywords = Some [''slow''] \<rparr>]) \<rparr>"

definition exampleAnalyzeInput :: SocialAiAnalyzeInput where
  "exampleAnalyzeInput =
     \<lparr> twitterPosts = Some [\<lparr> post_id = ''p1'', post_fields = [] \<rparr>],
       redditPosts = None,
       linkedinPosts = None,
       posts = Some [\<lparr> post_id = ''p2'', post_fields = [] \<rparr>],
       topic = ''project management'',
       userIntent = None \<rparr>"

definition exampleAnalyzed :: AnalyzedPost where
  "exampleAnalyzed =
     \<lparr> originalPost = \<lparr> post_id = ''p2'', post_fields = [] \<rparr>,
       relevanceScore = 90, sentiment = ''negative'', isComplaint = True,
       urgencyLevel = ''low'', aiSummary = [], matchedKeywords = [''slow''] \<rparr>"

definition exampleAnalyzeOutput :: SocialAiAnalyzeOutput where
  "exampleAnalyzeOutput =
     \<lparr> analyzedPosts = [exampleAnalyzed], highPriorityPosts = [exampleAnalyzed],
       complaints = [exampleAnalyzed], totalAnalyzed = 1, highPriorityCount = 1,
       complaintCount = 1, averageRelevance = 90 \<rparr>"


text \<open>
  A keyword generation whose call of the Anthropic API is rejected after the retries.
\<close>

definition exampleKeywordEnv :: keyword_env where
  "exampleKeywordEnv =
     \<lparr> anthropic = (\<lambda>k prompt. Inl (ErrorObject ''FetchRetryError'' ''HTTP 500'')),
       buildKeywordPrompt = (\<lambda>t u. Inr (''Keywords for: '' @ t)),
       parseKeywords = (\<lambda>s. Inl (ErrorObject ''SyntaxError'' ''Unexpected token'')) \<rparr>"

definition exampleKeywordInput :: SocialKeywordGeneratorInput where
  "exampleKeywordInput = \<lparr> keyword_topic = ''project management'', userKeywords = None \<rparr>"




text \<open>
  A search that finds three people, two of them flagged \<open>has_email\<close>; the enrichment of
  the first of these is rejected, the second one reveals an email.
\<close>

definition examplePerson :: "string \<Rightarrow> string \<Rightarrow> bool \<Rightarrow> string nullish \<Rightarrow> ApolloPerson" where
  "examplePerson pid first flagged mail =
     \<lparr> person_id = pid, first_name = first, last_name = Present ''Doe'',
       last_name_obfuscated = Absent, person_name = Absent, email = mail,
       has_email = Present flagged, title = ''CTO'', linkedin_url = IsNull,
       organization_name = Absent, organization = Absent,
       city = Present ''Berlin'', state = IsNull, country = Present ''Germany'' \<rparr>"

definition exampleApollo :: apollo_api where
  "exampleApollo =
     \<lparr> apolloSearch = (\<lambda>request.
         Inr \<lparr> ok = True, status = 200, textBody = Inr [],
               jsonBody = Inr \<lparr> people = Present
                   [examplePerson ''a'' ''Ann'' False Absent,
                    examplePerson ''b'' ''Ben'' True Absent,
                    examplePerson ''c'' ''Cleo'' True Absent],
                 total_entries = Absent, pagination = Absent \<rparr> \<rparr>),
       apolloEnrich = (\<lambda>k personId.
         if k = 0 then Inl (ErrorObject ''FetchRetryError'' ''HTTP 500'')
         else Inr \<lparr> ok = True, status = 200, textBody = Inr [],
                    jsonBody = Inr \<lparr> person = Present
                      (examplePerson ''c'' ''Cleo'' True (Present ''cleo@example.com'')) \<rparr> \<rparr>)
     \<rparr>"

definition exampleSearchInput :: SearchContactsInput where
  "exampleSearchInput =
     \<lparr> personTitles = Some [''CTO''], personLocations = None, organizationLocations = None,
       employeeRanges = None, search_keywords = None, limit = 10,
       includeSimilarTitles = None, personSeniorities = None, technologies = None,
       industryTagIds = None, departments = None \<rparr>"

definition exampleFound :: FoundContact where
  "exampleFound =
     \<lparr> found_id = ''c'', found_name = ''Cleo Doe'', found_firstName = ''Cleo'',
       found_lastName = Some ''Doe'', found_email = ''cleo@example.com'',
       found_title = ''CTO'', found_company = ''Unknown'', found_linkedinUrl = IsNull,
       found_location = Some ''Berlin, Germany'' \<rparr>"

section \<open>Shared parts of the monitors and of sora_video\<close>

text \<open>\<open>context.credentials?.<service>?.<key>\<close> for a key of any name.\<close>

definition credentialsField ::
  "NodeExecutionContext \<Rightarrow> string \<Rightarrow> string \<Rightarrow> string option" where
  "credentialsField context service key =
     (case credentials context of
        None \<Rightarrow> None
      | Some creds \<Rightarrow>
          (case map_of creds service of None \<Rightarrow> None | Some c \<Rightarrow> map_of c key))"

text \<open>
  \<open>a || b\<close> and \<open>a || d\<close> for optional strings and numbers: the empty string and zero
  are falsy.
\<close>

definition textElse :: "string option \<Rightarrow> string option \<Rightarrow> string option" where
  "textElse a b = (case a of None \<Rightarrow> b | Some v \<Rightarrow> (if v = [] then b else Some v))"

definition textOr :: "string option \<Rightarrow> string \<Rightarrow> string" where
  "textOr a d = (case a of None \<Rightarrow> d | Some v \<Rightarrow> (if v = [] then d else v))"

definition numberElse :: "real option \<Rightarrow> real option \<Rightarrow> real option" where
  "numberElse a b = (case a of None \<Rightarrow> b | Some v \<Rightarrow> (if v = 0 then b else Some v))"

definition numberOr :: "real option \<Rightarrow> real \<Rightarrow> real" where
  "numberOr a d = (case a of None \<Rightarrow> d | Some v \<Rightarrow> (if v = 0 then d else v))"

text \<open>
  \<open>xs.slice(0, n)\<close>: \<open>n\<close> is truncated towards zero, and a negative end counts from the
  end of the array.
\<close>

definition sliceTo :: "real \<Rightarrow> 'a list \<Rightarrow> 'a list" where
  "sliceTo n xs =
     (let k = (if 0 \<le> n then \<lfloor>n\<rfloor> else - \<lfloor>- n\<rfloor>)
      in if 0 \<le> k then take (nat k) xs else take (length xs - nat (- k)) xs)"

section \<open>The twitter_monitor executor (nodes/src/integrations/social/twitter-monitor.ts)\<close>

text \<open>The fields of a tweet and of its author that the executor reads.\<close>

record TwitterApiAuthor =
  author_userName :: string
  author_name :: string
  author_followers :: real

record TwitterApiTweet =
  tweet_id :: string
  tweet_url :: string
  tweet_text :: string
  tweet_retweetCount :: real
  tweet_replyCount :: real
  tweet_likeCount :: real
  tweet_viewCount :: "real option"
  tweet_createdAt :: string
  tweet_author :: TwitterApiAuthor

record TwitterApiSearchResponse =
  tweets :: "TwitterApiTweet list nullish"
  has_next_page :: bool
  next_cursor :: "string option"

record TwitterEngagement =
  tw_likes :: real
  tw_comments :: real
  tw_shares :: real
  tw_views :: real

record TwitterPost =
  twp_id :: string
  twp_url :: string
  twp_text :: string
  twp_authorName :: string
  twp_authorHandle :: string
  twp_authorUrl :: string
  twp_authorFollowers :: real
  twp_engagement :: TwitterEngagement
  twp_postedAt :: string

record TwitterMonitorInput =
  tw_keywords :: "string list option"
  tw_excludeRetweets :: "bool option"
  tw_minLikes :: "real option"
  tw_maxResults :: "real option"
  tw_lang :: "string option"
  tw_sinceDays :: "real option"

record TwitterMonitorOutput =
  tw_posts :: "TwitterPost list"
  tw_totalFound :: nat
  tw_hasMore :: bool
  tw_cursor :: "string option"

text \<open>
  What the engine and the network supply: \<open>Date.now()\<close>; \<open>new Date(t).toISOString()\<close>,
  which throws a \<open>RangeError\<close> for a time out of range; the text of a number in
  a template literal; and the outcome of \<open>fetchWithRetry\<close> for a search query.
\<close>

record twitter_env =
  twitterNow :: real
  toISOString :: "real \<Rightarrow> exn + string"
  numberText :: "real \<Rightarrow> string"
  twitterFetch :: "string \<Rightarrow> exn + TwitterApiSearchResponse Response"

definition buildTwitterSearchQuery ::
  "twitter_env \<Rightarrow> string list \<Rightarrow> bool \<Rightarrow> real option \<Rightarrow> string option \<Rightarrow> string option
     \<Rightarrow> string" where
  "buildTwitterSearchQuery env keywords excludeRetweets minLikes since lang =
     (let keywordQuery =
            joinWith '' OR ''
              (map (\<lambda>k. if CHR '' '' \<in> set k then [CHR 0x22] @ k @ [CHR 0x22] else k) keywords);
          q0 = ''('' @ keywordQuery @ '')'';
          q1 = (if excludeRetweets then q0 @ '' -is:retweet'' else q0);
          q2 = (case minLikes of
                  None \<Rightarrow> q1
                | Some n \<Rightarrow> (if n = 0 then q1 else q1 @ '' min_faves:'' @ numberText env n));
          q3 = (case since of
                  None \<Rightarrow> q2
                | Some s \<Rightarrow> (if s = [] then q2 else q2 @ '' since:'' @ s))
      in (case lang of
            None \<Rightarrow> q3
          | Some l \<Rightarrow> (if l = [] then q3 else q3 @ '' lang:'' @ l)))"

definition searchTwitter :: "twitter_env \<Rightarrow> string \<Rightarrow> exn + TwitterApiSearchResponse" where
  "searchTwitter env query =
     (case twitterFetch env query of
        Inl e \<Rightarrow> Inl e
      | Inr response \<Rightarrow> throwUnlessOk ''Twitter API error: '' response)"

text \<open>The date \<open>sinceDays\<close> days ago, when \<open>sinceDays\<close> is given and not zero.\<close>

definition sinceDateOf :: "twitter_env \<Rightarrow> real option \<Rightarrow> exn + string option" where
  "sinceDateOf env sinceDays =
     (case sinceDays of
        None \<Rightarrow> Inr None
      | Some d \<Rightarrow>
          (if d = 0 then Inr None
           else (case toISOString env (twitterNow env - d * 24 * 60 * 60 * 1000) of
                   Inl e \<Rightarrow> Inl e
                 | Inr isoText \<Rightarrow> Inr (Some (hd (split CHR ''T'' isoText))))))"

definition toTwitterPost :: "TwitterApiTweet \<Rightarrow> TwitterPost" where
  "toTwitterPost tweet =
     \<lparr> twp_id = tweet_id tweet,
       twp_url = tweet_url tweet,
       twp_text = tweet_text tweet,
       twp_authorName = author_name (tweet_author tweet),
       twp_authorHandle = author_userName (tweet_author tweet),
       twp_authorUrl = ''https://twitter.com/'' @ author_userName (tweet_author tweet),
       twp_authorFollowers = author_followers (tweet_author tweet),
       twp_engagement =
         \<lparr> tw_likes = tweet_likeCount tweet,
           tw_comments = tweet_replyCount tweet,
           tw_shares = tweet_retweetCount tweet,
           tw_views = numberOr (tweet_viewCount tweet) 0 \<rparr>,
       twp_postedAt = tweet_createdAt tweet \<rparr>"

definition twitterMonitorBody ::
  "twitter_env \<Rightarrow> TwitterMonitorInput \<Rightarrow> NodeExecutionContext
     \<Rightarrow> exn + TwitterMonitorOutput NodeExecutionResult" where
  "twitterMonitorBody env input context =
     (if (case tw_keywords input of None \<Rightarrow> True | Some ks \<Rightarrow> length ks = 0)
      then Inr (Failure ''No keywords provided for Twitter search'')
      else if missing (credentialsField context ''twitter'' ''twitterApiIoKey'')
      then Inr (Failure
        ''Twitter API key not configured. Please provide context.credentials.twitter.twitterApiIoKey.'')
      else (case sinceDateOf env (tw_sinceDays input) of
              Inl e \<Rightarrow> Inl e
            | Inr sinceDate \<Rightarrow>
          (let query = buildTwitterSearchQuery env (orEmpty (tw_keywords input))
                         (case tw_excludeRetweets input of None \<Rightarrow> True | Some b \<Rightarrow> b)
                         (tw_minLikes input) sinceDate (tw_lang input)
           in (case searchTwitter env query of
                 Inl e \<Rightarrow> Inl e
               | Inr response \<Rightarrow>
                   (let found = map toTwitterPost
                          (sliceTo (numberOr (tw_maxResults input) 50)
                             (case tweets response of Present ts \<Rightarrow> ts | _ \<Rightarrow> []))
                    in Inr (Success
                         \<lparr> tw_posts = found,
                           tw_totalFound = length found,
                           tw_hasMore = has_next_page response,
                           tw_cursor = textElse (next_cursor response) None \<rparr>))))))"

definition twitterMonitorExecutor ::
  "twitter_env \<Rightarrow> TwitterMonitorInput \<Rightarrow> NodeExecutionContext
     \<Rightarrow> exn + TwitterMonitorOutput NodeExecutionResult" where
  "twitterMonitorExecutor env input context =
     catchToFailure ''Failed to monitor Twitter'' (twitterMonitorBody env input context)"

section \<open>The linkedin_monitor executor (nodes/src/integrations/social/linkedin-monitor.ts)\<close>

record ForumScoutLinkedInPost =
  fs_author :: "string option"
  fs_date :: "string option"
  fs_domain :: "string option"
  fs_snippet :: "string option"
  fs_source :: "string option"
  fs_title :: "string option"
  fs_url :: "string option"
  fs_text :: "string option"
  fs_content :: "string option"
  fs_authorName :: "string option"
  fs_authorUrl :: "string option"
  fs_authorProfileUrl :: "string option"
  fs_authorHeadline :: "string option"
  fs_authorFollowers :: "real option"
  fs_likes :: "real option"
  fs_numLikes :: "real option"
  fs_comments :: "real option"
  fs_numComments :: "real option"
  fs_shares :: "real option"
  fs_numShares :: "real option"
  fs_reactions :: "real option"
  fs_postedAt :: "string option"
  fs_datePosted :: "string option"
  fs_postedDate :: "string option"
  fs_hashtags :: "string list option"
  fs_id :: "string option"
  fs_urn :: "string option"

record LinkedInEngagement =
  li_likes :: real
  li_comments :: real
  li_shares :: real

record LinkedInPost =
  lip_id :: string
  lip_url :: string
  lip_text :: string
  lip_authorName :: string
  lip_authorHandle :: string
  lip_authorUrl :: string
  lip_authorFollowers :: real
  lip_authorHeadline :: "string option"
  lip_engagement :: LinkedInEngagement
  lip_hashtags :: "string list"
  lip_postedAt :: string

record LinkedInMonitorInput =
  li_keywords :: "string list"
  li_timeFilter :: "string option"
  li_maxResults :: "real option"

record LinkedInMonitorOutput =
  li_posts :: "LinkedInPost list"
  li_totalFound :: nat

text \<open>
  The payload of \<open>response.json()\<close>, which the source does not cast: an array of posts,
  \<open>null\<close>, or any other value with its properties \<open>posts\<close>, \<open>results\<close> and \<open>data\<close>.
\<close>

datatype ForumScoutData =
    FSArray "ForumScoutLinkedInPost list"
  | FSNull
  | FSObject "ForumScoutLinkedInPost list nullish" "ForumScoutLinkedInPost list nullish"
      "ForumScoutLinkedInPost list nullish"

text \<open>
  What the engine and the network supply: the outcome of \<open>fetchWithRetry\<close> for a search
  keyword, and \<open>Date.now()\<close> and \<open>new Date().toISOString()\<close> as read while the post with
  the given index is transformed.
\<close>

record linkedin_env =
  linkedinFetch :: "string \<Rightarrow> exn + ForumScoutData Response"
  linkedinNow :: "nat \<Rightarrow> nat"
  linkedinIsoNow :: "nat \<Rightarrow> string"

text \<open>\<open>text.match(/#\<bsol>w+/g)\<close> with the leading \<open>#\<close> of each match removed.\<close>

definition isWordChar :: "char \<Rightarrow> bool" where
  "isWordChar c =
     (let n = (of_char c :: nat)
      in (48 \<le> n \<and> n \<le> 57) \<or> (65 \<le> n \<and> n \<le> 90) \<or> (97 \<le> n \<and> n \<le> 122) \<or> n = 95)"

fun scanHashtags :: "string \<Rightarrow> string option \<Rightarrow> string list" where
  "scanHashtags [] current =
     (case current of None \<Rightarrow> [] | Some tag \<Rightarrow> (if tag = [] then [] else [tag]))"
| "scanHashtags (c # cs) current =
     (case current of
        None \<Rightarrow> scanHashtags cs (if c = CHR ''#'' then Some [] else None)
      | Some tag \<Rightarrow>
          (if isWordChar c then scanHashtags cs (Some (tag @ [c]))
           else (if tag = [] then [] else [tag])
                @ scanHashtags cs (if c = CHR ''#'' then Some [] else None)))"

definition extractHashtags :: "string \<Rightarrow> string list" where
  "extractHashtags postText = scanHashtags postText None"

text \<open>\<open>parts.indexOf(key)\<close>, and the handle that follows \<open>key\<close> among the parts of a URL.\<close>

fun indexOf :: "'a \<Rightarrow> 'a list \<Rightarrow> nat option" where
  "indexOf key [] = None"
| "indexOf key (x # xs) =
     (if x = key then Some 0 else map_option Suc (indexOf key xs))"

definition handleAfter :: "string \<Rightarrow> string list \<Rightarrow> string option" where
  "handleAfter key parts =
     (case indexOf key parts of
        None \<Rightarrow> None
      | Some i \<Rightarrow>
          (if Suc i < length parts \<and> parts ! Suc i \<noteq> []
           then Some (hd (split CHR ''?'' (parts ! Suc i)))
           else None))"

definition extractHandleFromUrl :: "string \<Rightarrow> string" where
  "extractHandleFromUrl url =
     (if url = [] then ''unknown''
      else (let parts = split CHR ''/'' url
            in (case handleAfter ''in'' parts of
                  Some handle \<Rightarrow> handle
                | None \<Rightarrow>
                    (case handleAfter ''company'' parts of
                       Some handle \<Rightarrow> handle
                     | None \<Rightarrow> hd (split CHR ''?'' (last parts))))))"

definition searchLinkedIn :: "linkedin_env \<Rightarrow> string \<Rightarrow> exn + ForumScoutLinkedInPost list" where
  "searchLinkedIn env keyword =
     (case linkedinFetch env keyword of
        Inl e \<Rightarrow> Inl e
      | Inr response \<Rightarrow>
     (case throwUnlessOk ''ForumScout API error: '' response of
        Inl e \<Rightarrow> Inl e
      | Inr (FSArray found) \<Rightarrow> Inr found
      | Inr FSNull \<Rightarrow> Inl (TypeError ''Cannot read properties of null'')
      | Inr (FSObject inPosts inResults inData) \<Rightarrow>
          Inr (case inPosts of
                 Present found \<Rightarrow> found
               | _ \<Rightarrow> (case inResults of
                         Present found \<Rightarrow> found
                       | _ \<Rightarrow> (case inData of Present found \<Rightarrow> found | _ \<Rightarrow> [])))))"

definition toLinkedInPost :: "linkedin_env \<Rightarrow> ForumScoutLinkedInPost \<Rightarrow> nat \<Rightarrow> LinkedInPost" where
  "toLinkedInPost env post index =
     (let postId = textOr (textElse (fs_id post) (fs_urn post))
                     (''linkedin-'' @ decimal index @ ''-'' @ decimal (linkedinNow env index));
          postUrl = textOr (fs_url post) [];
          postText = textOr (textElse (textElse (fs_text post) (fs_content post)) (fs_snippet post)) [];
          authorName = textOr (textElse (fs_authorName post) (fs_author post)) ''Unknown'';
          authorUrl = textOr (textElse (fs_authorUrl post) (fs_authorProfileUrl post)) [];
          postedAt = textOr (textElse (textElse (textElse (fs_postedAt post) (fs_datePosted post))
                                         (fs_postedDate post)) (fs_date post))
                       (linkedinIsoNow env index)
      in \<lparr> lip_id = postId,
           lip_url = postUrl,
           lip_text = postText,
           lip_authorName = authorName,
           lip_authorHandle = extractHandleFromUrl authorUrl,
           lip_authorUrl = authorUrl,
           lip_authorFollowers = numberOr (fs_authorFollowers post) 0,
           lip_authorHeadline = fs_authorHeadline post,
           lip_engagement =
             \<lparr> li_likes = numberOr (numberElse (numberElse (fs_likes post) (fs_numLikes post))
                                     (fs_reactions post)) 0,
               li_comments = numberOr (numberElse (fs_comments post) (fs_numComments post)) 0,
               li_shares = numberOr (numberElse (fs_shares post) (fs_numShares post)) 0 \<rparr>,
           lip_hashtags = (case fs_hashtags post of
                             Some tags \<Rightarrow> tags
                           | None \<Rightarrow> extractHashtags postText),
           lip_postedAt = postedAt \<rparr>)"

definition linkedinMonitorBody ::
  "linkedin_env \<Rightarrow> LinkedInMonitorInput \<Rightarrow> NodeExecutionContext
     \<Rightarrow> exn + LinkedInMonitorOutput NodeExecutionResult" where
  "linkedinMonitorBody env input context =
     (let keywords = filter (\<lambda>k. k \<noteq> []) (map trim (li_keywords input))
      in if length keywords = 0
         then Inr (Failure ''No valid keywords provided'')
         else if missing (credentialsField context ''forumScout'' ''apiKey'')
         then Inr (Failure
           ''ForumScout API key not configured. Please provide context.credentials.forumScout.apiKey.'')
         else (case searchLinkedIn env (joinWith '' '' keywords) of
                 Inl e \<Rightarrow> Inl e
               | Inr results \<Rightarrow>
                   (let found = map (\<lambda>(index, post). toLinkedInPost env post index)
                                  (enumerate 0 (sliceTo (numberOr (li_maxResults input) 50) results))
                    in Inr (Success \<lparr> li_posts = found, li_totalFound = length found \<rparr>))))"

definition linkedinMonitorExecutor ::
  "linkedin_env \<Rightarrow> LinkedInMonitorInput \<Rightarrow> NodeExecutionContext
     \<Rightarrow> exn + LinkedInMonitorOutput NodeExecutionResult" where
  "linkedinMonitorExecutor env input context =
     catchToFailure ''Failed to monitor LinkedIn'' (linkedinMonitorBody env input context)"

section \<open>The sora_video executor (nodes/src/integrations/openai/sora-video.ts)\<close>

record SoraVideoInput =
  sora_prompt :: string
  sora_model :: "string option"
  sora_seconds :: "real option"
  sora_size :: "string option"

record SoraCreateRequest =
  form_prompt :: string
  form_model :: string
  form_seconds :: real
  form_size :: string

record SoraVideoCreateResponse =
  created_id :: string
  created_status :: string

text \<open>
  In the status response the optional objects \<open>output\<close> and \<open>error\<close> are flattened to
  their single fields: \<open>output?.url\<close> and \<open>error?.message\<close>.
\<close>

record SoraVideoStatusResponse =
  polled_id :: string
  polled_status :: string
  polled_output_url :: "string option"
  polled_error_message :: "string option"

record SoraVideo =
  video_url :: string
  video_durationSeconds :: real
  video_size :: string
  video_model :: string

record SoraVideoOutput =
  video :: SoraVideo
  processingTimeSeconds :: int

text \<open>
  What the engine and the network supply: the outcome of \<open>fetchWithRetry\<close> for the
  creation request and for the \<open>n\<close>-th status request, the outcome of the \<open>n\<close>-th call of
  \<open>sleep\<close> (\<open>utils/http.ts\<close> is not among the source files), and the \<open>k\<close>-th reading of
  \<open>Date.now()\<close> during the execution.
\<close>

record sora_env =
  soraCreate :: "SoraCreateRequest \<Rightarrow> exn + SoraVideoCreateResponse Response"
  soraStatus :: "nat \<Rightarrow> string \<Rightarrow> exn + SoraVideoStatusResponse Response"
  soraSleep :: "nat \<Rightarrow> exn + unit"
  soraClock :: "nat \<Rightarrow> real"

definition createSoraVideo :: "sora_env \<Rightarrow> SoraCreateRequest \<Rightarrow> exn + SoraVideoCreateResponse" where
  "createSoraVideo env params =
     (case soraCreate env params of
        Inl e \<Rightarrow> Inl e
      | Inr response \<Rightarrow> throwUnlessOk ''OpenAI API error: '' response)"

definition getSoraVideoStatus ::
  "sora_env \<Rightarrow> nat \<Rightarrow> string \<Rightarrow> exn + SoraVideoStatusResponse" where
  "getSoraVideoStatus env n videoId =
     (case soraStatus env n videoId of
        Inl e \<Rightarrow> Inl e
      | Inr response \<Rightarrow> throwUnlessOk ''OpenAI API error: '' response)"

text \<open>
  The loop \<open>while (Date.now() - startTime < maxWaitMs)\<close> of \<open>waitForVideoCompletion\<close>, with
  \<open>maxWaitMs\<close> at its default of five minutes. The clock has been read twice before the
  loop starts, so the \<open>n\<close>-th test of the condition is the reading \<open>n + 2\<close>. With a clock
  that never reaches the deadline and a video that stays pending the loop would never
  end, so it is a partial function. The result carries the number of the last round.
\<close>

partial_function (option) pollLoop ::
  "sora_env \<Rightarrow> string \<Rightarrow> real \<Rightarrow> nat \<Rightarrow> (exn + SoraVideoStatusResponse \<times> nat) option" where
  "pollLoop env videoId startTime n =
     (if soraClock env (Suc (Suc n)) - startTime < 300000
      then (case getSoraVideoStatus env n videoId of
              Inl e \<Rightarrow> Some (Inl e)
            | Inr polled \<Rightarrow>
                (if polled_status polled = ''completed'' then Some (Inr (polled, n))
                 else if polled_status polled = ''failed''
                 then Some (Inl (ErrorObject ''Error''
                        (textOr (polled_error_message polled) ''Video generation failed'')))
                 else (case soraSleep env n of
                         Inl e \<Rightarrow> Some (Inl e)
                       | Inr u \<Rightarrow> pollLoop env videoId startTime (Suc n))))
      else Some (Inl (ErrorObject ''Error'' ''Video generation timed out'')))"

definition waitForVideoCompletion ::
  "sora_env \<Rightarrow> string \<Rightarrow> (exn + SoraVideoStatusResponse \<times> nat) option" where
  "waitForVideoCompletion env videoId = pollLoop env videoId (soraClock env 1) 0"

definition soraVideoBody ::
  "sora_env \<Rightarrow> SoraVideoInput \<Rightarrow> NodeExecutionContext
     \<Rightarrow> (exn + SoraVideoOutput NodeExecutionResult) option" where
  "soraVideoBody env input context =
     (if missing (credentialsField context ''openai'' ''apiKey'')
      then Some (Inr (Failure
        ''OpenAI API key not configured. Please provide context.credentials.openai.apiKey.''))
      else (let startTime = soraClock env 0
            in (case createSoraVideo env
                       \<lparr> form_prompt = sora_prompt input,
                         form_model = textOr (sora_model input) ''sora-2'',
                         form_seconds = numberOr (sora_seconds input) 4,
                         form_size = textOr (sora_size input) ''1280x720'' \<rparr> of
                  Inl e \<Rightarrow> Some (Inl e)
                | Inr createResponse \<Rightarrow>
               (case waitForVideoCompletion env (created_id createResponse) of
                  None \<Rightarrow> None
                | Some (Inl e) \<Rightarrow> Some (Inl e)
                | Some (Inr (completedVideo, n)) \<Rightarrow>
                    (let processed = mathRound ((soraClock env (Suc (Suc (Suc n))) - startTime) / 1000)
                     in (case textElse (polled_output_url completedVideo) None of
                           None \<Rightarrow> Some (Inr (Failure
                             ''Video generation completed but no URL returned''))
                         | Some url \<Rightarrow>
                             Some (Inr (Success
                               \<lparr> video =
                                   \<lparr> video_url = url,
                                     video_durationSeconds = numberOr (sora_seconds input) 4,
                                     video_size = textOr (sora_size input) ''1280x720'',
                                     video_model = textOr (sora_model input) ''sora-2'' \<rparr>,
                                 processingTimeSeconds = processed \<rparr>))))))))"

definition soraVideoExecutor ::
  "sora_env \<Rightarrow> SoraVideoInput \<Rightarrow> NodeExecutionContext
     \<Rightarrow> (exn + SoraVideoOutput NodeExecutionResult) option" where
  "soraVideoExecutor env input context =
     map_option (catchToFailure ''Failed to generate video'') (soraVideoBody env input context)"

text \<open>
  A video that stays in processing while each reading of the clock is 200 seconds after
  the one before: the second test of the loop condition finds the deadline passed. And
  a context with a key for OpenAI.
\<close>

definition exampleSoraEnv :: sora_env where
  "exampleSoraEnv =
     \<lparr> soraCreate = (\<lambda>request.
         Inr \<lparr> ok = True, status = 200, textBody = Inr [],
               jsonBody = Inr \<lparr> created_id = ''video_1'', created_status = ''pending'' \<rparr> \<rparr>),
       soraStatus = (\<lambda>n videoId.
         Inr \<lparr> ok = True, status = 200, textBody = Inr [],
               jsonBody = Inr \<lparr> polled_id = videoId, polled_status = ''processing'',
                                polled_output_url = None, polled_error_message = None \<rparr> \<rparr>),
       soraSleep = (\<lambda>n. Inr ()),
       soraClock = (\<lambda>k. 200000 * real k) \<rparr>"

definition exampleSoraInput :: SoraVideoInput where
  "exampleSoraInput =
     \<lparr> sora_prompt = ''A serene ocean sunset'', sora_model = None, sora_seconds = Some 8,
       sora_size = None \<rparr>"

definition exampleSoraContext :: NodeExecutionContext where
  "exampleSoraContext =
     \<lparr> userId = ''playground'', workflowExecutionId = ''playground_1'', variables = [],
       credentials = Some [(''openai'', [(''apiKey'', ''sk-test'')])] \<rparr>"

section \<open>Properties of the schema traversals\<close>

lemma generateMockFromSchema_sdef: "generateMockFromSchema s w = generateFromDef (sdef s) w"
  by (cases s) simp

lemma generateMockFromSchema_web_sdef:
  "generateMockFromSchema_web s w = generateFromDef_web (sdef s) w"
  by (cases s) simp

lemma unwrapOptionalDefault_simps:
  "unwrapOptionalDefault (ZodOptional inner) w = ((False, sdef inner, JUndefined), w)"
  "unwrapOptionalDefault (ZodDefault inner thunk) w =
     ((False, sdef inner, fst (thunk w)), snd (thunk w))"
  "unwrapOptionalDefault (ZodNullable inner) w = ((True, ZodNullable inner, JUndefined), w)"
  by (simp_all add: unwrapOptionalDefault_def case_prod_beta)

lemma unwrapOptionalDefault_plain:
  "\<not> isWrapper d \<Longrightarrow> unwrapOptionalDefault d w = ((True, d, JUndefined), w)"
  by (cases d) (simp_all add: isWrapper_def unwrapOptionalDefault_def)

lemma isOptionalDef_plain: "\<not> isWrapper d \<Longrightarrow> \<not> isOptionalDef d"
  by (cases d) (simp_all add: isWrapper_def isOptionalDef_def)

text \<open>
  C1 (as stated): for every field wrapped in Optional, Default or Nullable, field
  derivation and mock synthesis unwrap the wrapper identically and so arrive at the same
  inner type. This fails for a field \<open>Nullable<Number>\<close>: synthesis passes through the
  wrapper and yields the number 42, as for a field \<open>Number\<close>, while both derivations
  leave the wrapper in place and classify the field as a text input where they classify
  a field \<open>Number\<close> as a number input. It fails also under nested wrappers: the field
  \<open>limit: z.number().optional().default(10)\<close> of search_contacts is derived as a text
  input with the default 10, because the derivations stop at the Optional beneath the
  Default.
\<close>

theorem nullable_not_unwrapped_by_derivation:
  "generateFromDef (ZodNullable (ZodSchema ZodNumber None)) () = (JNum 42, ())
   \<and> generateFromDef ZodNumber () = (JNum 42, ())
   \<and> generateFromDef_web (ZodNullable (ZodSchema ZodNumber None)) () = (JNum 42, ())
   \<and> map (\<lambda>p. (prompt_type p, prompt_required p))
        (fst (generatePromptsFromSchema
          (ZodSchema (ZodObject
             [(''n'', ZodSchema (ZodNullable (ZodSchema ZodNumber None)) None)]) None) [] ()))
       = [(PInput, True)]
   \<and> map (\<lambda>p. (prompt_type p, prompt_required p))
        (fst (generatePromptsFromSchema
          (ZodSchema (ZodObject [(''n'', ZodSchema ZodNumber None)]) None) [] ()))
       = [(PNumber, True)]
   \<and> map (\<lambda>f. (field_type f, field_required f))
        (fst (extractFieldsFromSchema (\<lambda>k t os w. (JNull, w))
          (ZodSchema (ZodObject
             [(''n'', ZodSchema (ZodNullable (ZodSchema ZodNumber None)) None)]) None) ()))
       = [(FText, True)]
   \<and> map (\<lambda>f. (field_type f, field_required f))
        (fst (extractFieldsFromSchema (\<lambda>k t os w. (JNull, w))
          (ZodSchema (ZodObject [(''n'', ZodSchema ZodNumber None)]) None) ()))
       = [(FNumber, True)]
   \<and> map (\<lambda>f. (field_type f, field_required f, field_default f))
        (fst (extractFieldsFromSchema (\<lambda>k t os w. (JNull, w))
          (ZodSchema (ZodObject
             [(''limit'',
               ZodSchema (ZodDefault (ZodSchema (ZodOptional (ZodSchema ZodNumber None)) None)
                            (\<lambda>w. (JNum 10, w))) None)]) None) ()))
       = [(FText, False, JNum 10)]
   \<and> map (\<lambda>p. (prompt_type p, prompt_required p, prompt_default p))
        (fst (generatePromptsFromSchema
          (ZodSchema (ZodObject
             [(''limit'',
               ZodSchema (ZodDefault (ZodSchema (ZodOptional (ZodSchema ZodNumber None)) None)
                            (\<lambda>w. (JNum 10, w))) None)]) None) [] ()))
       = [(PInput, False, JNum 10)]"
  by (simp add: unwrapOptionalDefault_def generatePromptsFromSchema_def promptFor_def
      determinePromptType_def isOptionalDef_def extractFieldsFromSchema_def extractField_def
      determineFieldType_def Let_def)

text \<open>
  C1 (amended): mock synthesis (both playgrounds) passes through Optional and Nullable:
  the value synthesized for \<open>Optional<T>\<close> or \<open>Nullable<T>\<close> is the value synthesized for
  \<open>T\<close>; for \<open>Default<T, v>\<close> it returns the value of the default thunk without looking at
  \<open>T\<close>. Field derivation (the web form's fields and the command-line prompts) treats
  a field as follows, for \<open>T\<close> that is not itself Optional, Nullable or Default:
  \<open>Optional<T>\<close> is not required and is classified on \<open>T\<close>; \<open>Default<T, v>\<close> is not
  required, is classified on \<open>T\<close>, and its default is the value of the thunk, the value
  that synthesis returns for the field (the web form shows an example value instead
  when the thunk returns \<open>undefined\<close>); \<open>T\<close> itself is required and classified on \<open>T\<close>;
  \<open>Nullable<T>\<close> is not unwrapped: it is required and classified as a text input.
  So the two traversals arrive at the same inner type for a field without wrapper and
  for a single Optional or Default around such a type, and they differ on Nullable.
  The statement is silent on a wrapper nested in a wrapper, where the derivations stop
  at the inner wrapper, as the example above shows.
\<close>

theorem unwrap_agreement:
  "generateFromDef (ZodOptional inner) w = generateFromDef (sdef inner) w
   \<and> generateFromDef (ZodNullable inner) w = generateFromDef (sdef inner) w
   \<and> generateFromDef (ZodDefault inner thunk) w = thunk w
   \<and> generateFromDef_web (ZodOptional inner) w = generateFromDef_web (sdef inner) w
   \<and> generateFromDef_web (ZodNullable inner) w = generateFromDef_web (sdef inner) w
   \<and> generateFromDef_web (ZodDefault inner thunk) w = thunk w
   \<and> (\<not> isWrapper (sdef inner) \<longrightarrow>
        (let f = fst (extractField getExampleValue (key, ZodSchema (ZodOptional inner) desc) w);
             p = fst (promptFor prefix (key, ZodSchema (ZodOptional inner) desc) w)
         in field_required f = False
            \<and> (field_type f, field_options f) = determineFieldType (sdef inner)
            \<and> prompt_required p = False
            \<and> (prompt_type p, prompt_choices p) = determinePromptType (sdef inner)))
   \<and> (\<not> isWrapper (sdef inner) \<longrightarrow>
        (let f = fst (extractField getExampleValue (key, ZodSchema (ZodDefault inner thunk) desc) w);
             p = fst (promptFor prefix (key, ZodSchema (ZodDefault inner thunk) desc) w)
         in field_required f = False
            \<and> (field_type f, field_options f) = determineFieldType (sdef inner)
            \<and> field_default f =
                (if fst (thunk w) = JUndefined
                 then fst (getExampleValue key (fst (determineFieldType (sdef inner)))
                             (snd (determineFieldType (sdef inner))) (snd (thunk w)))
                 else fst (generateFromDef (ZodDefault inner thunk) w))
            \<and> prompt_required p = False
            \<and> (prompt_type p, prompt_choices p) = determinePromptType (sdef inner)
            \<and> prompt_default p = fst (generateFromDef (ZodDefault inner thunk) w)))
   \<and> (\<not> isWrapper (sdef inner) \<longrightarrow>
        (let f = fst (extractField getExampleValue (key, ZodSchema (ZodNullable inner) desc) w);
             p = fst (promptFor prefix (key, ZodSchema (ZodNullable inner) desc) w)
         in field_required f = True \<and> field_type f = FText \<and> field_options f = None
            \<and> prompt_required p = True \<and> prompt_type p = PInput \<and> prompt_choices p = None))
   \<and> (\<not> isWrapper d \<longrightarrow>
        (let f = fst (extractField getExampleValue (key, ZodSchema d desc) w);
             p = fst (promptFor prefix (key, ZodSchema d desc) w)
         in field_required f = True
            \<and> (field_type f, field_options f) = determineFieldType d
            \<and> prompt_required p = True
            \<and> (prompt_type p, prompt_choices p) = determinePromptType d))"
proof -
  have synth: "generateFromDef (ZodOptional inner) w = generateFromDef (sdef inner) w
   \<and> generateFromDef (ZodNullable inner) w = generateFromDef (sdef inner) w
   \<and> generateFromDef (ZodDefault inner thunk) w = thunk w
   \<and> generateFromDef_web (ZodOptional inner) w = generateFromDef_web (sdef inner) w
   \<and> generateFromDef_web (ZodNullable inner) w = generateFromDef_web (sdef inner) w
   \<and> generateFromDef_web (ZodDefault inner thunk) w = thunk w"
    by (simp add: generateMockFromSchema_sdef generateMockFromSchema_web_sdef)
  have opt: "let f = fst (extractField getExampleValue (key, ZodSchema (ZodOptional inner) desc) w);
             p = fst (promptFor prefix (key, ZodSchema (ZodOptional inner) desc) w)
         in field_required f = False
            \<and> (field_type f, field_options f) = determineFieldType (sdef inner)
            \<and> prompt_required p = False
            \<and> (prompt_type p, prompt_choices p) = determinePromptType (sdef inner)"
    by (simp add: extractField_def promptFor_def unwrapOptionalDefault_simps isOptionalDef_def
        Let_def case_prod_beta)
  have dflt: "let f = fst (extractField getExampleValue (key, ZodSchema (ZodDefault inner thunk) desc) w);
             p = fst (promptFor prefix (key, ZodSchema (ZodDefault inner thunk) desc) w)
         in field_required f = False
            \<and> (field_type f, field_options f) = determineFieldType (sdef inner)
            \<and> field_default f =
                (if fst (thunk w) = JUndefined
                 then fst (getExampleValue key (fst (determineFieldType (sdef inner)))
                             (snd (determineFieldType (sdef inner))) (snd (thunk w)))
                 else fst (generateFromDef (ZodDefault inner thunk) w))
            \<and> prompt_required p = False
            \<and> (prompt_type p, prompt_choices p) = determinePromptType (sdef inner)
            \<and> prompt_default p = fst (generateFromDef (ZodDefault inner thunk) w)"
    by (simp add: extractField_def promptFor_def unwrapOptionalDefault_simps isOptionalDef_def
        Let_def case_prod_beta)
  have nul: "let f = fst (extractField getExampleValue (key, ZodSchema (ZodNullable inner) desc) w);
             p = fst (promptFor prefix (key, ZodSchema (ZodNullable inner) desc) w)
         in field_required f = True \<and> field_type f = FText \<and> field_options f = None
            \<and> prompt_required p = True \<and> prompt_type p = PInput \<and> prompt_choices p = None"
    by (simp add: extractField_def promptFor_def unwrapOptionalDefault_simps isOptionalDef_def
        determineFieldType_def determinePromptType_def Let_def case_prod_beta)
  have plain: "\<not> isWrapper d \<longrightarrow>
        (let f = fst (extractField getExampleValue (key, ZodSchema d desc) w);
             p = fst (promptFor prefix (key, ZodSchema d desc) w)
         in field_required f = True
            \<and> (field_type f, field_options f) = determineFieldType d
            \<and> prompt_required p = True
            \<and> (prompt_type p, prompt_choices p) = determinePromptType d)"
    by (simp add: extractField_def promptFor_def unwrapOptionalDefault_plain isOptionalDef_plain
        Let_def case_prod_beta)
  from synth opt dflt nul plain show ?thesis by blast
qed

theorem unwrap_agreement_witness:
  "\<not> isWrapper (sdef (ZodSchema ZodNumber None :: unit zschema))
   \<and> \<not> isWrapper (ZodString :: unit zdef)
   \<and> field_required (fst (extractField (\<lambda>k t os w. (JStr ''example'', w))
         (''limit'', ZodSchema (ZodOptional (ZodSchema ZodNumber None)) None) ())) = False
   \<and> field_type (fst (extractField (\<lambda>k t os w. (JStr ''example'', w))
         (''limit'', ZodSchema (ZodOptional (ZodSchema ZodNumber None)) None) ())) = FNumber
   \<and> prompt_type (fst (promptFor []
         (''limit'', ZodSchema (ZodOptional (ZodSchema ZodNumber None)) None) ())) = PNumber
   \<and> prompt_default (fst (promptFor []
         (''limit'', ZodSchema (ZodDefault (ZodSchema ZodNumber None) (\<lambda>w. (JNum 10, w))) None)
         ())) = JNum 10
   \<and> field_default (fst (extractField (\<lambda>k t os w. (JStr ''example'', w))
         (''limit'', ZodSchema (ZodDefault (ZodSchema ZodNumber None) (\<lambda>w. (JNum 10, w))) None)
         ())) = JNum 10
   \<and> generateFromDef (ZodDefault (ZodSchema ZodNumber None) (\<lambda>w. (JNum 10, w))) ()
       = (JNum 10, ())
   \<and> field_type (fst (extractField (\<lambda>k t os w. (JStr ''example'', w))
         (''limit'', ZodSchema (ZodNullable (ZodSchema ZodNumber None)) None) ())) = FText
   \<and> prompt_required (fst (promptFor [] (''limit'', ZodSchema ZodString None) ())) = True"
proof -
  have a: "\<not> isWrapper (sdef (ZodSchema ZodNumber None :: unit zschema))"
    by (simp add: isWrapper_def)
  have b: "\<not> isWrapper (ZodString :: unit zdef)"
    by (simp add: isWrapper_def)
  have n: "determineFieldType (ZodNumber :: unit zdef) = (FNumber, None)"
    "determinePromptType (ZodNumber :: unit zdef) = (PNumber, None)"
    by (simp_all add: determineFieldType_def determinePromptType_def)
  from a b n
    unwrap_agreement [where inner = "ZodSchema ZodNumber None" and w = "()"
      and thunk = "\<lambda>w. (JNum 10, w)" and getExampleValue = "\<lambda>k t os w. (JStr ''example'', w)"
      and key = "''limit''" and desc = None and prefix = "[]" and d = ZodString]
  show ?thesis
    by (simp add: Let_def)
qed

text \<open>
  C2 (as stated): every Array node is synthesized as an array of exactly two items.
  The web playground's traversal produces one item.
\<close>

theorem web_array_single_item:
  "generateFromDef_web (ZodArray (ZodSchema ZodString None)) ()
     = (JArr [JStr ''mock_string''], ())
   \<and> fst (generateFromDef_web (ZodArray (ZodSchema ZodString None)) ())
       \<noteq> JArr [JStr ''mock_string'', JStr ''mock_string'']"
  by simp

text \<open>
  C2 (amended): for every Array node the command-line playground's synthesis produces
  an array of exactly two items and the web playground's synthesis an array of exactly
  one item; each item is the synthesis of the item schema (the second one in the state
  that the first one left), and the array is never empty.
\<close>

theorem generateFromDef_array_items:
  "(\<exists>a b. fst (generateFromDef (ZodArray item) w) = JArr [a, b]
       \<and> a = fst (generateFromDef (sdef item) w)
       \<and> b = fst (generateFromDef (sdef item) (snd (generateFromDef (sdef item) w)))
       \<and> snd (generateFromDef (ZodArray item) w)
           = snd (generateFromDef (sdef item) (snd (generateFromDef (sdef item) w))))
   \<and> (\<exists>a. fst (generateFromDef_web (ZodArray item) w) = JArr [a]
       \<and> a = fst (generateFromDef_web (sdef item) w)
       \<and> snd (generateFromDef_web (ZodArray item) w) = snd (generateFromDef_web (sdef item) w))"
  by (simp add: generateMockFromSchema_sdef generateMockFromSchema_web_sdef case_prod_beta)

text \<open>
  C5: field derivation on a root schema that is not an Object returns the empty
  sequence; on the Object schema \<open>{a: Optional<Number>, b: String}\<close> it returns two
  descriptors in declaration order, \<open>a\<close> not required and \<open>b\<close> required. Both derivations
  (the web form's fields and the command-line prompts) are covered.
\<close>

theorem deriveFields_root_and_example:
  "(\<not> isZodObject (sdef schema) \<longrightarrow>
      extractFieldsFromSchema getExampleValue schema w = ([], w)
      \<and> generatePromptsFromSchema schema prefix w = ([], w))
   \<and> map (\<lambda>f. (field_name f, field_required f))
        (fst (extractFieldsFromSchema getExampleValue
          (ZodSchema (ZodObject
             [(''a'', ZodSchema (ZodOptional (ZodSchema ZodNumber dn)) da),
              (''b'', ZodSchema ZodString db)]) dr) w))
      = [(''a'', False), (''b'', True)]
   \<and> map (\<lambda>p. (prompt_name p, prompt_required p))
        (fst (generatePromptsFromSchema
          (ZodSchema (ZodObject
             [(''a'', ZodSchema (ZodOptional (ZodSchema ZodNumber dn)) da),
              (''b'', ZodSchema ZodString db)]) dr) [] w))
      = [(''a'', False), (''b'', True)]"
proof -
  have nonobj: "\<not> isZodObject (sdef schema) \<longrightarrow>
      extractFieldsFromSchema getExampleValue schema w = ([], w)
      \<and> generatePromptsFromSchema schema prefix w = ([], w)"
    by (cases "sdef schema")
       (simp_all add: isZodObject_def extractFieldsFromSchema_def generatePromptsFromSchema_def)
  have web: "map (\<lambda>f. (field_name f, field_required f))
        (fst (extractFieldsFromSchema getExampleValue
          (ZodSchema (ZodObject
             [(''a'', ZodSchema (ZodOptional (ZodSchema ZodNumber dn)) da),
              (''b'', ZodSchema ZodString db)]) dr) w))
      = [(''a'', False), (''b'', True)]"
    by (simp add: extractFieldsFromSchema_def extractField_def unwrapOptionalDefault_def
        determineFieldType_def Let_def case_prod_beta)
  have cli: "map (\<lambda>p. (prompt_name p, prompt_required p))
        (fst (generatePromptsFromSchema
          (ZodSchema (ZodObject
             [(''a'', ZodSchema (ZodOptional (ZodSchema ZodNumber dn)) da),
              (''b'', ZodSchema ZodString db)]) dr) [] w))
      = [(''a'', False), (''b'', True)]"
    by (simp add: generatePromptsFromSchema_def promptFor_def unwrapOptionalDefault_def
        determinePromptType_def isOptionalDef_def Let_def case_prod_beta)
  from nonobj web cli show ?thesis by blast
qed

theorem deriveFields_root_and_example_witness:
  "\<not> isZodObject (sdef (ZodSchema (ZodArray (ZodSchema ZodString None)) None :: unit zschema))
   \<and> extractFieldsFromSchema (\<lambda>k t os w. (JStr ''example'', w))
        (ZodSchema (ZodArray (ZodSchema ZodString None)) None) () = ([], ())
   \<and> generatePromptsFromSchema (ZodSchema (ZodArray (ZodSchema ZodString None)) None) [] ()
        = ([], ())"
  using deriveFields_root_and_example
    [where schema = "ZodSchema (ZodArray (ZodSchema ZodString None)) None"
       and getExampleValue = "\<lambda>k t os w. (JStr ''example'', w)" and prefix = "[]" and w = "()"]
  by (simp add: isZodObject_def)

section \<open>Determinism of mock output\<close>

lemma constant_synthesis:
  fixes d :: "'w zdef" and s :: "'w zschema" and shape :: "(string \<times> 'w zschema) list"
    and items :: "'w zschema list" and w :: 'w
  shows "constantDefaults d \<longrightarrow> (\<exists>v. \<forall>u. generateFromDef d u = (v, u))"
  and "constantDefaultsSchema s \<longrightarrow> (\<exists>v. \<forall>u. generateMockFromSchema s u = (v, u))"
  and "list_all (\<lambda>entry. constantDefaultsSchema (snd entry)) shape \<longrightarrow>
     (\<exists>vs. \<forall>u. generateShape shape u = (vs, u))"
  and "list_all constantDefaultsSchema items \<longrightarrow> (\<exists>vs. \<forall>u. generateItems items u = (vs, u))"
proof (induction d w and s w and shape w and items w
    rule: generateFromDef_generateMockFromSchema_generateShape_generateItems.induct)
  case (10 item w)
  then show ?case by (auto simp: case_prod_beta)
next
  case (11 shape w)
  then show ?case by (auto simp: case_prod_beta)
next
  case (12 opts w)
  then show ?case by (cases opts) auto
next
  case (13 discOptions w)
  then show ?case by (cases discOptions) auto
next
  case (17 valueType w)
  then show ?case by (auto simp: case_prod_beta)
next
  case (18 items w)
  then show ?case by (auto simp: case_prod_beta)
next
  case (25 entry rest w)
  then show ?case by (auto simp: case_prod_beta)
next
  case (27 item rest w)
  then show ?case by (auto simp: case_prod_beta)
qed auto

lemma constant_synthesis_web:
  fixes d :: "'w zdef" and s :: "'w zschema" and shape :: "(string \<times> 'w zschema) list"
    and w :: 'w
  shows "constantDefaults d \<longrightarrow> (\<exists>v. \<forall>u. generateFromDef_web d u = (v, u))"
  and "constantDefaultsSchema s \<longrightarrow> (\<exists>v. \<forall>u. generateMockFromSchema_web s u = (v, u))"
  and "list_all (\<lambda>entry. constantDefaultsSchema (snd entry)) shape \<longrightarrow>
     (\<exists>vs. \<forall>u. generateShape_web shape u = (vs, u))"
proof (induction d w and s w and shape w
    rule: generateFromDef_web_generateMockFromSchema_web_generateShape_web.induct)
  case (9 item w)
  then show ?case by (auto simp: case_prod_beta)
next
  case (10 shape w)
  then show ?case by (auto simp: case_prod_beta)
next
  case (25 entry rest w)
  then show ?case by (auto simp: case_prod_beta)
qed auto

lemma customMocks_clock_free:
  "nodeType \<noteq> ''reddit_monitor'' \<Longrightarrow> nodeType \<noteq> ''twitter_monitor'' \<Longrightarrow>
   map_of (customMocks r1 t1) nodeType = map_of (customMocks r2 t2) nodeType"
  unfolding customMocks_def
  by (simp only: map_of.simps fst_conv snd_conv fun_upd_apply if_False if_True refl
      split: if_split)

lemma MOCK_OUTPUTS_clock_free:
  "nodeType \<noteq> ''reddit_monitor'' \<Longrightarrow>
   map_of (MOCK_OUTPUTS l1) nodeType = map_of (MOCK_OUTPUTS l2) nodeType"
  unfolding MOCK_OUTPUTS_def
  by (simp only: map_of.simps fst_conv snd_conv fun_upd_apply if_False if_True refl
      split: if_split)

lemma memberOf_table:
  "map_of t1 k = map_of t2 k \<Longrightarrow> memberOf realm (JObj t1) k = memberOf realm (JObj t2) k"
  by (simp add: memberOf_def split: option.splits)

lemma customMocks_reddit:
  "memberOf realm (JObj (customMocks r t)) ''reddit_monitor'' =
     JObj [(''posts'', JArr [JObj [(''id'', JStr ''mock_post_1''),
        (''title'', JStr ''Mock Reddit Post''), (''author'', JStr ''mock_user''),
        (''subreddit'', JStr ''technology''), (''score'', JNum 150),
        (''url'', JStr ''https://reddit.com/r/technology/mock''),
        (''createdAt'', JStr r)]])]"
  unfolding memberOf_def customMocks_def by simp

lemma customMocks_twitter:
  "memberOf realm (JObj (customMocks r t)) ''twitter_monitor'' =
     JObj [(''posts'', JArr [JObj [(''id'', JStr ''mock_tweet_1''),
        (''text'', JStr ''Mock tweet content''), (''author'', JStr ''mockuser''),
        (''likes'', JNum 50), (''retweets'', JNum 10),
        (''createdAt'', JStr t)]])]"
  unfolding memberOf_def customMocks_def by simp

lemma MOCK_OUTPUTS_reddit:
  "memberOf realm (JObj (MOCK_OUTPUTS l)) ''reddit_monitor'' =
     JObj [(''posts'', JArr [JObj [(''id'', JStr ''mock_post''),
        (''title'', JStr ''Looking for SaaS recommendations''),
        (''author'', JStr ''tech_enthusiast''),
        (''subreddit'', JStr ''technology''), (''score'', JNum 156),
        (''url'', JStr ''https://reddit.com/r/technology/comments/abc123''),
        (''createdAt'', JStr l)]])]"
  unfolding memberOf_def MOCK_OUTPUTS_def by simp

lemma customMocks_absent: "map_of (customMocks r t) ''my_node'' = None"
  unfolding customMocks_def by simp

text \<open>
  C3 (as stated): two calls of mock synthesis with the same schema and node type produce
  equal output. For the node type \<open>reddit_monitor\<close> the command-line playground's
  override payload holds the time of the call, so two calls one millisecond apart
  differ. For a node type without override, a schema whose default thunk reads a
  counter yields a different value on the next call.
\<close>

theorem generateMockOutput_reads_clock:
  "fst (generateMockOutput exampleRealm ''2026-01-01T00:00:00.000Z''
          ''2026-01-01T00:00:00.000Z'' ''reddit_monitor'' (ZodSchema ZodString None) ())
   \<noteq> fst (generateMockOutput exampleRealm ''2026-01-01T00:00:00.001Z''
          ''2026-01-01T00:00:00.001Z'' ''reddit_monitor'' (ZodSchema ZodString None) ())
   \<and> fst (generateMockOutput exampleRealm ''2026-01-01T00:00:00.000Z''
          ''2026-01-01T00:00:00.000Z'' ''my_node''
          (ZodSchema (ZodDefault (ZodSchema ZodNumber None) (\<lambda>n. (JNum (real n), Suc n))) None)
          (0::nat))
   \<noteq> fst (generateMockOutput exampleRealm ''2026-01-01T00:00:00.000Z''
          ''2026-01-01T00:00:00.000Z'' ''my_node''
          (ZodSchema (ZodDefault (ZodSchema ZodNumber None) (\<lambda>n. (JNum (real n), Suc n))) None)
          (Suc 0))"
proof -
  have own: "ownMember exampleRealm (JObj (customMocks r t)) ''my_node'' = None" for r t
    by (simp add: customMocks_absent)
  have inh: "inheritedMember exampleRealm (JObj kvs) ''my_node'' = None" for kvs
    by (simp add: objectMethod_def exampleRealm_def)
  have miss: "memberOf exampleRealm (JObj (customMocks r t)) ''my_node'' = JUndefined" for r t
    by (simp only: memberOf_def own inh option.case)
  show ?thesis
    by (simp add: generateMockOutput_def customMocks_reddit miss)
qed

text \<open>
  C3 (amended): for a schema whose default thunks are constant functions, mock output
  does not depend on the time or state of the call for every node type other than
  \<open>reddit_monitor\<close> and \<open>twitter_monitor\<close>: the command-line playground's
  \<open>generateMockOutput\<close> returns equal output whatever the clock readings and the state,
  and so does the web playground's \<open>getMockOutput\<close> for every node type other than
  \<open>reddit_monitor\<close> whatever the load time of its table. For the excepted node types the
  override payload carries the clock reading in \<open>createdAt\<close>: two calls with different
  readings return different output.
\<close>

theorem mock_output_clock_independent:
  "(constantDefaultsSchema outputSchema \<and> nodeType \<noteq> ''reddit_monitor''
      \<and> nodeType \<noteq> ''twitter_monitor'' \<longrightarrow>
      fst (generateMockOutput realm rA tA nodeType outputSchema wA)
      = fst (generateMockOutput realm rB tB nodeType outputSchema wB))
   \<and> (constantDefaultsSchema outputSchema \<and> nodeType \<noteq> ''reddit_monitor'' \<longrightarrow>
      fst (getMockOutput realm lA nodeType outputSchema wA)
      = fst (getMockOutput realm lB nodeType outputSchema wB))
   \<and> (rA \<noteq> rB \<longrightarrow>
      fst (generateMockOutput realm rA tA ''reddit_monitor'' outputSchema wA)
      \<noteq> fst (generateMockOutput realm rB tB ''reddit_monitor'' outputSchema wB))
   \<and> (tA \<noteq> tB \<longrightarrow>
      fst (generateMockOutput realm rA tA ''twitter_monitor'' outputSchema wA)
      \<noteq> fst (generateMockOutput realm rB tB ''twitter_monitor'' outputSchema wB))
   \<and> (lA \<noteq> lB \<longrightarrow>
      fst (getMockOutput realm lA ''reddit_monitor'' outputSchema wA)
      \<noteq> fst (getMockOutput realm lB ''reddit_monitor'' outputSchema wB))"
proof -
  have cli: "fst (generateMockOutput realm rA tA nodeType outputSchema wA)
      = fst (generateMockOutput realm rB tB nodeType outputSchema wB)"
    if c: "constantDefaultsSchema outputSchema" and n: "nodeType \<noteq> ''reddit_monitor''"
      "nodeType \<noteq> ''twitter_monitor''"
  proof -
    from c constant_synthesis(2) [of outputSchema]
    obtain v where v: "\<And>u. generateMockFromSchema outputSchema u = (v, u)" by blast
    have "memberOf realm (JObj (customMocks rA tA)) nodeType
        = memberOf realm (JObj (customMocks rB tB)) nodeType"
      by (rule memberOf_table) (rule customMocks_clock_free [OF n])
    then show ?thesis by (simp add: generateMockOutput_def v)
  qed
  have web: "fst (getMockOutput realm lA nodeType outputSchema wA)
      = fst (getMockOutput realm lB nodeType outputSchema wB)"
    if c: "constantDefaultsSchema outputSchema" and n: "nodeType \<noteq> ''reddit_monitor''"
  proof -
    from c constant_synthesis_web(2) [of outputSchema]
    obtain v where v: "\<And>u. generateMockFromSchema_web outputSchema u = (v, u)" by blast
    have "memberOf realm (JObj (MOCK_OUTPUTS lA)) nodeType
        = memberOf realm (JObj (MOCK_OUTPUTS lB)) nodeType"
      by (rule memberOf_table) (rule MOCK_OUTPUTS_clock_free [OF n])
    then show ?thesis by (simp add: getMockOutput_def v)
  qed
  have reddit: "rA \<noteq> rB \<longrightarrow>
      fst (generateMockOutput realm rA tA ''reddit_monitor'' outputSchema wA)
      \<noteq> fst (generateMockOutput realm rB tB ''reddit_monitor'' outputSchema wB)"
    by (simp add: generateMockOutput_def customMocks_reddit)
  have twitter: "tA \<noteq> tB \<longrightarrow>
      fst (generateMockOutput realm rA tA ''twitter_monitor'' outputSchema wA)
      \<noteq> fst (generateMockOutput realm rB tB ''twitter_monitor'' outputSchema wB)"
    by (simp add: generateMockOutput_def customMocks_twitter)
  have webreddit: "lA \<noteq> lB \<longrightarrow>
      fst (getMockOutput realm lA ''reddit_monitor'' outputSchema wA)
      \<noteq> fst (getMockOutput realm lB ''reddit_monitor'' outputSchema wB)"
    by (simp add: getMockOutput_def MOCK_OUTPUTS_reddit)
  from cli web reddit twitter webreddit show ?thesis by blast
qed

theorem mock_output_clock_independent_witness:
  "constantDefaultsSchema
     (ZodSchema (ZodObject [(''limit'',
        ZodSchema (ZodDefault (ZodSchema ZodNumber None) (\<lambda>n. (JNum 10, n))) None)]) None
      :: nat zschema)
   \<and> ''map'' \<noteq> ''reddit_monitor'' \<and> ''map'' \<noteq> ''twitter_monitor''
   \<and> ''my_node'' \<noteq> ''reddit_monitor'' \<and> ''my_node'' \<noteq> ''twitter_monitor''
   \<and> fst (generateMockOutput exampleRealm ''2026-01-01T00:00:00.000Z''
        ''2026-01-01T00:00:00.000Z'' ''map''
        (ZodSchema (ZodObject [(''limit'',
           ZodSchema (ZodDefault (ZodSchema ZodNumber None) (\<lambda>n. (JNum 10, n))) None)]) None)
        (0::nat))
      = fst (generateMockOutput exampleRealm ''2026-01-01T00:00:00.001Z''
        ''2026-01-01T00:00:00.001Z'' ''map''
        (ZodSchema (ZodObject [(''limit'',
           ZodSchema (ZodDefault (ZodSchema ZodNumber None) (\<lambda>n. (JNum 10, n))) None)]) None)
        (Suc 0))
   \<and> fst (generateMockOutput exampleRealm ''2026-01-01T00:00:00.000Z''
        ''2026-01-01T00:00:00.000Z'' ''my_node''
        (ZodSchema (ZodObject [(''limit'',
           ZodSchema (ZodDefault (ZodSchema ZodNumber None) (\<lambda>n. (JNum 10, n))) None)]) None)
        (0::nat))
      = fst (generateMockOutput exampleRealm ''2026-01-01T00:00:00.001Z''
        ''2026-01-01T00:00:00.001Z'' ''my_node''
        (ZodSchema (ZodObject [(''limit'',
           ZodSchema (ZodDefault (ZodSchema ZodNumber None) (\<lambda>n. (JNum 10, n))) None)]) None)
        (Suc 0))
   \<and> ''2026-01-01T00:00:00.000Z'' \<noteq> ''2026-01-01T00:00:00.001Z''
   \<and> fst (getMockOutput exampleRealm ''2026-01-01T00:00:00.000Z'' ''reddit_monitor''
        (ZodSchema ZodString None) (0::nat))
      \<noteq> fst (getMockOutput exampleRealm ''2026-01-01T00:00:00.001Z'' ''reddit_monitor''
        (ZodSchema ZodString None) (0::nat))"
proof -
  let ?s = "ZodSchema (ZodObject [(''limit'',
        ZodSchema (ZodDefault (ZodSchema ZodNumber None) (\<lambda>n. (JNum 10, n))) None)]) None
      :: nat zschema"
  have c: "constantDefaultsSchema ?s" by simp
  have n: "''map'' \<noteq> ''reddit_monitor''" "''map'' \<noteq> ''twitter_monitor''"
    "''my_node'' \<noteq> ''reddit_monitor''" "''my_node'' \<noteq> ''twitter_monitor''"
    "''2026-01-01T00:00:00.000Z'' \<noteq> ''2026-01-01T00:00:00.001Z''"
    by simp_all
  note a = mock_output_clock_independent [where outputSchema = ?s and nodeType = "''map''"
      and realm = exampleRealm and rA = "''2026-01-01T00:00:00.000Z''"
      and tA = "''2026-01-01T00:00:00.000Z''" and rB = "''2026-01-01T00:00:00.001Z''"
      and tB = "''2026-01-01T00:00:00.001Z''" and wA = 0 and wB = "Suc 0"]
  note b = mock_output_clock_independent [where outputSchema = ?s and nodeType = "''my_node''"
      and realm = exampleRealm and rA = "''2026-01-01T00:00:00.000Z''"
      and tA = "''2026-01-01T00:00:00.000Z''" and rB = "''2026-01-01T00:00:00.001Z''"
      and tB = "''2026-01-01T00:00:00.001Z''" and wA = 0 and wB = "Suc 0"]
  note d = mock_output_clock_independent [where outputSchema = "ZodSchema ZodString None"
      and realm = exampleRealm and lA = "''2026-01-01T00:00:00.000Z''"
      and lB = "''2026-01-01T00:00:00.001Z''" and wA = "0::nat" and wB = "0::nat"]
  have ha: "constantDefaultsSchema ?s \<and> ''map'' \<noteq> ''reddit_monitor''
      \<and> ''map'' \<noteq> ''twitter_monitor''"
    by (intro conjI c n)
  have hb: "constantDefaultsSchema ?s \<and> ''my_node'' \<noteq> ''reddit_monitor''
      \<and> ''my_node'' \<noteq> ''twitter_monitor''"
    by (intro conjI c n)
  note ea = a [THEN conjunct1, THEN mp, OF ha]
  note eb = b [THEN conjunct1, THEN mp, OF hb]
  note ed = d [THEN conjunct2, THEN conjunct2, THEN conjunct2, THEN conjunct2, THEN mp, OF n(5)]
  show ?thesis by (intro conjI c n ea eb ed)
qed

section \<open>Properties of resolveNestedPath\<close>

lemma walkParts_undefined: "walkParts realm JUndefined parts = Inr JUndefined"
  by (cases parts) simp_all

lemma getMember_object:
  "truthy v \<Longrightarrow> typeofObject v \<Longrightarrow> getMember realm v k = Inr (memberOf realm v k)"
  by (cases v) simp_all

lemma walkParts_step:
  "truthy v \<Longrightarrow> typeofObject v \<Longrightarrow>
   walkParts realm v (part # parts) = walkParts realm (memberOf realm v part) parts"
  by (simp add: getMember_object)

lemma walkParts_not_object:
  "\<not> (truthy v \<and> typeofObject v) \<Longrightarrow> walkParts realm v (part # parts) = Inr JUndefined"
  by auto

lemma walkParts_total: "\<exists>r. walkParts realm v parts = Inr r"
proof (induction parts arbitrary: v)
  case Nil
  show ?case by simp
next
  case (Cons part parts)
  show ?case
  proof (cases "truthy v \<and> typeofObject v")
    case True
    then have "walkParts realm v (part # parts) = walkParts realm (memberOf realm v part) parts"
      by (simp only: walkParts_step)
    with Cons.IH [of "memberOf realm v part"] show ?thesis by simp
  next
    case False
    then have "walkParts realm v (part # parts) = Inr JUndefined"
      by (rule walkParts_not_object)
    then show ?thesis by blast
  qed
qed

lemma walkParts_append:
  "walkParts realm v (pre @ post) =
     (case walkParts realm v pre of Inl e \<Rightarrow> Inl e | Inr w \<Rightarrow> walkParts realm w post)"
proof (induction pre arbitrary: v)
  case Nil
  show ?case by simp
next
  case (Cons part pre)
  show ?case
  proof (cases "truthy v \<and> typeofObject v")
    case True
    then have s: "walkParts realm v (part # ps) = walkParts realm (memberOf realm v part) ps"
      for ps
      by (simp only: walkParts_step)
    from Cons.IH [of "memberOf realm v part"] show ?thesis
      by (simp only: append_Cons s)
  next
    case False
    then have u: "walkParts realm v (part # ps) = Inr JUndefined" for ps
      by (rule walkParts_not_object)
    show ?thesis
      by (cases post) (simp_all only: append_Cons u sum.case walkParts_undefined)
  qed
qed

lemma indexable_object: "indexable v \<Longrightarrow> truthy v \<and> typeofObject v"
  by (cases v) simp_all

lemma memberOf_own:
  "indexable v \<Longrightarrow> segmentOf v k = Some x \<Longrightarrow> memberOf realm v k = x"
  by (cases v) (simp_all add: memberOf_def)

lemma walkParts_spec_resolve:
  "spec_resolve v parts = Some r \<Longrightarrow> walkParts realm v parts = Inr r"
proof (induction parts arbitrary: v)
  case Nil
  then show ?case by simp
next
  case (Cons part parts)
  from Cons.prems have ix: "indexable v"
    by (simp split: if_splits)
  with Cons.prems obtain x where x: "segmentOf v part = Some x"
    and rest: "spec_resolve x parts = Some r"
    by (simp split: option.splits)
  from ix have "walkParts realm v (part # parts) = walkParts realm (memberOf realm v part) parts"
    by (simp only: walkParts_step indexable_object)
  with memberOf_own [OF ix x] Cons.IH [OF rest] show ?case by simp
qed

lemma split_nonempty: "split c s \<noteq> []"
  by (induction s) (simp_all split: list.splits)

lemma joinWith_Cons_Cons: "joinWith sep ((x # p) # ps) = x # joinWith sep (p # ps)"
  by (cases ps) simp_all

lemma joinWith_split: "joinWith [c] (split c s) = s"
proof (induction s)
  case Nil
  show ?case by simp
next
  case (Cons a s)
  obtain p ps where sp: "split c s = p # ps"
    using split_nonempty [of c s] by (cases "split c s") auto
  with Cons show ?case
    by (simp add: joinWith_Cons_Cons)
qed

lemma split_no_separator: "\<forall>seg\<in>set (split c s). c \<notin> set seg"
proof (induction s)
  case Nil
  show ?case by simp
next
  case (Cons a s)
  obtain p ps where sp: "split c s = p # ps"
    using split_nonempty [of c s] by (cases "split c s") auto
  with Cons show ?case by auto
qed

lemma isDigit_char_of: "d < 10 \<Longrightarrow> isDigit (char_of (48 + d :: nat))"
  by (simp add: isDigit_def)

lemma digit_value_char_of: "d < 10 \<Longrightarrow> (of_char (char_of (48 + d :: nat)) :: nat) - 48 = d"
  by simp

lemma char_of_digit_value: "isDigit c \<Longrightarrow> char_of (48 + ((of_char c :: nat) - 48)) = c"
  by (simp add: isDigit_def)

lemma of_char_zero: "(of_char c :: nat) = 48 \<longleftrightarrow> c = CHR ''0''"
proof
  assume "(of_char c :: nat) = 48"
  then have "(of_char c :: nat) = of_char CHR ''0''" by simp
  then show "c = CHR ''0''" by (simp only: of_char_eq_iff)
next
  assume "c = CHR ''0''"
  then show "(of_char c :: nat) = 48" by simp
qed

lemma digit_zero: "isDigit c \<Longrightarrow> c \<noteq> CHR ''0'' \<Longrightarrow> 0 < (of_char c :: nat) - 48"
proof -
  assume d: "isDigit c" and nz: "c \<noteq> CHR ''0''"
  from nz have "(of_char c :: nat) \<noteq> 48" by (simp only: of_char_zero not_False_eq_True)
  with d show ?thesis unfolding isDigit_def by arith
qed

lemma decimal_nonempty: "decimal n \<noteq> []"
  by (subst decimal.simps) simp

lemma decimal_digits: "list_all isDigit (decimal n)"
proof (induction n rule: decimal.induct)
  case (1 n)
  show ?case
  proof (cases "n < 10")
    case True
    then show ?thesis
      by (subst decimal.simps) (simp add: isDigit_char_of)
  next
    case False
    with 1 show ?thesis
      by (subst decimal.simps) (simp add: isDigit_char_of)
  qed
qed

lemma decimal_hd: "0 < n \<Longrightarrow> hd (decimal n) \<noteq> CHR ''0''"
proof (induction n rule: decimal.induct)
  case (1 n)
  show ?case
  proof (cases "n < 10")
    case True
    have "(of_char (char_of (48 + n) :: char) :: nat) = 48 + n"
      using True by simp
    with 1 have "(of_char (char_of (48 + n) :: char) :: nat) \<noteq> 48" by simp
    then have "char_of (48 + n) \<noteq> CHR ''0''" by (simp only: of_char_zero not_False_eq_True)
    with True show ?thesis
      by (subst decimal.simps) simp
  next
    case False
    then have "0 < n div 10" by simp
    with 1 False have "hd (decimal (n div 10)) \<noteq> CHR ''0''" by simp
    with False show ?thesis
      by (subst decimal.simps) (simp add: decimal_nonempty)
  qed
qed

lemma decimal_canonical: "length (decimal n) = 1 \<or> hd (decimal n) \<noteq> CHR ''0''"
proof (cases "0 < n")
  case True
  then show ?thesis by (simp add: decimal_hd)
next
  case False
  then show ?thesis by (subst decimal.simps) simp
qed

lemma decimal_value:
  "foldl (\<lambda>n c. 10 * n + ((of_char c :: nat) - 48)) 0 (decimal n) = n"
proof (induction n rule: decimal.induct)
  case (1 n)
  show ?case
  proof (cases "n < 10")
    case True
    then show ?thesis
      by (subst decimal.simps) simp
  next
    case False
    with 1 have "foldl (\<lambda>n c. 10 * n + ((of_char c :: nat) - 48)) 0 (decimal (n div 10))
                   = n div 10"
      by simp
    with False show ?thesis
      by (subst decimal.simps) simp
  qed
qed

lemma arrayIndex_decimal: "arrayIndex (decimal n) = Some n"
  using decimal_canonical [of n]
  by (simp add: arrayIndex_def decimal_nonempty decimal_digits decimal_value)

lemma digits_value_ge:
  "a \<le> foldl (\<lambda>n c. 10 * n + ((of_char c :: nat) - 48)) a k"
proof (induction k arbitrary: a)
  case Nil
  show ?case by simp
next
  case (Cons c k)
  have "a \<le> 10 * a + ((of_char c :: nat) - 48)" by simp
  also have "\<dots> \<le> foldl (\<lambda>n c. 10 * n + ((of_char c :: nat) - 48))
                      (10 * a + ((of_char c :: nat) - 48)) k"
    by (rule Cons.IH)
  finally show ?case by simp
qed

lemma digits_value_pos:
  assumes "list_all isDigit k" and "k \<noteq> []" and "hd k \<noteq> CHR ''0''"
  shows "0 < foldl (\<lambda>n c. 10 * n + ((of_char c :: nat) - 48)) 0 k"
proof -
  from assms(2) obtain c cs where k: "k = c # cs" by (cases k) auto
  with assms have "isDigit c" and "c \<noteq> CHR ''0''" by simp_all
  then have "0 < (of_char c :: nat) - 48" by (rule digit_zero)
  also have "\<dots> \<le> foldl (\<lambda>n c. 10 * n + ((of_char c :: nat) - 48))
                      ((of_char c :: nat) - 48) cs"
    by (rule digits_value_ge)
  finally show ?thesis by (simp add: k)
qed

lemma decimal_of_digits:
  "list_all isDigit k \<Longrightarrow> k \<noteq> [] \<Longrightarrow> length k = 1 \<or> hd k \<noteq> CHR ''0'' \<Longrightarrow>
   decimal (foldl (\<lambda>n c. 10 * n + ((of_char c :: nat) - 48)) 0 k) = k"
proof (induction k rule: rev_induct)
  case Nil
  then show ?case by simp
next
  case (snoc c ks)
  from snoc.prems(1) have dc: "isDigit c" and dks: "list_all isDigit ks" by simp_all
  from dc have small: "(of_char c :: nat) - 48 < 10" unfolding isDigit_def by arith
  show ?case
  proof (cases "ks = []")
    case True
    with small dc show ?thesis
      by (subst decimal.simps) (simp add: char_of_digit_value)
  next
    case False
    with snoc.prems(3) have h: "hd ks \<noteq> CHR ''0''" by (cases ks) auto
    from snoc.IH [OF dks False] h
    have ih: "decimal (foldl (\<lambda>n c. 10 * n + ((of_char c :: nat) - 48)) 0 ks) = ks"
      by simp
    from digits_value_pos [OF dks False h]
    have pos: "0 < foldl (\<lambda>n c. 10 * n + ((of_char c :: nat) - 48)) 0 ks" .
    define m where "m = foldl (\<lambda>n c. 10 * n + ((of_char c :: nat) - 48)) 0 ks"
    define d where "d = (of_char c :: nat) - 48"
    have v: "foldl (\<lambda>n c. 10 * n + ((of_char c :: nat) - 48)) 0 (ks @ [c]) = 10 * m + d"
      by (simp add: m_def d_def)
    from pos have big: "\<not> 10 * m + d < 10" by (simp add: m_def)
    from small have dv: "(10 * m + d) div 10 = m" and md: "(10 * m + d) mod 10 = d"
      by (simp_all add: d_def)
    have "decimal (10 * m + d) = decimal m @ [char_of (48 + d)]"
      using big by (subst decimal.simps) (simp only: dv md if_False)
    also have "decimal m = ks" using ih by (simp add: m_def)
    also have "char_of (48 + d) = c" using dc by (simp add: d_def char_of_digit_value)
    finally show ?thesis by (simp only: v)
  qed
qed

lemma arrayIndex_iff: "arrayIndex k = Some n \<longleftrightarrow> k = decimal n"
proof
  assume a: "arrayIndex k = Some n"
  then have c: "list_all isDigit k" "k \<noteq> []" "length k = 1 \<or> hd k \<noteq> CHR ''0''"
    and n: "n = foldl (\<lambda>n c. 10 * n + ((of_char c :: nat) - 48)) 0 k"
    by (auto simp add: arrayIndex_def split: if_splits)
  from decimal_of_digits [OF c] n show "k = decimal n" by simp
next
  assume "k = decimal n"
  then show "arrayIndex k = Some n" by (simp add: arrayIndex_decimal)
qed

lemma walkParts_at:
  "walkParts realm v pre = Inr w \<Longrightarrow>
   walkParts realm v (pre @ seg # post) = walkParts realm w (seg # post)"
  by (simp only: walkParts_append sum.case)

lemma memberOf_cases:
  "ownMember realm w seg = Some x \<Longrightarrow> memberOf realm w seg = x"
  "ownMember realm w seg = None \<Longrightarrow> inheritedMember realm w seg = Some m \<Longrightarrow>
   memberOf realm w seg = m"
  "ownMember realm w seg = None \<Longrightarrow> inheritedMember realm w seg = None \<Longrightarrow>
   memberOf realm w seg = JUndefined"
  by (simp_all add: memberOf_def)

text \<open>
  Claim C6, as the code has it. The claim reads: \<open>resolveNestedPath\<close> returns the
  absent marker whenever a segment is missing. In the code the read \<open>current[part]\<close>
  follows the prototype chain, so a segment that is no own property of the value can
  still resolve: over the empty variables object the path \<open>constructor\<close> yields the
  function \<open>Object\<close>, and over \<open>{a: {}}\<close> the path \<open>a.__proto__.__proto__\<close> yields \<open>null\<close>,
  where no segment after \<open>a\<close> is a key of the data.
\<close>

theorem resolveNestedPath_inherited_member:
  "resolveNestedPath exampleRealm (JObj []) ''constructor''
     = Inr (JFunction ''Object.prototype.constructor'')
   \<and> spec_resolve (JObj []) (split CHR ''.'' ''constructor'') = None
   \<and> resolveNestedPath exampleRealm (JObj [(''a'', JObj [])]) ''a.__proto__.__proto__''
       = Inr JNull
   \<and> spec_resolve (JObj [(''a'', JObj [])]) (split CHR ''.'' ''a.__proto__.__proto__'') = None"
  by (simp add: resolveNestedPath_def exampleRealm_def memberOf_def objectMethod_def)

text \<open>
  Claim C6, amended. For every realm, every variables value and every path,
  \<open>resolveNestedPath\<close> returns a value and throws nothing. It splits the path on \<open>.\<close>
  (the segments joined by \<open>.\<close> give the path back and no segment contains \<open>.\<close>) and
  walks the segments one by one:
  \<^item> when every segment names an own property of the object or array reached so far
    (a key of an object; \<open>length\<close> or an index in range of an array, an index being
    exactly the decimal numeral of a number), the result is the value at the path;
  \<^item> when the value reached with a segment left is not an object or array (\<open>undefined\<close>,
    \<open>null\<close>, a primitive or a function), the result is \<open>undefined\<close>;
  \<^item> when the segment names an own property of the value reached, the walk continues
    from that property;
  \<^item> when the segment names no own property but an inherited member (a method of the
    prototype, or \<open>__proto__\<close>), the walk continues from the inherited member;
  \<^item> when the segment names neither, the result is \<open>undefined\<close>.
  So \<open>a.b.c\<close> over \<open>{a: {b: {c: 42}}}\<close> gives 42, \<open>items.1.name\<close> reads the second element
  of an array, \<open>a.b\<close> over \<open>{a: 5}\<close> gives \<open>undefined\<close>, and \<open>a.b.c\<close> over \<open>{a: {}}\<close> gives
  \<open>undefined\<close> in every realm whose \<open>Object.prototype\<close> has no member \<open>b\<close>.
\<close>

theorem resolveNestedPath_walk:
  fixes realm :: realm and vars :: jsval and path :: string
  shows
    "(\<exists>v. resolveNestedPath realm vars path = Inr v)
     \<and> (\<forall>v. spec_resolve vars (split CHR ''.'' path) = Some v
            \<longrightarrow> resolveNestedPath realm vars path = Inr v)
     \<and> (\<forall>pre seg post w.
            split CHR ''.'' path = pre @ seg # post \<and> walkParts realm vars pre = Inr w
            \<and> \<not> (truthy w \<and> typeofObject w)
            \<longrightarrow> resolveNestedPath realm vars path = Inr JUndefined)
     \<and> (\<forall>pre seg post w x.
            split CHR ''.'' path = pre @ seg # post \<and> walkParts realm vars pre = Inr w
            \<and> truthy w \<and> typeofObject w \<and> ownMember realm w seg = Some x
            \<longrightarrow> resolveNestedPath realm vars path = walkParts realm x post)
     \<and> (\<forall>pre seg post w m.
            split CHR ''.'' path = pre @ seg # post \<and> walkParts realm vars pre = Inr w
            \<and> truthy w \<and> typeofObject w \<and> ownMember realm w seg = None
            \<and> inheritedMember realm w seg = Some m
            \<longrightarrow> resolveNestedPath realm vars path = walkParts realm m post)
     \<and> (\<forall>pre seg post w.
            split CHR ''.'' path = pre @ seg # post \<and> walkParts realm vars pre = Inr w
            \<and> truthy w \<and> typeofObject w \<and> ownMember realm w seg = None
            \<and> inheritedMember realm w seg = None
            \<longrightarrow> resolveNestedPath realm vars path = Inr JUndefined)
     \<and> joinWith ''.'' (split CHR ''.'' path) = path
     \<and> (\<forall>seg\<in>set (split CHR ''.'' path). CHR ''.'' \<notin> set seg)
     \<and> (\<forall>k n. arrayIndex k = Some n \<longleftrightarrow> k = decimal n)
     \<and> resolveNestedPath realm
           (JObj [(''a'', JObj [(''b'', JObj [(''c'', JNum 42)])])]) ''a.b.c'' = Inr (JNum 42)
     \<and> resolveNestedPath realm
           (JObj [(''items'', JArr [JObj [(''name'', JStr ''x'')], JObj [(''name'', JStr ''y'')]])])
           ''items.1.name'' = Inr (JStr ''y'')
     \<and> resolveNestedPath realm (JObj [(''a'', JNum 5)]) ''a.b'' = Inr JUndefined
     \<and> (''b'' \<notin> set (objectPrototypeMethods realm)
          \<longrightarrow> resolveNestedPath realm (JObj [(''a'', JObj [])]) ''a.b.c'' = Inr JUndefined)"
proof -
  have total: "\<exists>v. resolveNestedPath realm vars path = Inr v"
    unfolding resolveNestedPath_def by (rule walkParts_total)
  have own: "\<forall>v. spec_resolve vars (split CHR ''.'' path) = Some v
                 \<longrightarrow> resolveNestedPath realm vars path = Inr v"
    unfolding resolveNestedPath_def by (simp add: walkParts_spec_resolve)
  have at: "resolveNestedPath realm vars path = walkParts realm w (seg # post)"
    if "split CHR ''.'' path = pre @ seg # post" and "walkParts realm vars pre = Inr w"
    for pre seg post w
    unfolding resolveNestedPath_def using that by (simp only: walkParts_at)
  have c3: "\<forall>pre seg post w.
              split CHR ''.'' path = pre @ seg # post \<and> walkParts realm vars pre = Inr w
              \<and> \<not> (truthy w \<and> typeofObject w)
              \<longrightarrow> resolveNestedPath realm vars path = Inr JUndefined"
  proof (intro allI impI)
    fix pre seg post w
    assume h: "split CHR ''.'' path = pre @ seg # post \<and> walkParts realm vars pre = Inr w
               \<and> \<not> (truthy w \<and> typeofObject w)"
    then have "resolveNestedPath realm vars path = walkParts realm w (seg # post)"
      by (simp only: at)
    also from h have "\<dots> = Inr JUndefined"
      by (intro walkParts_not_object) simp
    finally show "resolveNestedPath realm vars path = Inr JUndefined" .
  qed
  have step: "resolveNestedPath realm vars path = walkParts realm (memberOf realm w seg) post"
    if "split CHR ''.'' path = pre @ seg # post" and "walkParts realm vars pre = Inr w"
      and "truthy w" and "typeofObject w"
    for pre seg post w
  proof -
    from that have "resolveNestedPath realm vars path = walkParts realm w (seg # post)"
      by (simp only: at)
    also from that have "\<dots> = walkParts realm (memberOf realm w seg) post"
      by (simp only: walkParts_step)
    finally show ?thesis .
  qed
  have c4: "\<forall>pre seg post w x.
              split CHR ''.'' path = pre @ seg # post \<and> walkParts realm vars pre = Inr w
              \<and> truthy w \<and> typeofObject w \<and> ownMember realm w seg = Some x
              \<longrightarrow> resolveNestedPath realm vars path = walkParts realm x post"
  proof (intro allI impI)
    fix pre seg post w x
    assume h: "split CHR ''.'' path = pre @ seg # post \<and> walkParts realm vars pre = Inr w
               \<and> truthy w \<and> typeofObject w \<and> ownMember realm w seg = Some x"
    then have "resolveNestedPath realm vars path = walkParts realm (memberOf realm w seg) post"
      by (simp only: step)
    with h show "resolveNestedPath realm vars path = walkParts realm x post"
      by (simp only: memberOf_cases)
  qed
  have c5: "\<forall>pre seg post w m.
              split CHR ''.'' path = pre @ seg # post \<and> walkParts realm vars pre = Inr w
              \<and> truthy w \<and> typeofObject w \<and> ownMember realm w seg = None
              \<and> inheritedMember realm w seg = Some m
              \<longrightarrow> resolveNestedPath realm vars path = walkParts realm m post"
  proof (intro allI impI)
    fix pre seg post w m
    assume h: "split CHR ''.'' path = pre @ seg # post \<and> walkParts realm vars pre = Inr w
               \<and> truthy w \<and> typeofObject w \<and> ownMember realm w seg = None
               \<and> inheritedMember realm w seg = Some m"
    then have "resolveNestedPath realm vars path = walkParts realm (memberOf realm w seg) post"
      by (simp only: step)
    with h show "resolveNestedPath realm vars path = walkParts realm m post"
      by (simp only: memberOf_cases)
  qed
  have c6: "\<forall>pre seg post w.
              split CHR ''.'' path = pre @ seg # post \<and> walkParts realm vars pre = Inr w
              \<and> truthy w \<and> typeofObject w \<and> ownMember realm w seg = None
              \<and> inheritedMember realm w seg = None
              \<longrightarrow> resolveNestedPath realm vars path = Inr JUndefined"
  proof (intro allI impI)
    fix pre seg post w
    assume h: "split CHR ''.'' path = pre @ seg # post \<and> walkParts realm vars pre = Inr w
               \<and> truthy w \<and> typeofObject w \<and> ownMember realm w seg = None
               \<and> inheritedMember realm w seg = None"
    then have "resolveNestedPath realm vars path = walkParts realm (memberOf realm w seg) post"
      by (simp only: step)
    with h show "resolveNestedPath realm vars path = Inr JUndefined"
      by (simp only: memberOf_cases walkParts_undefined)
  qed
  have c7: "joinWith ''.'' (split CHR ''.'' path) = path"
    by (rule joinWith_split)
  have c8: "\<forall>seg\<in>set (split CHR ''.'' path). CHR ''.'' \<notin> set seg"
    by (rule split_no_separator)
  have c9: "\<forall>k n. arrayIndex k = Some n \<longleftrightarrow> k = decimal n"
    by (simp only: arrayIndex_iff simp_thms)
  have e1: "resolveNestedPath realm
              (JObj [(''a'', JObj [(''b'', JObj [(''c'', JNum 42)])])]) ''a.b.c'' = Inr (JNum 42)"
    by (simp add: resolveNestedPath_def memberOf_def)
  have e2: "resolveNestedPath realm
              (JObj [(''items'', JArr [JObj [(''name'', JStr ''x'')], JObj [(''name'', JStr ''y'')]])])
              ''items.1.name'' = Inr (JStr ''y'')"
    by (simp add: resolveNestedPath_def memberOf_def arrayIndex_def isDigit_def)
  have e3: "resolveNestedPath realm (JObj [(''a'', JNum 5)]) ''a.b'' = Inr JUndefined"
    by (simp add: resolveNestedPath_def memberOf_def)
  have e4: "''b'' \<notin> set (objectPrototypeMethods realm)
            \<longrightarrow> resolveNestedPath realm (JObj [(''a'', JObj [])]) ''a.b.c'' = Inr JUndefined"
    by (simp add: resolveNestedPath_def memberOf_def objectMethod_def)
  from total own c3 c4 c5 c6 c7 c8 c9 e1 e2 e3 e4 show ?thesis
    by (intro conjI)
qed

theorem resolveNestedPath_walk_witness:
  "(spec_resolve (JObj [(''a'', JObj [(''b'', JObj [(''c'', JNum 42)])])])
      (split CHR ''.'' ''a.b.c'') = Some (JNum 42)
    \<and> resolveNestedPath exampleRealm (JObj [(''a'', JObj [(''b'', JObj [(''c'', JNum 42)])])])
        ''a.b.c'' = Inr (JNum 42))
   \<and> (split CHR ''.'' ''a.b'' = [''a''] @ ''b'' # []
      \<and> walkParts exampleRealm (JObj [(''a'', JNum 5)]) [''a''] = Inr (JNum 5)
      \<and> \<not> (truthy (JNum 5) \<and> typeofObject (JNum 5))
      \<and> resolveNestedPath exampleRealm (JObj [(''a'', JNum 5)]) ''a.b'' = Inr JUndefined)
   \<and> (split CHR ''.'' ''a.b.c'' = [] @ ''a'' # [''b'', ''c'']
      \<and> ownMember exampleRealm (JObj [(''a'', JObj [(''b'', JObj [(''c'', JNum 42)])])]) ''a''
          = Some (JObj [(''b'', JObj [(''c'', JNum 42)])])
      \<and> resolveNestedPath exampleRealm (JObj [(''a'', JObj [(''b'', JObj [(''c'', JNum 42)])])])
          ''a.b.c''
          = walkParts exampleRealm (JObj [(''b'', JObj [(''c'', JNum 42)])]) [''b'', ''c''])
   \<and> (split CHR ''.'' ''toString'' = [] @ ''toString'' # []
      \<and> ownMember exampleRealm (JObj []) ''toString'' = None
      \<and> inheritedMember exampleRealm (JObj []) ''toString''
          = Some (JFunction ''Object.prototype.toString'')
      \<and> resolveNestedPath exampleRealm (JObj []) ''toString''
          = Inr (JFunction ''Object.prototype.toString''))
   \<and> (split CHR ''.'' ''a.b.c'' = [''a''] @ ''b'' # [''c'']
      \<and> walkParts exampleRealm (JObj [(''a'', JObj [])]) [''a''] = Inr (JObj [])
      \<and> ownMember exampleRealm (JObj []) ''b'' = None
      \<and> inheritedMember exampleRealm (JObj []) ''b'' = None
      \<and> resolveNestedPath exampleRealm (JObj [(''a'', JObj [])]) ''a.b.c'' = Inr JUndefined)
   \<and> (''b'' \<in> set (split CHR ''.'' ''a.b.c'') \<and> CHR ''.'' \<notin> set ''b'')
   \<and> ''b'' \<notin> set (objectPrototypeMethods exampleRealm)"
proof -
  let ?abc = "JObj [(''a'', JObj [(''b'', JObj [(''c'', JNum 42)])])]"
  have h2: "spec_resolve ?abc (split CHR ''.'' ''a.b.c'') = Some (JNum 42)"
    by simp
  have w2: "resolveNestedPath exampleRealm ?abc ''a.b.c'' = Inr (JNum 42)"
    using resolveNestedPath_walk [of exampleRealm ?abc "''a.b.c''",
        THEN conjunct2, THEN conjunct1, rule_format, OF h2] .
  have h3: "split CHR ''.'' ''a.b'' = [''a''] @ ''b'' # []
            \<and> walkParts exampleRealm (JObj [(''a'', JNum 5)]) [''a''] = Inr (JNum 5)
            \<and> \<not> (truthy (JNum 5) \<and> typeofObject (JNum 5))"
    by (simp add: memberOf_def)
  have w3: "resolveNestedPath exampleRealm (JObj [(''a'', JNum 5)]) ''a.b'' = Inr JUndefined"
    using resolveNestedPath_walk [of exampleRealm "JObj [(''a'', JNum 5)]" "''a.b''",
        THEN conjunct2, THEN conjunct2, THEN conjunct1, rule_format, OF h3] .
  have h4: "split CHR ''.'' ''a.b.c'' = [] @ ''a'' # [''b'', ''c'']
            \<and> walkParts exampleRealm ?abc [] = Inr ?abc
            \<and> truthy ?abc \<and> typeofObject ?abc
            \<and> ownMember exampleRealm ?abc ''a'' = Some (JObj [(''b'', JObj [(''c'', JNum 42)])])"
    by simp
  have w4: "resolveNestedPath exampleRealm ?abc ''a.b.c''
              = walkParts exampleRealm (JObj [(''b'', JObj [(''c'', JNum 42)])]) [''b'', ''c'']"
    using resolveNestedPath_walk [of exampleRealm ?abc "''a.b.c''",
        THEN conjunct2, THEN conjunct2, THEN conjunct2, THEN conjunct1, rule_format, OF h4] .
  have h5: "split CHR ''.'' ''toString'' = [] @ ''toString'' # []
            \<and> walkParts exampleRealm (JObj []) [] = Inr (JObj [])
            \<and> truthy (JObj []) \<and> typeofObject (JObj [])
            \<and> ownMember exampleRealm (JObj []) ''toString'' = None
            \<and> inheritedMember exampleRealm (JObj []) ''toString''
                = Some (JFunction ''Object.prototype.toString'')"
    by (simp add: exampleRealm_def objectMethod_def)
  have "resolveNestedPath exampleRealm (JObj []) ''toString''
          = walkParts exampleRealm (JFunction ''Object.prototype.toString'') []"
    using resolveNestedPath_walk [of exampleRealm "JObj []" "''toString''",
        THEN conjunct2, THEN conjunct2, THEN conjunct2, THEN conjunct2, THEN conjunct1,
        rule_format, OF h5] .
  then have w5: "resolveNestedPath exampleRealm (JObj []) ''toString''
                   = Inr (JFunction ''Object.prototype.toString'')"
    by simp
  have h6: "split CHR ''.'' ''a.b.c'' = [''a''] @ ''b'' # [''c'']
            \<and> walkParts exampleRealm (JObj [(''a'', JObj [])]) [''a''] = Inr (JObj [])
            \<and> truthy (JObj []) \<and> typeofObject (JObj [])
            \<and> ownMember exampleRealm (JObj []) ''b'' = None
            \<and> inheritedMember exampleRealm (JObj []) ''b'' = None"
    by (simp add: exampleRealm_def objectMethod_def memberOf_def)
  have w6: "resolveNestedPath exampleRealm (JObj [(''a'', JObj [])]) ''a.b.c'' = Inr JUndefined"
    using resolveNestedPath_walk [of exampleRealm "JObj [(''a'', JObj [])]" "''a.b.c''",
        THEN conjunct2, THEN conjunct2, THEN conjunct2, THEN conjunct2, THEN conjunct2,
        THEN conjunct1, rule_format, OF h6] .
  have h8: "''b'' \<in> set (split CHR ''.'' ''a.b.c'')"
    by simp
  have w8: "CHR ''.'' \<notin> set ''b''"
    using resolveNestedPath_walk [of exampleRealm ?abc "''a.b.c''",
        THEN conjunct2, THEN conjunct2, THEN conjunct2, THEN conjunct2, THEN conjunct2,
        THEN conjunct2, THEN conjunct2, THEN conjunct1, rule_format, OF h8] .
  have h10: "''b'' \<notin> set (objectPrototypeMethods exampleRealm)"
    by (simp add: exampleRealm_def)
  from h2 w2 h3 w3 h4 w4 h5 w5 h6 w6 h8 w8 h10 show ?thesis
    by (intro conjI) (simp_all only: simp_thms)
qed

section \<open>Properties of the resilient fetch\<close>

lemma attemptLoop_always_retryable:
  "(\<And>k. retryable (endpoint k)) \<Longrightarrow>
   attemptLoop endpoint backoff n i waited =
     \<lparr> outcome = Inl (lastFailure (endpoint (i + n))), attempts = Suc (i + n),
       waitedMs = waited + n * backoff \<rparr>"
  by (induction n arbitrary: i waited) simp_all

text \<open>
  C7: with \<open>maxRetries = 3\<close>, against an endpoint that always answers with status 500
  \<open>fetchWithRetry\<close> performs exactly 4 attempts and then fails with the typed error
  carrying status 500; against an endpoint that answers with status 404 it performs
  exactly 1 attempt and returns a handle that is not ok.
\<close>

theorem fetchWithRetry_500_and_404:
  "fetchWithRetry (\<lambda>k. Responded 500 txt)
       \<lparr> maxRetries = 3, backoffMs = backoff, timeoutMs = timeout \<rparr>
     = \<lparr> outcome = Inl (FetchRetryError (Some 500) txt), attempts = 4,
         waitedMs = 3 * backoff \<rparr>
   \<and> fetchWithRetry (\<lambda>k. Responded 404 txt)
       \<lparr> maxRetries = 3, backoffMs = backoff, timeoutMs = timeout \<rparr>
     = \<lparr> outcome = Inr \<lparr> handle_ok = False, handle_status = 404, handle_text = txt \<rparr>, attempts = 1,
         waitedMs = 0 \<rparr>"
proof -
  have r: "\<And>k. retryable ((\<lambda>k. Responded 500 txt) k)"
    by (simp add: retryable_def)
  have a: "fetchWithRetry (\<lambda>k. Responded 500 txt)
       \<lparr> maxRetries = 3, backoffMs = backoff, timeoutMs = timeout \<rparr>
     = \<lparr> outcome = Inl (FetchRetryError (Some 500) txt), attempts = 4,
         waitedMs = 3 * backoff \<rparr>"
    unfolding fetchWithRetry_def
    by (simp add: attemptLoop_always_retryable [OF r] lastFailure_def)
  have b: "fetchWithRetry (\<lambda>k. Responded 404 txt)
       \<lparr> maxRetries = 3, backoffMs = backoff, timeoutMs = timeout \<rparr>
     = \<lparr> outcome = Inr \<lparr> handle_ok = False, handle_status = 404, handle_text = txt \<rparr>, attempts = 1,
         waitedMs = 0 \<rparr>"
    unfolding fetchWithRetry_def
    by (simp add: numeral_3_eq_3 retryable_def handleOf_def)
  from a b show ?thesis by simp
qed

section \<open>Properties of the social_ai_analyze executor\<close>

lemma catchToFailure_resolves: "\<exists>r. catchToFailure fallback b = Inr r"
  by (cases b) (auto simp: catchToFailure_def split: exn.splits)

lemma analyzeLoop_returns:
  "0 < ANALYSIS_BATCH_SIZE env \<Longrightarrow> \<exists>r. analyzeLoop env input allPosts i k acc = Some r"
proof (induction "length allPosts - i" arbitrary: i k acc rule: less_induct)
  case less
  show ?case
  proof (cases "i < length allPosts")
    case False
    then show ?thesis by (subst analyzeLoop.simps) simp
  next
    case True
    with less.prems have "length allPosts - (i + ANALYSIS_BATCH_SIZE env) < length allPosts - i"
      by arith
    from less.hyps [OF this less.prems] show ?thesis
      by (subst analyzeLoop.simps) (auto simp: Let_def split: sum.splits)
  qed
qed

lemma mergeAnalyses_scores:
  "\<forall>p\<in>set acc. MIN_RELEVANCE_SCORE env \<le> relevanceScore p \<Longrightarrow>
   \<forall>p\<in>set (mergeAnalyses env batch analyzed acc). MIN_RELEVANCE_SCORE env \<le> relevanceScore p"
proof (induction analyzed arbitrary: acc)
  case Nil
  then show ?case by simp
next
  case (Cons a rest)
  note keep = Cons.IH [OF Cons.prems]
  show ?case
  proof (cases "find (\<lambda>p. post_id p = analysis_id a) batch")
    case None
    with keep show ?thesis by simp
  next
    case (Some original)
    show ?thesis
    proof (cases "MIN_RELEVANCE_SCORE env \<le> analysis_relevanceScore a")
      case False
      with Some keep show ?thesis by simp
    next
      case high: True
      show ?thesis
      proof (cases "normalizeSentiment env (analysis_sentiment a)")
        case (Inl e)
        with Some high Cons.prems show ?thesis by simp
      next
        case sent: (Inr s)
        show ?thesis
        proof (cases "normalizeUrgency env (analysis_urgencyLevel a)")
          case (Inl e)
          with Some high sent Cons.prems show ?thesis by simp
        next
          case (Inr u)
          let ?x = "\<lparr> originalPost = original,
                     relevanceScore = analysis_relevanceScore a,
                     sentiment = s,
                     isComplaint = analysis_isComplaint a,
                     urgencyLevel = u,
                     aiSummary = (case analysis_aiSummary a of None \<Rightarrow> [] | Some t \<Rightarrow> t),
                     matchedKeywords = orEmpty (analysis_matchedKeywords a) \<rparr>"
          from Cons.prems high
          have "\<forall>p\<in>set (acc @ [?x]). MIN_RELEVANCE_SCORE env \<le> relevanceScore p"
            by simp
          from Cons.IH [OF this] Some high sent Inr show ?thesis by simp
        qed
      qed
    qed
  qed
qed

lemma analyzeBatch_scores:
  "\<forall>p\<in>set acc. MIN_RELEVANCE_SCORE env \<le> relevanceScore p \<Longrightarrow>
   \<forall>p\<in>set (analyzeBatch env batch responseText acc). MIN_RELEVANCE_SCORE env \<le> relevanceScore p"
  unfolding analyzeBatch_def
  using mergeAnalyses_scores [of acc env batch]
  by (simp split: option.splits sum.splits)

lemma analyzeLoop_scores_aux:
  "analyzeLoop env input allPosts i k acc = Some r \<Longrightarrow>
   \<forall>p\<in>set acc. MIN_RELEVANCE_SCORE env \<le> relevanceScore p \<Longrightarrow>
   (case r of Inl e \<Rightarrow> True
    | Inr res \<Rightarrow> \<forall>p\<in>set res. MIN_RELEVANCE_SCORE env \<le> relevanceScore p)"
proof (induction rule: analyzeLoop.raw_induct [rotated 1, consumes 1])
  case (1 loop env input allPosts i k acc r)
  show ?case
  proof (cases "i < length allPosts")
    case False
    with 1(2,3) show ?thesis by auto
  next
    case True
    show ?thesis
    proof (cases "buildAnalysisPrompt env (topic input) (userIntent input)
                    (take (ANALYSIS_BATCH_SIZE env) (drop i allPosts))")
      case (Inl e)
      with True 1(2) show ?thesis by (auto simp: Let_def)
    next
      case (Inr prompt)
      show ?thesis
      proof (cases "generateText (anthropic env k prompt)")
        case (Inl e)
        with True Inr 1(2) show ?thesis by (auto simp: Let_def)
      next
        case gen: (Inr responseText)
        from True Inr gen 1(2)
        have call: "loop env input allPosts (i + ANALYSIS_BATCH_SIZE env) (Suc k)
            (analyzeBatch env (take (ANALYSIS_BATCH_SIZE env) (drop i allPosts)) responseText acc)
            = Some r"
          by (simp add: Let_def)
        from 1(1) [OF call analyzeBatch_scores [OF 1(3)]] show ?thesis .
      qed
    qed
  qed
qed

lemma analyzeLoop_scores:
  "analyzeLoop env input allPosts i k [] = Some (Inr res) \<Longrightarrow>
   \<forall>p\<in>set res. MIN_RELEVANCE_SCORE env \<le> relevanceScore p"
  using analyzeLoop_scores_aux [of env input allPosts i k "[]" "Inr res"] by simp

lemma sorted_desc:
  "sorted_wrt (\<lambda>a b. relevanceScore b \<le> relevanceScore a)
     (sort_key (\<lambda>p. - relevanceScore p) xs)"
proof -
  have "sorted (map (\<lambda>p. - relevanceScore p) (sort_key (\<lambda>p. - relevanceScore p) xs))"
    by (rule sorted_sort_key)
  then have "sorted_wrt (\<lambda>a b. - relevanceScore a \<le> - relevanceScore b)
     (sort_key (\<lambda>p. - relevanceScore p) xs)"
    by (simp only: sorted_map)
  then show ?thesis by (simp only: neg_le_iff_le)
qed

lemma summarize_props:
  "analyzedPosts (summarize xs) = sort_key (\<lambda>p. - relevanceScore p) xs"
  "highPriorityPosts (summarize xs) =
     filter (\<lambda>p. urgencyLevel p = ''high'' \<or> 80 \<le> relevanceScore p)
       (analyzedPosts (summarize xs))"
  "complaints (summarize xs) = filter isComplaint (analyzedPosts (summarize xs))"
  "totalAnalyzed (summarize xs) = length (analyzedPosts (summarize xs))"
  "highPriorityCount (summarize xs) = length (highPriorityPosts (summarize xs))"
  "complaintCount (summarize xs) = length (complaints (summarize xs))"
  unfolding summarize_def Let_def by simp_all

lemma catchToFailure_Success:
  "catchToFailure fallback b = Inr (Success out) \<Longrightarrow> b = Inr (Success out)"
  unfolding catchToFailure_def
  by (simp split: sum.splits exn.splits)

lemma socialAiAnalyzeBody_Success:
  assumes "socialAiAnalyzeBody env input context = Some (Inr (Success out))"
  shows "out = summarize []
     \<or> (\<exists>allPosts res. analyzeLoop env input allPosts 0 0 [] = Some (Inr res)
           \<and> out = summarize res)"
proof (cases "missing (credentialsApiKey context ''anthropic'')")
  case True
  with assms show ?thesis by (simp add: socialAiAnalyzeBody_def)
next
  case keyed: False
  define allPosts where "allPosts = orEmpty (twitterPosts input) @ orEmpty (redditPosts input)
                           @ orEmpty (linkedinPosts input) @ orEmpty (posts input)"
  from assms have loop:
    "(if length allPosts = 0
      then Some (Inr (Success
                      \<lparr> analyzedPosts = [], highPriorityPosts = [], complaints = [],
                        totalAnalyzed = 0, highPriorityCount = 0, complaintCount = 0,
                        averageRelevance = 0 \<rparr>))
      else (case analyzeLoop env input allPosts 0 0 [] of
                       None \<Rightarrow> None
                     | Some (Inl e) \<Rightarrow> Some (Inl e)
                     | Some (Inr allAnalyzedPosts) \<Rightarrow>
                         Some (Inr (Success (summarize allAnalyzedPosts)))))
     = Some (Inr (Success out))"
    unfolding socialAiAnalyzeBody_def Let_def allPosts_def [symmetric]
    by (simp only: keyed if_False)
  show ?thesis
  proof (cases "length allPosts = 0")
    case True
    with loop have "out = \<lparr> analyzedPosts = [], highPriorityPosts = [], complaints = [],
                        totalAnalyzed = 0, highPriorityCount = 0, complaintCount = 0,
                        averageRelevance = 0 \<rparr>"
      by simp
    then show ?thesis unfolding summarize_def Let_def by simp
  next
    case False
    with loop
    have "(case analyzeLoop env input allPosts 0 0 [] of
                       None \<Rightarrow> None
                     | Some (Inl e) \<Rightarrow> Some (Inl e)
                     | Some (Inr allAnalyzedPosts) \<Rightarrow>
                         Some (Inr (Success (summarize allAnalyzedPosts))))
          = Some (Inr (Success out))"
      by (simp only: if_False)
    then obtain res where "analyzeLoop env input allPosts 0 0 [] = Some (Inr res)"
      and "out = summarize res"
      by (cases "analyzeLoop env input allPosts 0 0 []") (auto split: sum.splits)
    then show ?thesis by blast
  qed
qed

lemma analyzeLoop_done:
  "\<not> i < length allPosts \<Longrightarrow> analyzeLoop env input allPosts i k acc = Some (Inr acc)"
  by (subst analyzeLoop.simps) simp

lemma analyzeLoop_step:
  "i < length allPosts \<Longrightarrow>
   buildAnalysisPrompt env (topic input) (userIntent input)
     (take (ANALYSIS_BATCH_SIZE env) (drop i allPosts)) = Inr prompt \<Longrightarrow>
   generateText (anthropic env k prompt) = Inr responseText \<Longrightarrow>
   analyzeLoop env input allPosts i k acc =
     analyzeLoop env input allPosts (i + ANALYSIS_BATCH_SIZE env) (Suc k)
       (analyzeBatch env (take (ANALYSIS_BATCH_SIZE env) (drop i allPosts)) responseText acc)"
  by (subst analyzeLoop.simps) (simp add: Let_def)

lemma generateText_textResponse: "generateText (textResponse t) = Inr t"
  by (simp add: generateText_def textResponse_def)

lemma exampleAnalyzeEnv_fields:
  "ANALYSIS_BATCH_SIZE exampleAnalyzeEnv = 1"
  "MIN_RELEVANCE_SCORE exampleAnalyzeEnv = 30"
  "buildAnalysisPrompt exampleAnalyzeEnv t u b = Inr (''Analyze: '' @ t)"
  "anthropic exampleAnalyzeEnv 0 p = textResponse ''I cannot answer that.''"
  "anthropic exampleAnalyzeEnv (Suc k) p = textResponse ''Here you go: [analysis of p2]''"
  by (simp_all add: exampleAnalyzeEnv_def)

lemma analyzeBatch_example_unparseable:
  "analyzeBatch exampleAnalyzeEnv batch ''I cannot answer that.'' acc = acc"
  by (simp add: analyzeBatch_def matchBracketed_def)

lemma analyzeBatch_example_parsed:
  "analyzeBatch exampleAnalyzeEnv [\<lparr> post_id = ''p2'', post_fields = [] \<rparr>]
     ''Here you go: [analysis of p2]'' [] = [exampleAnalyzed]"
  by (simp add: analyzeBatch_def matchBracketed_def exampleAnalyzeEnv_def exampleAnalyzed_def
      orEmpty_def)

lemma analyzeLoop_example:
  "analyzeLoop exampleAnalyzeEnv exampleAnalyzeInput
     [\<lparr> post_id = ''p1'', post_fields = [] \<rparr>, \<lparr> post_id = ''p2'', post_fields = [] \<rparr>] 0 0 []
   = Some (Inr [exampleAnalyzed])"
proof -
  let ?ps = "[\<lparr> post_id = ''p1'', post_fields = [] \<rparr>, \<lparr> post_id = ''p2'', post_fields = [] \<rparr>]"
  have first: "analyzeLoop exampleAnalyzeEnv exampleAnalyzeInput ?ps 0 0 []
      = analyzeLoop exampleAnalyzeEnv exampleAnalyzeInput ?ps (Suc 0) (Suc 0) []"
    using analyzeLoop_step [of 0 ?ps exampleAnalyzeEnv exampleAnalyzeInput
        "''Analyze: '' @ topic exampleAnalyzeInput" 0 "''I cannot answer that.''" "[]"]
    by (simp add: exampleAnalyzeEnv_fields generateText_textResponse
        analyzeBatch_example_unparseable)
  have second: "analyzeLoop exampleAnalyzeEnv exampleAnalyzeInput ?ps (Suc 0) (Suc 0) []
      = analyzeLoop exampleAnalyzeEnv exampleAnalyzeInput ?ps (Suc (Suc 0)) (Suc (Suc 0))
          [exampleAnalyzed]"
    using analyzeLoop_step [of "Suc 0" ?ps exampleAnalyzeEnv exampleAnalyzeInput
        "''Analyze: '' @ topic exampleAnalyzeInput" "Suc 0" "''Here you go: [analysis of p2]''" "[]"]
    by (simp add: exampleAnalyzeEnv_fields generateText_textResponse
        analyzeBatch_example_parsed)
  have third: "analyzeLoop exampleAnalyzeEnv exampleAnalyzeInput ?ps (Suc (Suc 0)) (Suc (Suc 0))
        [exampleAnalyzed]
      = Some (Inr [exampleAnalyzed])"
    by (rule analyzeLoop_done) simp
  from first second third show ?thesis by simp
qed

lemma summarize_example: "summarize [exampleAnalyzed] = exampleAnalyzeOutput"
  by (simp add: summarize_def exampleAnalyzed_def exampleAnalyzeOutput_def mathRound_def Let_def)

lemma exampleContext_keys:
  "\<not> missing (credentialsApiKey exampleContext ''anthropic'')"
  "\<not> missing (credentialsApiKey exampleContext ''apollo'')"
  by (simp_all add: missing_def credentialsApiKey_def exampleContext_def)

lemma socialAiAnalyzeExecutor_example:
  "socialAiAnalyzeExecutor exampleAnalyzeEnv exampleAnalyzeInput exampleContext
   = Some (Inr (Success exampleAnalyzeOutput))"
proof -
  have all: "orEmpty (twitterPosts exampleAnalyzeInput) @ orEmpty (redditPosts exampleAnalyzeInput)
        @ orEmpty (linkedinPosts exampleAnalyzeInput) @ orEmpty (posts exampleAnalyzeInput)
      = [\<lparr> post_id = ''p1'', post_fields = [] \<rparr>, \<lparr> post_id = ''p2'', post_fields = [] \<rparr>]"
    by (simp add: exampleAnalyzeInput_def orEmpty_def)
  show ?thesis
    unfolding socialAiAnalyzeExecutor_def socialAiAnalyzeBody_def Let_def all
    by (simp add: exampleContext_keys analyzeLoop_example summarize_example catchToFailure_def)
qed
text \<open>
  C9: when \<open>social_ai_analyze\<close> succeeds, every analysed post has a relevance score of at
  least \<open>MIN_RELEVANCE_SCORE\<close>; the analysed posts are in non-increasing order of relevance
  score; \<open>totalAnalyzed\<close>, \<open>highPriorityCount\<close> and \<open>complaintCount\<close> are the lengths of
  \<open>analyzedPosts\<close>, \<open>highPriorityPosts\<close> and \<open>complaints\<close>; \<open>highPriorityPosts\<close> are exactly
  the analysed posts with urgency level \<open>high\<close> or relevance score at least 80, and
  \<open>complaints\<close> exactly those with \<open>isComplaint\<close> true.
\<close>

theorem socialAiAnalyze_output_invariants:
  assumes "socialAiAnalyzeExecutor env input context = Some (Inr (Success out))"
  shows "(\<forall>p\<in>set (analyzedPosts out). MIN_RELEVANCE_SCORE env \<le> relevanceScore p)
    \<and> sorted_wrt (\<lambda>a b. relevanceScore b \<le> relevanceScore a) (analyzedPosts out)
    \<and> totalAnalyzed out = length (analyzedPosts out)
    \<and> highPriorityCount out = length (highPriorityPosts out)
    \<and> complaintCount out = length (complaints out)
    \<and> highPriorityPosts out =
        filter (\<lambda>p. urgencyLevel p = ''high'' \<or> 80 \<le> relevanceScore p) (analyzedPosts out)
    \<and> complaints out = filter isComplaint (analyzedPosts out)"
proof -
  from assms obtain b where b: "socialAiAnalyzeBody env input context = Some b"
    and c: "catchToFailure ''Failed to analyze posts'' b = Inr (Success out)"
    unfolding socialAiAnalyzeExecutor_def by (cases "socialAiAnalyzeBody env input context") auto
  from c have "b = Inr (Success out)" by (rule catchToFailure_Success)
  with b have "socialAiAnalyzeBody env input context = Some (Inr (Success out))" by simp
  from socialAiAnalyzeBody_Success [OF this]
  have "\<exists>res. out = summarize res
      \<and> (\<forall>p\<in>set res. MIN_RELEVANCE_SCORE env \<le> relevanceScore p)"
  proof
    assume "out = summarize []"
    then have "out = summarize [] \<and> (\<forall>p\<in>set []. MIN_RELEVANCE_SCORE env \<le> relevanceScore p)"
      by simp
    then show ?thesis by (rule exI)
  next
    assume "\<exists>allPosts res. analyzeLoop env input allPosts 0 0 [] = Some (Inr res)
           \<and> out = summarize res"
    then obtain allPosts res where
      l: "analyzeLoop env input allPosts 0 0 [] = Some (Inr res)" and o: "out = summarize res"
      by blast
    from analyzeLoop_scores [OF l] o show ?thesis by blast
  qed
  then obtain res where out: "out = summarize res"
    and scores: "\<forall>p\<in>set res. MIN_RELEVANCE_SCORE env \<le> relevanceScore p"
    by blast
  have posts_eq: "analyzedPosts out = sort_key (\<lambda>p. - relevanceScore p) res"
    by (simp only: out summarize_props(1))
  have a: "\<forall>p\<in>set (analyzedPosts out). MIN_RELEVANCE_SCORE env \<le> relevanceScore p"
    using scores by (simp add: posts_eq)
  have s: "sorted_wrt (\<lambda>a b. relevanceScore b \<le> relevanceScore a) (analyzedPosts out)"
    by (simp only: posts_eq sorted_desc)
  have t: "totalAnalyzed out = length (analyzedPosts out)"
    by (simp only: out summarize_props(4))
  have h: "highPriorityCount out = length (highPriorityPosts out)"
    by (simp only: out summarize_props(5))
  have cc: "complaintCount out = length (complaints out)"
    by (simp only: out summarize_props(6))
  have hp: "highPriorityPosts out =
        filter (\<lambda>p. urgencyLevel p = ''high'' \<or> 80 \<le> relevanceScore p) (analyzedPosts out)"
    unfolding out by (rule summarize_props(2))
  have cp: "complaints out = filter isComplaint (analyzedPosts out)"
    unfolding out by (rule summarize_props(3))
  from a s t h cc hp cp show ?thesis by blast
qed

theorem socialAiAnalyze_output_invariants_witness:
  "socialAiAnalyzeExecutor exampleAnalyzeEnv exampleAnalyzeInput exampleContext
     = Some (Inr (Success exampleAnalyzeOutput))
   \<and> exampleAnalyzed \<in> set (analyzedPosts exampleAnalyzeOutput)
   \<and> MIN_RELEVANCE_SCORE exampleAnalyzeEnv \<le> relevanceScore exampleAnalyzed
   \<and> totalAnalyzed exampleAnalyzeOutput = length (analyzedPosts exampleAnalyzeOutput)
   \<and> complaints exampleAnalyzeOutput = filter isComplaint (analyzedPosts exampleAnalyzeOutput)"
proof -
  note inv = socialAiAnalyze_output_invariants [OF socialAiAnalyzeExecutor_example]
  have mem: "exampleAnalyzed \<in> set (analyzedPosts exampleAnalyzeOutput)"
    by (simp add: exampleAnalyzeOutput_def)
  from inv have "\<forall>p\<in>set (analyzedPosts exampleAnalyzeOutput).
      MIN_RELEVANCE_SCORE exampleAnalyzeEnv \<le> relevanceScore p"
    by (rule conjunct1)
  with mem have score: "MIN_RELEVANCE_SCORE exampleAnalyzeEnv \<le> relevanceScore exampleAnalyzed"
    by blast
  from inv have total: "totalAnalyzed exampleAnalyzeOutput = length (analyzedPosts exampleAnalyzeOutput)"
    by blast
  from inv have compl:
    "complaints exampleAnalyzeOutput = filter isComplaint (analyzedPosts exampleAnalyzeOutput)"
    by blast
  from socialAiAnalyzeExecutor_example mem score total compl show ?thesis by blast
qed

section \<open>Properties of the search_contacts executor\<close>

lemma enrichLoop_emails:
  "\<forall>c\<in>set acc. found_email c \<noteq> [] \<Longrightarrow>
   \<forall>c\<in>set (enrichLoop api results k acc). found_email c \<noteq> []"
proof (induction results arbitrary: k acc)
  case Nil
  then show ?case by simp
next
  case (Cons contact rest)
  note keep = Cons.IH [OF Cons.prems]
  show ?case
  proof (cases "person_id contact = []")
    case True
    with keep show ?thesis by simp
  next
    case idOk: False
    show ?thesis
    proof (cases "enrichApolloContact api k (person_id contact)")
      case (Inl e)
      with idOk keep show ?thesis by simp
    next
      case (Inr found)
      show ?thesis
      proof (cases found)
        case None
        with idOk Inr keep show ?thesis by simp
      next
        case (Some enriched)
        show ?thesis
        proof (cases "email enriched")
          case Absent
          with idOk Inr Some keep show ?thesis by simp
        next
          case IsNull
          with idOk Inr Some keep show ?thesis by simp
        next
          case (Present enrichedEmail)
          show ?thesis
          proof (cases "enrichedEmail = []")
            case True
            with idOk Inr Some Present keep show ?thesis by simp
          next
            case False
            with Cons.prems
            have "\<forall>c\<in>set (acc @ [toContact enriched enrichedEmail]). found_email c \<noteq> []"
              by (simp add: toContact_def Let_def)
            from Cons.IH [OF this] idOk Inr Some Present False show ?thesis by simp
          qed
        qed
      qed
    qed
  qed
qed

lemma enrichLoop_length:
  "length (enrichLoop api results k acc) \<le> length acc + length results"
proof (induction results arbitrary: k acc)
  case Nil
  show ?case by simp
next
  case (Cons contact rest)
  have keep: "length (enrichLoop api rest k' acc) \<le> Suc (length acc + length rest)" for k'
    using Cons.IH [of k' acc] by simp
  have push: "length (enrichLoop api rest k' (acc @ [x])) \<le> Suc (length acc + length rest)"
    for k' x
    using Cons.IH [of k' "acc @ [x]"] by simp
  show ?case
    by (simp only: enrichLoop.simps) (simp split: sum.split option.split nullish.split add: keep push)
qed

lemma found_email_toContact: "found_email (toContact enriched e) = e"
  by (simp add: toContact_def Let_def)

lemma enrichLoop_provenance:
  "\<forall>c\<in>set (enrichLoop api results k acc).
     c \<in> set acc
     \<or> (\<exists>p\<in>set results. \<exists>j enriched.
           person_id p \<noteq> [] \<and> enrichApolloContact api j (person_id p) = Inr (Some enriched)
           \<and> email enriched = Present (found_email c) \<and> c = toContact enriched (found_email c))"
proof (induction results arbitrary: k acc)
  case Nil
  show ?case by simp
next
  case (Cons contact rest)
  have keep: "\<forall>c\<in>set (enrichLoop api rest k' acc).
     c \<in> set acc
     \<or> (\<exists>p\<in>set (contact # rest). \<exists>j enriched.
           person_id p \<noteq> [] \<and> enrichApolloContact api j (person_id p) = Inr (Some enriched)
           \<and> email enriched = Present (found_email c) \<and> c = toContact enriched (found_email c))"
    for k'
    using Cons.IH [of k' acc] by auto
  show ?case
  proof (cases "person_id contact = []")
    case True
    with keep show ?thesis by simp
  next
    case idOk: False
    show ?thesis
    proof (cases "enrichApolloContact api k (person_id contact)")
      case (Inl e)
      with idOk keep show ?thesis by simp
    next
      case (Inr found)
      show ?thesis
      proof (cases found)
        case None
        with idOk Inr keep show ?thesis by simp
      next
        case (Some enriched)
        show ?thesis
        proof (cases "email enriched")
          case Absent
          with idOk Inr Some keep show ?thesis by simp
        next
          case IsNull
          with idOk Inr Some keep show ?thesis by simp
        next
          case (Present enrichedEmail)
          show ?thesis
          proof (cases "enrichedEmail = []")
            case True
            with idOk Inr Some Present keep show ?thesis by simp
          next
            case False
            have loop: "enrichLoop api (contact # rest) k acc
                = enrichLoop api rest (Suc k) (acc @ [toContact enriched enrichedEmail])"
              using idOk Inr Some Present False by simp
            show ?thesis
            proof
              fix c
              assume "c \<in> set (enrichLoop api (contact # rest) k acc)"
              then have "c \<in> set (enrichLoop api rest (Suc k)
                                     (acc @ [toContact enriched enrichedEmail]))"
                by (simp only: loop)
              with Cons.IH [of "Suc k" "acc @ [toContact enriched enrichedEmail]"]
              consider "c \<in> set acc" | "c = toContact enriched enrichedEmail"
                | "\<exists>p\<in>set rest. \<exists>j enriched.
                     person_id p \<noteq> [] \<and> enrichApolloContact api j (person_id p) = Inr (Some enriched)
                     \<and> email enriched = Present (found_email c)
                     \<and> c = toContact enriched (found_email c)"
                by auto
              then show "c \<in> set acc
                  \<or> (\<exists>p\<in>set (contact # rest). \<exists>j enriched.
                        person_id p \<noteq> [] \<and> enrichApolloContact api j (person_id p) = Inr (Some enriched)
                        \<and> email enriched = Present (found_email c)
                        \<and> c = toContact enriched (found_email c))"
              proof cases
                case 1
                then show ?thesis by simp
              next
                case 2
                then have "found_email c = enrichedEmail"
                  by (simp only: found_email_toContact)
                with 2 idOk Inr Some Present
                have "person_id contact \<noteq> []
                    \<and> enrichApolloContact api k (person_id contact) = Inr (Some enriched)
                    \<and> email enriched = Present (found_email c)
                    \<and> c = toContact enriched (found_email c)"
                  by simp
                then show ?thesis by auto
              next
                case 3
                then show ?thesis by auto
              qed
            qed
          qed
        qed
      qed
    qed
  qed
qed

lemma catchToFailure_Success_iff:
  "catchToFailure fallback b = Inr (Success out) \<longleftrightarrow> b = Inr (Success out)"
proof (cases b)
  case (Inl e)
  then show ?thesis by (cases e) (simp_all add: catchToFailure_def)
next
  case (Inr r)
  then show ?thesis by (simp add: catchToFailure_def)
qed

lemma searchApolloContacts_Inr:
  "searchApolloContacts api input = Inr results \<Longrightarrow>
   \<exists>response data.
     apolloSearch api (searchRequestBody input) = Inr response \<and> ok response
     \<and> jsonBody response = Inr data
     \<and> results = filter (\<lambda>p. has_email p = Present True)
                   (case people data of Present ps \<Rightarrow> ps | _ \<Rightarrow> [])"
  by (auto simp add: searchApolloContacts_def throwUnlessOk_def Let_def
      split: sum.splits if_splits)

lemma searchContactsBody_Success:
  "searchContactsBody api input context = Inr (Success out) \<Longrightarrow>
   \<exists>results. searchApolloContacts api input = Inr results
     \<and> found_contacts out = enrichLoop api results 0 [] \<and> totalFound out = length results"
  by (auto simp add: searchContactsBody_def split: if_splits sum.splits)

lemma searchContactsExecutor_example:
  "searchContactsExecutor exampleApollo exampleSearchInput exampleContext
     = Inr (Success \<lparr> found_contacts = [exampleFound], totalFound = 2 \<rparr>)"
  by (simp add: searchContactsExecutor_def catchToFailure_def searchContactsBody_def
      credentialsApiKey_def exampleContext_def missing_def searchApolloContacts_def
      exampleApollo_def throwUnlessOk_def examplePerson_def enrichApolloContact_def
      toContact_def stringOr_def trim_def isSpace_def exampleFound_def Let_def)

text \<open>
  C10: when the search_contacts executor succeeds, every contact of the output has
  a non-empty email; \<open>totalFound\<close> is the number of people of the search response
  flagged \<open>has_email = true\<close>, before any enrichment; every contact of the output is
  the enrichment of one of these people, with the email that the enrichment revealed;
  and the output holds at most \<open>totalFound\<close> contacts.
\<close>

theorem searchContacts_emails_and_total:
  assumes "searchContactsExecutor api input context = Inr (Success out)"
  shows "(\<forall>c\<in>set (found_contacts out). found_email c \<noteq> [])
    \<and> (\<exists>response data.
          apolloSearch api (searchRequestBody input) = Inr response \<and> ok response
          \<and> jsonBody response = Inr data
          \<and> totalFound out
              = length (filter (\<lambda>p. has_email p = Present True)
                          (case people data of Present ps \<Rightarrow> ps | _ \<Rightarrow> []))
          \<and> (\<forall>c\<in>set (found_contacts out).
                \<exists>p\<in>set (case people data of Present ps \<Rightarrow> ps | _ \<Rightarrow> []).
                \<exists>j enriched.
                  has_email p = Present True \<and> person_id p \<noteq> []
                  \<and> enrichApolloContact api j (person_id p) = Inr (Some enriched)
                  \<and> email enriched = Present (found_email c)
                  \<and> c = toContact enriched (found_email c)))
    \<and> length (found_contacts out) \<le> totalFound out"
proof -
  from assms have "searchContactsBody api input context = Inr (Success out)"
    by (simp only: searchContactsExecutor_def catchToFailure_Success_iff)
  then obtain results where r: "searchApolloContacts api input = Inr results"
    and c: "found_contacts out = enrichLoop api results 0 []"
    and t: "totalFound out = length results"
    using searchContactsBody_Success by blast
  from searchApolloContacts_Inr [OF r] obtain response data where
    s: "apolloSearch api (searchRequestBody input) = Inr response" "ok response"
       "jsonBody response = Inr data"
    and f: "results = filter (\<lambda>p. has_email p = Present True)
                        (case people data of Present ps \<Rightarrow> ps | _ \<Rightarrow> [])"
    by blast
  have emails: "\<forall>c\<in>set (found_contacts out). found_email c \<noteq> []"
    unfolding c by (rule enrichLoop_emails) simp
  have len: "length (found_contacts out) \<le> totalFound out"
    using enrichLoop_length [of api results 0 "[]"] by (simp add: c t)
  have prov: "\<forall>c\<in>set (found_contacts out).
                \<exists>p\<in>set (case people data of Present ps \<Rightarrow> ps | _ \<Rightarrow> []).
                \<exists>j enriched.
                  has_email p = Present True \<and> person_id p \<noteq> []
                  \<and> enrichApolloContact api j (person_id p) = Inr (Some enriched)
                  \<and> email enriched = Present (found_email c)
                  \<and> c = toContact enriched (found_email c)"
  proof
    fix x
    assume "x \<in> set (found_contacts out)"
    then have "x \<in> set (enrichLoop api results 0 [])" by (simp only: c)
    with enrichLoop_provenance [of api results 0 "[]"]
    obtain p j enriched where p: "p \<in> set results" and "person_id p \<noteq> []"
      "enrichApolloContact api j (person_id p) = Inr (Some enriched)"
      "email enriched = Present (found_email x)" "x = toContact enriched (found_email x)"
      by auto
    moreover from p have "p \<in> set (case people data of Present ps \<Rightarrow> ps | _ \<Rightarrow> [])"
      and "has_email p = Present True"
      by (simp_all add: f)
    ultimately show "\<exists>p\<in>set (case people data of Present ps \<Rightarrow> ps | _ \<Rightarrow> []).
                \<exists>j enriched.
                  has_email p = Present True \<and> person_id p \<noteq> []
                  \<and> enrichApolloContact api j (person_id p) = Inr (Some enriched)
                  \<and> email enriched = Present (found_email x)
                  \<and> x = toContact enriched (found_email x)"
      by blast
  qed
  from s t f prov have "\<exists>response data.
          apolloSearch api (searchRequestBody input) = Inr response \<and> ok response
          \<and> jsonBody response = Inr data
          \<and> totalFound out
              = length (filter (\<lambda>p. has_email p = Present True)
                          (case people data of Present ps \<Rightarrow> ps | _ \<Rightarrow> []))
          \<and> (\<forall>c\<in>set (found_contacts out).
                \<exists>p\<in>set (case people data of Present ps \<Rightarrow> ps | _ \<Rightarrow> []).
                \<exists>j enriched.
                  has_email p = Present True \<and> person_id p \<noteq> []
                  \<and> enrichApolloContact api j (person_id p) = Inr (Some enriched)
                  \<and> email enriched = Present (found_email c)
                  \<and> c = toContact enriched (found_email c))"
    by blast
  with emails len show ?thesis by blast
qed

theorem searchContacts_emails_and_total_witness:
  "searchContactsExecutor exampleApollo exampleSearchInput exampleContext
     = Inr (Success \<lparr> found_contacts = [exampleFound], totalFound = 2 \<rparr>)
   \<and> found_email exampleFound \<noteq> []
   \<and> length [exampleFound] \<le> 2"
proof -
  note run = searchContactsExecutor_example
  from searchContacts_emails_and_total [OF run]
  have "\<forall>c\<in>set [exampleFound]. found_email c \<noteq> []"
    and "length [exampleFound] \<le> 2"
    by simp_all
  with run show ?thesis by simp
qed

section \<open>A failing unit of work is skipped\<close>


lemma draftLoop_skip:
  "contact_email c = Some addr \<Longrightarrow> addr \<noteq> [] \<Longrightarrow>
   draftOne env input s c addr k = (Inl e, k') \<Longrightarrow>
   draftLoop env input s (c # rest) k drafted = draftLoop env input s rest k' drafted"
  by simp




















section \<open>No exception crosses the executor boundary\<close>

lemma extractHashtags_example:
  "extractHashtags ''Hi #ai and ##ml_2! # x#'' = [''ai'', ''ml_2'']"
  by (simp add: extractHashtags_def isWordChar_def)

lemma extractHandleFromUrl_example:
  "extractHandleFromUrl ''https://www.linkedin.com/in/jane-doe?trk=1'' = ''jane-doe''
   \<and> extractHandleFromUrl ''https://www.linkedin.com/company/acme/'' = ''acme''
   \<and> extractHandleFromUrl ''https://example.com/people/bob?x'' = ''bob''
   \<and> extractHandleFromUrl [] = ''unknown''"
  by (simp add: extractHandleFromUrl_def handleAfter_def Let_def)

lemma buildTwitterSearchQuery_example:
  "buildTwitterSearchQuery env [''typescript'', ''node js''] True (Some 0) (Some ''2026-01-01'') None
     = ''(typescript OR '' @ [CHR 0x22] @ ''node js'' @ [CHR 0x22] @ '') -is:retweet since:2026-01-01''"
  by (simp add: buildTwitterSearchQuery_def Let_def)

lemma sliceTo_example:
  "sliceTo 2 [a, b, c] = [a, b] \<and> sliceTo (5 / 2) [a, b, c] = [a, b]
   \<and> sliceTo (- 1) [a, b, c] = [a, b] \<and> sliceTo (- 1 / 2) [a, b, c] = []
   \<and> sliceTo 50 [a, b, c] = [a, b, c]"
  by (simp add: sliceTo_def Let_def)

lemma pollLoop_returns:
  assumes "\<not> soraClock env (Suc (Suc deadline)) - startTime < 300000"
  shows "n \<le> deadline \<Longrightarrow> \<exists>r. pollLoop env videoId startTime n = Some r"
proof (induction "deadline - n" arbitrary: n rule: less_induct)
  case less
  show ?case
  proof (cases "soraClock env (Suc (Suc n)) - startTime < 300000")
    case False
    then show ?thesis by (subst pollLoop.simps) simp
  next
    case True
    with assms have "n \<noteq> deadline" by auto
    with less.prems have "deadline - Suc n < deadline - n" and "Suc n \<le> deadline"
      by arith+
    from less.hyps [OF this] obtain r where "pollLoop env videoId startTime (Suc n) = Some r"
      by blast
    then show ?thesis
      by (subst pollLoop.simps) (simp split: sum.splits)
  qed
qed

lemma soraVideoExecutor_returns:
  assumes "300000 \<le> soraClock env (Suc (Suc deadline)) - soraClock env 1"
  shows "\<exists>r. soraVideoExecutor env input ctx = Some (Inr r)"
proof -
  from assms have "\<not> soraClock env (Suc (Suc deadline)) - soraClock env 1 < 300000"
    by simp
  from pollLoop_returns [OF this, of 0] have wait: "\<exists>r. waitForVideoCompletion env v = Some r" for v
    by (simp add: waitForVideoCompletion_def)
  have "\<exists>b. soraVideoBody env input ctx = Some b"
  proof (cases "missing (credentialsField ctx ''openai'' ''apiKey'')")
    case True
    then show ?thesis by (simp add: soraVideoBody_def)
  next
    case False
    show ?thesis
    proof (cases "createSoraVideo env
                       \<lparr> form_prompt = sora_prompt input,
                         form_model = textOr (sora_model input) ''sora-2'',
                         form_seconds = numberOr (sora_seconds input) 4,
                         form_size = textOr (sora_size input) ''1280x720'' \<rparr>")
      case (Inl e)
      with False show ?thesis by (simp add: soraVideoBody_def Let_def)
    next
      case (Inr createResponse)
      from wait [of "created_id createResponse"] obtain r
        where "waitForVideoCompletion env (created_id createResponse) = Some r"
        by blast
      with False Inr show ?thesis
        by (cases r) (auto simp add: soraVideoBody_def Let_def split: option.splits)
    qed
  qed
  then obtain b where "soraVideoBody env input ctx = Some b" by blast
  with catchToFailure_resolves [of "''Failed to generate video''" b] show ?thesis
    by (auto simp add: soraVideoExecutor_def)
qed

lemma socialAiAnalyzeExecutor_returns:
  assumes "0 < ANALYSIS_BATCH_SIZE env"
  shows "\<exists>r. socialAiAnalyzeExecutor env input ctx = Some (Inr r)"
proof -
  have "\<exists>b. socialAiAnalyzeBody env input ctx = Some b"
  proof -
    let ?all = "orEmpty (twitterPosts input) @ orEmpty (redditPosts input)
                @ orEmpty (linkedinPosts input) @ orEmpty (posts input)"
    from analyzeLoop_returns [OF assms] obtain r
      where "analyzeLoop env input ?all 0 0 [] = Some r"
      by blast
    then show ?thesis
      by (cases r) (simp_all add: socialAiAnalyzeBody_def Let_def)
  qed
  then obtain b where "socialAiAnalyzeBody env input ctx = Some b" by blast
  with catchToFailure_resolves [of "''Failed to analyze posts''" b] show ?thesis
    by (auto simp add: socialAiAnalyzeExecutor_def)
qed

lemma pollLoop_example:
  "pollLoop exampleSoraEnv ''video_1'' (soraClock exampleSoraEnv 1) 0
     = Some (Inl (ErrorObject ''Error'' ''Video generation timed out''))"
proof -
  have first: "pollLoop exampleSoraEnv ''video_1'' (soraClock exampleSoraEnv 1) 0
      = pollLoop exampleSoraEnv ''video_1'' (soraClock exampleSoraEnv 1) (Suc 0)"
    by (subst pollLoop.simps)
       (simp add: exampleSoraEnv_def getSoraVideoStatus_def throwUnlessOk_def)
  have second: "pollLoop exampleSoraEnv ''video_1'' (soraClock exampleSoraEnv 1) (Suc 0)
      = Some (Inl (ErrorObject ''Error'' ''Video generation timed out''))"
    by (subst pollLoop.simps) (simp add: exampleSoraEnv_def)
  from first second show ?thesis by simp
qed

lemma waitForVideoCompletion_example:
  "waitForVideoCompletion exampleSoraEnv ''video_1''
     = Some (Inl (ErrorObject ''Error'' ''Video generation timed out''))"
  unfolding waitForVideoCompletion_def by (rule pollLoop_example)

lemma soraVideoExecutor_example:
  "soraVideoExecutor exampleSoraEnv exampleSoraInput exampleSoraContext
     = Some (Inr (Failure ''Video generation timed out''))"
proof -
  have created: "createSoraVideo exampleSoraEnv request
      = Inr \<lparr> created_id = ''video_1'', created_status = ''pending'' \<rparr>" for request
    by (simp add: createSoraVideo_def exampleSoraEnv_def throwUnlessOk_def)
  have key: "\<not> missing (credentialsField exampleSoraContext ''openai'' ''apiKey'')"
    by (simp add: missing_def credentialsField_def exampleSoraContext_def)
  show ?thesis
    by (simp add: soraVideoExecutor_def soraVideoBody_def key created
        waitForVideoCompletion_example catchToFailure_def Let_def)
qed

lemma socialKeywordGeneratorExecutor_example:
  "socialKeywordGeneratorExecutor exampleKeywordEnv exampleKeywordInput exampleContext
     = Inr (Failure ''HTTP 500'')"
  by (simp add: socialKeywordGeneratorExecutor_def keywordGeneratorBody_def exampleContext_keys
      exampleKeywordEnv_def generateText_def catchToFailure_def)

text \<open>
  C4: each of the seven node executors returns a result, \<open>{success: true, output}\<close> or
  \<open>{success: false, error}\<close>, and throws nothing, for every input, every execution
  context and every behaviour of the services and helpers it calls: draft_emails,
  social_keyword_generator, search_contacts, twitter_monitor and linkedin_monitor
  without condition; social_ai_analyze when the batch size is positive, so that its
  loop advances; sora_video when some reading of the clock in the polling loop reaches
  the deadline of five minutes.
\<close>

theorem executors_resolve:
  fixes denv :: "'d draft_env_scheme" and kenv :: "'k keyword_env_scheme"
    and aenv :: "'a analyze_env_scheme"
  shows
    "(\<exists>r. draftEmailsExecutor denv dinput ctx = Inr r)
     \<and> (\<exists>r. socialKeywordGeneratorExecutor kenv kinput ctx = Inr r)
     \<and> (0 < ANALYSIS_BATCH_SIZE aenv
          \<longrightarrow> (\<exists>r. socialAiAnalyzeExecutor aenv ainput ctx = Some (Inr r)))
     \<and> (\<exists>r. searchContactsExecutor api sinput ctx = Inr r)
     \<and> (\<exists>r. twitterMonitorExecutor tenv tinput ctx = Inr r)
     \<and> (\<exists>r. linkedinMonitorExecutor lenv linput ctx = Inr r)
     \<and> (300000 \<le> soraClock senv (Suc (Suc deadline)) - soraClock senv 1
          \<longrightarrow> (\<exists>r. soraVideoExecutor senv vinput ctx = Some (Inr r)))"
proof -
  have d: "\<exists>r. draftEmailsExecutor denv dinput ctx = Inr r"
    unfolding draftEmailsExecutor_def by (rule catchToFailure_resolves)
  have k: "\<exists>r. socialKeywordGeneratorExecutor kenv kinput ctx = Inr r"
    unfolding socialKeywordGeneratorExecutor_def by (rule catchToFailure_resolves)
  have a: "0 < ANALYSIS_BATCH_SIZE aenv
          \<longrightarrow> (\<exists>r. socialAiAnalyzeExecutor aenv ainput ctx = Some (Inr r))"
    by (simp add: socialAiAnalyzeExecutor_returns)
  have s: "\<exists>r. searchContactsExecutor api sinput ctx = Inr r"
    unfolding searchContactsExecutor_def by (rule catchToFailure_resolves)
  have t: "\<exists>r. twitterMonitorExecutor tenv tinput ctx = Inr r"
    unfolding twitterMonitorExecutor_def by (rule catchToFailure_resolves)
  have l: "\<exists>r. linkedinMonitorExecutor lenv linput ctx = Inr r"
    unfolding linkedinMonitorExecutor_def by (rule catchToFailure_resolves)
  have v: "300000 \<le> soraClock senv (Suc (Suc deadline)) - soraClock senv 1
          \<longrightarrow> (\<exists>r. soraVideoExecutor senv vinput ctx = Some (Inr r))"
    using soraVideoExecutor_returns [of senv deadline vinput ctx] by blast
  from d k a s t l v show ?thesis
    by (intro conjI)
qed

theorem executors_resolve_witness:
  "0 < ANALYSIS_BATCH_SIZE exampleAnalyzeEnv
   \<and> socialAiAnalyzeExecutor exampleAnalyzeEnv exampleAnalyzeInput exampleContext \<noteq> None
   \<and> socialAiAnalyzeExecutor exampleAnalyzeEnv exampleAnalyzeInput exampleContext
       = Some (Inr (Success exampleAnalyzeOutput))
   \<and> 300000 \<le> soraClock exampleSoraEnv (Suc (Suc (Suc 0))) - soraClock exampleSoraEnv 1
   \<and> soraVideoExecutor exampleSoraEnv exampleSoraInput exampleSoraContext \<noteq> None
   \<and> soraVideoExecutor exampleSoraEnv exampleSoraInput exampleSoraContext
       = Some (Inr (Failure ''Video generation timed out''))
   \<and> socialKeywordGeneratorExecutor exampleKeywordEnv exampleKeywordInput exampleContext
       = Inr (Failure ''HTTP 500'')"
proof -
  note run = executors_resolve [where aenv = exampleAnalyzeEnv and ainput = exampleAnalyzeInput
      and ctx = exampleContext and senv = exampleSoraEnv and vinput = exampleSoraInput
      and deadline = "Suc 0"]
  note video = executors_resolve [where senv = exampleSoraEnv and vinput = exampleSoraInput
      and ctx = exampleSoraContext and deadline = "Suc 0"]
  have pos: "0 < ANALYSIS_BATCH_SIZE exampleAnalyzeEnv"
    by (simp add: exampleAnalyzeEnv_fields)
  from run [THEN conjunct2, THEN conjunct2, THEN conjunct1, THEN mp, OF pos]
  have w1: "socialAiAnalyzeExecutor exampleAnalyzeEnv exampleAnalyzeInput exampleContext \<noteq> None"
    by auto
  have late: "300000 \<le> soraClock exampleSoraEnv (Suc (Suc (Suc 0))) - soraClock exampleSoraEnv 1"
    by (simp add: exampleSoraEnv_def)
  from video [THEN conjunct2, THEN conjunct2, THEN conjunct2, THEN conjunct2, THEN conjunct2,
      THEN conjunct2, THEN mp, OF late]
  have w2: "soraVideoExecutor exampleSoraEnv exampleSoraInput exampleSoraContext \<noteq> None"
    by auto
  from pos w1 socialAiAnalyzeExecutor_example late w2 soraVideoExecutor_example
    socialKeywordGeneratorExecutor_example
  show ?thesis by (intro conjI)
qed

end
